theory Spec2Isabelle
  imports Complex_Main "HOL-Library.Word" "HOL-Library.Sublist"
begin

unbundle bit_operations_syntax

section \<open>JavaScript numbers\<close>

text \<open>
  The glitch library is TypeScript: every numeric expression is a JavaScript number
  (an IEEE-754 double). A number is modelled as a finite real, NaN or an infinity; the
  two zeros are identified (the transforms never divide by a negative zero).
  Each arithmetic operation computes the exact real result and rounds it to a double.
  The rounding, \<open>Math.pow\<close> (which JavaScript leaves implementation-approximated) and the
  conversions between numbers and strings are parameters of the model, collected in
  \<open>jsenv\<close>: every definition below takes them as its first argument.

  Expressions built only from loop counters, image dimensions, buffer lengths and
  integer literals are integers far below \<open>2 ^ 53\<close>, where doubles are exact; they are
  written with \<open>nat\<close> and \<open>int\<close> arithmetic directly.
\<close>

datatype jsnum = Fin real | NaN | PInf | NInf

record jsenv =
  fround :: "real \<Rightarrow> jsnum"
  fpow :: "jsnum \<Rightarrow> jsnum \<Rightarrow> jsnum"
  num_of_str :: "string \<Rightarrow> jsnum"
  str_of_num :: "jsnum \<Rightarrow> string"

text \<open>Doubles represent every integer up to \<open>2 ^ 53\<close>, and every quarter of one.\<close>

definition exact_small :: "jsenv \<Rightarrow> bool" where
  "exact_small env =
     (\<forall>k::int. \<bar>k\<bar> \<le> 2 ^ 53 \<longrightarrow> fround env (of_int k / 4) = Fin (of_int k / 4))"

text \<open>
  An environment that rounds nothing, for running the model on inputs whose arithmetic
  stays within exactly representable numbers; \<open>Math.pow\<close> and the string conversions
  are not exercised under it.
\<close>

definition exact_env :: jsenv where
  "exact_env = \<lparr>fround = Fin, fpow = (\<lambda>a b. NaN), num_of_str = (\<lambda>s. NaN), str_of_num = (\<lambda>n. [])\<rparr>"

fun nneg :: "jsnum \<Rightarrow> jsnum" where
  "nneg (Fin x) = Fin (- x)"
| "nneg NaN = NaN"
| "nneg PInf = NInf"
| "nneg NInf = PInf"

fun nadd :: "jsenv \<Rightarrow> jsnum \<Rightarrow> jsnum \<Rightarrow> jsnum" where
  "nadd env NaN b = NaN"
| "nadd env a NaN = NaN"
| "nadd env (Fin x) (Fin y) = fround env (x + y)"
| "nadd env PInf NInf = NaN"
| "nadd env NInf PInf = NaN"
| "nadd env PInf b = PInf"
| "nadd env NInf b = NInf"
| "nadd env a PInf = PInf"
| "nadd env a NInf = NInf"

definition nsub :: "jsenv \<Rightarrow> jsnum \<Rightarrow> jsnum \<Rightarrow> jsnum" where
  "nsub env a b = nadd env a (nneg b)"

text \<open>The sign of a number: \<open>1\<close>, \<open>0\<close> or \<open>-1\<close> (NaN is handled before it is asked).\<close>

fun nsign :: "jsnum \<Rightarrow> int" where
  "nsign (Fin x) = (if x > 0 then 1 else if x < 0 then - 1 else 0)"
| "nsign PInf = 1"
| "nsign NInf = - 1"
| "nsign NaN = 0"

definition inf_of_sign :: "int \<Rightarrow> jsnum" where
  "inf_of_sign k = (if k > 0 then PInf else if k < 0 then NInf else NaN)"

fun is_fin :: "jsnum \<Rightarrow> bool" where
  "is_fin (Fin x) = True"
| "is_fin a = False"

fun nmul :: "jsenv \<Rightarrow> jsnum \<Rightarrow> jsnum \<Rightarrow> jsnum" where
  "nmul env NaN b = NaN"
| "nmul env a NaN = NaN"
| "nmul env (Fin x) (Fin y) = fround env (x * y)"
| "nmul env a b = inf_of_sign (nsign a * nsign b)"

fun ndiv :: "jsenv \<Rightarrow> jsnum \<Rightarrow> jsnum \<Rightarrow> jsnum" where
  "ndiv env NaN b = NaN"
| "ndiv env a NaN = NaN"
| "ndiv env (Fin x) (Fin y) = (if y = 0 then inf_of_sign (nsign (Fin x)) else fround env (x / y))"
| "ndiv env (Fin x) b = Fin 0"
| "ndiv env a (Fin y) = inf_of_sign (nsign a * (if y < 0 then - 1 else 1))"
| "ndiv env a b = NaN"

text \<open>The remainder \<open>%\<close> truncates towards zero and is exact.\<close>

definition trunc :: "real \<Rightarrow> int" where
  "trunc x = (if x \<ge> 0 then \<lfloor>x\<rfloor> else \<lceil>x\<rceil>)"

fun nmod :: "jsnum \<Rightarrow> jsnum \<Rightarrow> jsnum" where
  "nmod (Fin x) (Fin y) = (if y = 0 then NaN else Fin (x - y * of_int (trunc (x / y))))"
| "nmod (Fin x) PInf = Fin x"
| "nmod (Fin x) NInf = Fin x"
| "nmod a b = NaN"

fun nlt :: "jsnum \<Rightarrow> jsnum \<Rightarrow> bool" where
  "nlt (Fin x) (Fin y) = (x < y)"
| "nlt NaN b = False"
| "nlt a NaN = False"
| "nlt a NInf = False"
| "nlt PInf b = False"
| "nlt a b = True"

fun neq :: "jsnum \<Rightarrow> jsnum \<Rightarrow> bool" where
  "neq NaN b = False"
| "neq a NaN = False"
| "neq a b = (a = b)"

definition nle :: "jsnum \<Rightarrow> jsnum \<Rightarrow> bool" where
  "nle a b = (nlt a b \<or> neq a b)"

fun nfloor :: "jsnum \<Rightarrow> jsnum" where
  "nfloor (Fin x) = Fin (of_int \<lfloor>x\<rfloor>)"
| "nfloor a = a"

fun nceil :: "jsnum \<Rightarrow> jsnum" where
  "nceil (Fin x) = Fin (of_int \<lceil>x\<rceil>)"
| "nceil a = a"

text \<open>\<open>Math.round\<close> rounds to the nearest integer, a tie towards plus infinity.\<close>

fun nround :: "jsnum \<Rightarrow> jsnum" where
  "nround (Fin x) = Fin (of_int \<lfloor>x + 1 / 2\<rfloor>)"
| "nround a = a"

fun nabs :: "jsnum \<Rightarrow> jsnum" where
  "nabs (Fin x) = Fin \<bar>x\<bar>"
| "nabs NaN = NaN"
| "nabs a = PInf"

definition nmin :: "jsnum \<Rightarrow> jsnum \<Rightarrow> jsnum" where
  "nmin a b = (if a = NaN \<or> b = NaN then NaN else if nlt b a then b else a)"

definition nmax :: "jsnum \<Rightarrow> jsnum \<Rightarrow> jsnum" where
  "nmax a b = (if a = NaN \<or> b = NaN then NaN else if nlt a b then b else a)"

text \<open>\<open>ToInt32\<close>, for the bitwise operators: truncate, then wrap modulo \<open>2 ^ 32\<close>.\<close>

fun to_int32 :: "jsnum \<Rightarrow> 32 word" where
  "to_int32 (Fin x) = word_of_int (trunc x)"
| "to_int32 a = 0"

definition of_int32 :: "32 word \<Rightarrow> jsnum" where
  "of_int32 w = Fin (of_int (sint w))"

definition shift_count :: "jsnum \<Rightarrow> nat" where
  "shift_count b = unat (to_int32 b AND 31)"

text \<open>
  An integer-indexed read or write of a typed array uses the number as an index only
  when it is a non-negative integer; any other number names no element.
\<close>

fun to_index :: "jsnum \<Rightarrow> nat option" where
  "to_index (Fin x) = (if x \<ge> 0 \<and> of_int \<lfloor>x\<rfloor> = x then Some (nat \<lfloor>x\<rfloor>) else None)"
| "to_index a = None"

text \<open>
  \<open>ToUint8Clamp\<close>, the conversion a \<open>Uint8ClampedArray\<close> applies to a stored number:
  NaN becomes 0, the value is clamped to \<open>[0, 255]\<close> and rounded, a tie to even.
\<close>

type_synonym byte = "8 word"

definition round_half_even :: "real \<Rightarrow> int" where
  "round_half_even x =
     (let f = \<lfloor>x\<rfloor> in
      if x - of_int f < 1 / 2 then f
      else if x - of_int f > 1 / 2 then f + 1
      else if even f then f else f + 1)"

fun to_uint8_clamp :: "jsnum \<Rightarrow> byte" where
  "to_uint8_clamp (Fin x) =
     (if x \<le> 0 then 0 else if x \<ge> 255 then 255 else word_of_int (round_half_even x))"
| "to_uint8_clamp PInf = 255"
| "to_uint8_clamp a = 0"

section \<open>JavaScript values\<close>

text \<open>
  \<open>GlitchParams\<close> maps a parameter name to a number, a boolean or a string; reading a
  key that is absent gives \<open>undefined\<close>. The casts \<open>params.x as number\<close> are erased by the
  TypeScript compiler, so a transform works on whatever value the map holds.
\<close>

datatype jsval = Undefined | Num jsnum | Bool bool | Str string

type_synonym GlitchParams = "string \<rightharpoonup> jsval"

definition getp :: "GlitchParams \<Rightarrow> string \<Rightarrow> jsval" where
  "getp params k = (case params k of None \<Rightarrow> Undefined | Some v \<Rightarrow> v)"

text \<open>An integer (a loop counter, a dimension, an integer literal) as a value.\<close>

definition N :: "int \<Rightarrow> jsval" where
  "N k = Num (Fin (of_int k))"

text \<open>A decimal literal of the source, such as \<open>0.2126\<close>: the nearest double.\<close>

definition lit :: "jsenv \<Rightarrow> real \<Rightarrow> jsval" where
  "lit env q = Num (fround env q)"

fun ToNumber :: "jsenv \<Rightarrow> jsval \<Rightarrow> jsnum" where
  "ToNumber env Undefined = NaN"
| "ToNumber env (Num n) = n"
| "ToNumber env (Bool b) = Fin (if b then 1 else 0)"
| "ToNumber env (Str s) = num_of_str env s"

fun ToString :: "jsenv \<Rightarrow> jsval \<Rightarrow> string" where
  "ToString env Undefined = ''undefined''"
| "ToString env (Num n) = str_of_num env n"
| "ToString env (Bool b) = (if b then ''true'' else ''false'')"
| "ToString env (Str s) = s"

fun truthy :: "jsval \<Rightarrow> bool" where
  "truthy Undefined = False"
| "truthy (Num n) = (n \<noteq> NaN \<and> n \<noteq> Fin 0)"
| "truthy (Bool b) = b"
| "truthy (Str s) = (s \<noteq> [])"

text \<open>\<open>a || b\<close>, \<open>a ?? b\<close> and the strict comparisons \<open>===\<close>, \<open>!==\<close>.\<close>

definition js_or :: "jsval \<Rightarrow> jsval \<Rightarrow> jsval" where
  "js_or a b = (if truthy a then a else b)"

definition js_nullish :: "jsval \<Rightarrow> jsval \<Rightarrow> jsval" where
  "js_nullish a b = (if a = Undefined then b else a)"

fun js_seq :: "jsval \<Rightarrow> jsval \<Rightarrow> bool" where
  "js_seq (Num a) (Num b) = neq a b"
| "js_seq a b = (a = b)"

definition js_sne :: "jsval \<Rightarrow> jsval \<Rightarrow> bool" where
  "js_sne a b = (\<not> js_seq a b)"

fun is_str :: "jsval \<Rightarrow> bool" where
  "is_str (Str s) = True"
| "is_str v = False"

text \<open>\<open>+\<close> concatenates as soon as one operand is a string; the other operators are numeric.\<close>

definition js_add :: "jsenv \<Rightarrow> jsval \<Rightarrow> jsval \<Rightarrow> jsval" where
  "js_add env a b =
     (if is_str a \<or> is_str b then Str (ToString env a @ ToString env b)
      else Num (nadd env (ToNumber env a) (ToNumber env b)))"

definition js_sub :: "jsenv \<Rightarrow> jsval \<Rightarrow> jsval \<Rightarrow> jsval" where
  "js_sub env a b = Num (nsub env (ToNumber env a) (ToNumber env b))"

definition js_mul :: "jsenv \<Rightarrow> jsval \<Rightarrow> jsval \<Rightarrow> jsval" where
  "js_mul env a b = Num (nmul env (ToNumber env a) (ToNumber env b))"

definition js_div :: "jsenv \<Rightarrow> jsval \<Rightarrow> jsval \<Rightarrow> jsval" where
  "js_div env a b = Num (ndiv env (ToNumber env a) (ToNumber env b))"

definition js_mod :: "jsenv \<Rightarrow> jsval \<Rightarrow> jsval \<Rightarrow> jsval" where
  "js_mod env a b = Num (nmod (ToNumber env a) (ToNumber env b))"

text \<open>
  \<open>a < b\<close> compares two strings by their characters and anything else as numbers; a
  comparison with NaN is false.
\<close>

fun str_lt :: "string \<Rightarrow> string \<Rightarrow> bool" where
  "str_lt [] [] = False"
| "str_lt [] (y # ys) = True"
| "str_lt (x # xs) [] = False"
| "str_lt (x # xs) (y # ys) =
     (if (of_char x :: nat) < of_char y then True
      else if (of_char y :: nat) < of_char x then False
      else str_lt xs ys)"

fun js_lt :: "jsenv \<Rightarrow> jsval \<Rightarrow> jsval \<Rightarrow> bool" where
  "js_lt env (Str a) (Str b) = str_lt a b"
| "js_lt env a b = nlt (ToNumber env a) (ToNumber env b)"

definition js_gt :: "jsenv \<Rightarrow> jsval \<Rightarrow> jsval \<Rightarrow> bool" where
  "js_gt env a b = js_lt env b a"

definition Math_floor :: "jsenv \<Rightarrow> jsval \<Rightarrow> jsval" where
  "Math_floor env a = Num (nfloor (ToNumber env a))"

definition Math_ceil :: "jsenv \<Rightarrow> jsval \<Rightarrow> jsval" where
  "Math_ceil env a = Num (nceil (ToNumber env a))"

definition Math_round :: "jsenv \<Rightarrow> jsval \<Rightarrow> jsval" where
  "Math_round env a = Num (nround (ToNumber env a))"

definition Math_abs :: "jsenv \<Rightarrow> jsval \<Rightarrow> jsval" where
  "Math_abs env a = Num (nabs (ToNumber env a))"

definition Math_min :: "jsenv \<Rightarrow> jsval \<Rightarrow> jsval \<Rightarrow> jsval" where
  "Math_min env a b = Num (nmin (ToNumber env a) (ToNumber env b))"

definition Math_max :: "jsenv \<Rightarrow> jsval \<Rightarrow> jsval \<Rightarrow> jsval" where
  "Math_max env a b = Num (nmax (ToNumber env a) (ToNumber env b))"

definition Math_pow :: "jsenv \<Rightarrow> jsval \<Rightarrow> jsval \<Rightarrow> jsval" where
  "Math_pow env a b = Num (fpow env (ToNumber env a) (ToNumber env b))"

text \<open>The bitwise operators work on 32-bit integers.\<close>

definition js_shl :: "jsenv \<Rightarrow> jsval \<Rightarrow> jsval \<Rightarrow> jsval" where
  "js_shl env a b =
     Num (of_int32 (push_bit (shift_count (ToNumber env b)) (to_int32 (ToNumber env a))))"

definition js_sar :: "jsenv \<Rightarrow> jsval \<Rightarrow> jsval \<Rightarrow> jsval" where
  "js_sar env a b =
     Num (of_int32 (signed_drop_bit (shift_count (ToNumber env b)) (to_int32 (ToNumber env a))))"

definition js_and :: "jsenv \<Rightarrow> jsval \<Rightarrow> jsval \<Rightarrow> jsval" where
  "js_and env a b = Num (of_int32 (to_int32 (ToNumber env a) AND to_int32 (ToNumber env b)))"

definition js_bor :: "jsenv \<Rightarrow> jsval \<Rightarrow> jsval \<Rightarrow> jsval" where
  "js_bor env a b = Num (of_int32 (to_int32 (ToNumber env a) OR to_int32 (ToNumber env b)))"

definition js_xor :: "jsenv \<Rightarrow> jsval \<Rightarrow> jsval \<Rightarrow> jsval" where
  "js_xor env a b = Num (of_int32 (to_int32 (ToNumber env a) XOR to_int32 (ToNumber env b)))"

section \<open>Bitmaps and the heap\<close>

text \<open>
  An \<open>ImageData\<close> has a width, a height and a \<open>Uint8ClampedArray\<close> of RGBA samples. The
  objects live in a heap, a list addressed by position: a transform receives the
  address of its input, allocates its output with \<open>new ImageData\<close> and stores into it.
\<close>

record ImageData =
  img_width :: nat
  img_height :: nat
  img_data :: "byte list"

definition well_formed :: "ImageData \<Rightarrow> bool" where
  "well_formed img = (length (img_data img) = img_width img * img_height img * 4)"

text \<open>The four samples of pixel \<open>(x, y)\<close>.\<close>

definition pixel_at :: "ImageData \<Rightarrow> nat \<Rightarrow> nat \<Rightarrow> byte list" where
  "pixel_at img x y = take 4 (drop ((y * img_width img + x) * 4) (img_data img))"

type_synonym heap = "ImageData list"

text \<open>
  \<open>new ImageData(width, height)\<close>: a zero-filled buffer at a fresh address. The
  constructor rejects a zero dimension; every call below passes the dimensions of an
  existing image, or a value that is at least 1.
\<close>

definition new_ImageData :: "nat \<Rightarrow> nat \<Rightarrow> heap \<Rightarrow> nat \<times> heap" where
  "new_ImageData width height s =
     (length s, s @ [\<lparr>img_width = width, img_height = height,
                      img_data = replicate (width * height * 4) 0\<rparr>])"

text \<open>\<open>data[i]\<close>: the sample as a number, or \<open>undefined\<close> outside the buffer.\<close>

definition rd :: "byte list \<Rightarrow> nat \<Rightarrow> jsval" where
  "rd data i = (if i < length data then N (uint (data ! i)) else Undefined)"

definition rdn :: "jsenv \<Rightarrow> byte list \<Rightarrow> jsval \<Rightarrow> jsval" where
  "rdn env data i =
     (case to_index (ToNumber env i) of None \<Rightarrow> Undefined | Some k \<Rightarrow> rd data k)"

text \<open>\<open>outData[i] = v\<close>: the clamped value is stored; a store outside the buffer is ignored.\<close>

definition put :: "jsenv \<Rightarrow> byte list \<Rightarrow> nat \<Rightarrow> jsval \<Rightarrow> byte list" where
  "put env outData i v =
     (if i < length outData then outData[i := to_uint8_clamp (ToNumber env v)] else outData)"

text \<open>A store into the buffer of the image at address \<open>r\<close>.\<close>

definition upd_data :: "nat \<Rightarrow> (byte list \<Rightarrow> byte list) \<Rightarrow> heap \<Rightarrow> heap" where
  "upd_data r f s = s[r := (s ! r)\<lparr>img_data := f (img_data (s ! r))\<rparr>]"

text \<open>
  The two loop shapes of the catalog. In each iteration the body reads the buffer of
  the input image, as the heap holds it at that moment, and stores into the output.
  \<^verbatim>\<open>for (let y = 0; y < height; y++) for (let x = 0; x < width; x++) { ... }\<close>
  \<^verbatim>\<open>for (let i = 0; i < data.length; i += 4) { ... }\<close>
\<close>

definition for_grid ::
  "nat \<Rightarrow> nat \<Rightarrow> nat list \<Rightarrow> nat list \<Rightarrow> (byte list \<Rightarrow> nat \<Rightarrow> nat \<Rightarrow> byte list \<Rightarrow> byte list)
     \<Rightarrow> heap \<Rightarrow> heap" where
  "for_grid imageData output ys xs body s =
     fold (\<lambda>y. fold (\<lambda>x s. upd_data output (body (img_data (s ! imageData)) y x) s) xs) ys s"

definition for_yx ::
  "nat \<Rightarrow> nat \<Rightarrow> nat \<Rightarrow> nat \<Rightarrow> (byte list \<Rightarrow> nat \<Rightarrow> nat \<Rightarrow> byte list \<Rightarrow> byte list) \<Rightarrow> heap \<Rightarrow> heap" where
  "for_yx imageData output height width body s =
     for_grid imageData output [0..<height] [0..<width] body s"

definition steps4 :: "nat \<Rightarrow> nat list" where
  "steps4 n = map (\<lambda>k. 4 * k) [0..<(n + 3) div 4]"

definition for_i4 ::
  "nat \<Rightarrow> nat \<Rightarrow> (byte list \<Rightarrow> nat \<Rightarrow> byte list \<Rightarrow> byte list) \<Rightarrow> heap \<Rightarrow> heap" where
  "for_i4 imageData output body s =
     fold (\<lambda>i s. upd_data output (body (img_data (s ! imageData)) i) s)
       (steps4 (length (img_data (s ! imageData)))) s"

text \<open>
  The nested loop on a buffer alone, and the four stores of one pixel taken together;
  the loops over the heap are reduced to these in the proofs.
\<close>

definition fold_yx :: "nat \<Rightarrow> nat \<Rightarrow> (nat \<Rightarrow> nat \<Rightarrow> 'a \<Rightarrow> 'a) \<Rightarrow> 'a \<Rightarrow> 'a" where
  "fold_yx height width body = fold (\<lambda>y. fold (body y) [0..<width]) [0..<height]"

definition set_px :: "'a list \<Rightarrow> nat \<Rightarrow> (nat \<Rightarrow> 'a) \<Rightarrow> 'a list" where
  "set_px out p v = out[p * 4 := v 0, p * 4 + 1 := v 1, p * 4 + 2 := v 2, p * 4 + 3 := v 3]"

text \<open>How a call ends: it returns the address of its result, throws, or never returns.\<close>

datatype js_error = TypeError

datatype outcome = Returns nat | Throws js_error | Diverges

text \<open>
  Two transforms have a pixel loop whose body can fail to complete: it throws, or it
  enters an inner loop that never ends. The body reads the heap and yields either that
  failure or the stores of the iteration; the loop stops at the first failure, leaving
  the heap as the iterations before it made it.
\<close>

datatype abort = Throw js_error | Hang

fun loop_abort :: "('a \<Rightarrow> heap \<Rightarrow> abort + heap) \<Rightarrow> 'a list \<Rightarrow> heap \<Rightarrow> abort option \<times> heap" where
  "loop_abort f [] s = (None, s)"
| "loop_abort f (a # as) s =
     (case f a s of Inl e \<Rightarrow> (Some e, s) | Inr s' \<Rightarrow> loop_abort f as s')"

definition for_yx_abort ::
  "nat \<Rightarrow> nat \<Rightarrow> nat \<Rightarrow> (heap \<Rightarrow> nat \<Rightarrow> nat \<Rightarrow> abort + (byte list \<Rightarrow> byte list)) \<Rightarrow> heap
     \<Rightarrow> abort option \<times> heap" where
  "for_yx_abort output height width body s =
     loop_abort
       (\<lambda>(y, x) s. case body s y x of Inl e \<Rightarrow> Inl e | Inr f \<Rightarrow> Inr (upd_data output f s))
       (List.product [0..<height] [0..<width]) s"

text \<open>The same loop on a buffer alone.\<close>

fun fold_abort :: "('a \<Rightarrow> abort + ('b \<Rightarrow> 'b)) \<Rightarrow> 'a list \<Rightarrow> 'b \<Rightarrow> abort option \<times> 'b" where
  "fold_abort g [] d = (None, d)"
| "fold_abort g (a # as) d =
     (case g a of Inl e \<Rightarrow> (Some e, d) | Inr f \<Rightarrow> fold_abort g as (f d))"

fun outcome_of :: "abort option \<Rightarrow> nat \<Rightarrow> outcome" where
  "outcome_of None output = Returns output"
| "outcome_of (Some (Throw e)) output = Throws e"
| "outcome_of (Some Hang) output = Diverges"


text \<open>
  What a call does to the heap, stated once for the whole catalog: the call appends the
  objects it allocates, the first of them being its output, and these objects depend on
  the input bitmap alone. \<open>G\<close> gives, for an input bitmap, how the call ends and the
  objects it appends.
\<close>

definition allocates ::
  "(nat \<Rightarrow> heap \<Rightarrow> outcome \<times> heap) \<Rightarrow> (ImageData \<Rightarrow> abort option \<times> ImageData list) \<Rightarrow> bool" where
  "allocates f G =
     (\<forall>s i. i < length s \<longrightarrow>
        f i s = (outcome_of (fst (G (s ! i))) (length s), s @ snd (G (s ! i))) \<and>
        snd (G (s ! i)) \<noteq> [] \<and>
        img_width (hd (snd (G (s ! i)))) = img_width (s ! i) \<and>
        img_height (hd (snd (G (s ! i)))) = img_height (s ! i) \<and>
        length (img_data (hd (snd (G (s ! i))))) = img_width (s ! i) * img_height (s ! i) * 4)"

section \<open>Pixel-format transforms\<close>

subsection \<open>rgba-as-rgb\<close>

text \<open>The blended sample that both byte-stride transforms store in three places.\<close>

definition blend :: "jsenv \<Rightarrow> byte list \<Rightarrow> nat \<Rightarrow> nat \<Rightarrow> jsval \<Rightarrow> jsval" where
  "blend env data correctIdx wrongIdx intensity =
     Math_round env
       (js_add env (js_mul env (rd data correctIdx) (js_sub env (N 1) intensity))
                   (js_mul env (rd data wrongIdx) intensity))"

definition rgbaAsRgb_px ::
  "jsenv \<Rightarrow> jsval \<Rightarrow> nat \<Rightarrow> nat \<Rightarrow> byte list \<Rightarrow> nat \<Rightarrow> nat \<Rightarrow> byte list \<Rightarrow> byte list" where
  "rgbaAsRgb_px env intensity width height data y x outData =
     (let bytesPerPixelWrong = 3;
          bytesPerPixelCorrect = 4;
          correctIdx = (y * width + x) * bytesPerPixelCorrect;
          wrongPixelIndex = y * width + x;
          wrongByteOffset = wrongPixelIndex * bytesPerPixelWrong;
          wrongIdx = wrongByteOffset mod (width * height * bytesPerPixelCorrect)
      in if wrongIdx + 2 < length data then
           (let outData = put env outData correctIdx (blend env data correctIdx wrongIdx intensity);
                outData = put env outData (correctIdx + 1)
                            (blend env data (correctIdx + 1) (wrongIdx + 1) intensity);
                outData = put env outData (correctIdx + 2)
                            (blend env data (correctIdx + 2) (wrongIdx + 2) intensity);
                outData = put env outData (correctIdx + 3) (N 255)
            in outData)
         else
           (let outData = put env outData correctIdx (rd data correctIdx);
                outData = put env outData (correctIdx + 1) (rd data (correctIdx + 1));
                outData = put env outData (correctIdx + 2) (rd data (correctIdx + 2));
                outData = put env outData (correctIdx + 3) (N 255)
            in outData))"

definition rgbaAsRgb_apply :: "jsenv \<Rightarrow> nat \<Rightarrow> GlitchParams \<Rightarrow> heap \<Rightarrow> outcome \<times> heap" where
  "rgbaAsRgb_apply env imageData params s =
     (let width = img_width (s ! imageData);
          height = img_height (s ! imageData);
          intensity = js_or (getp params ''intensity'') (N 1);
          (output, s) = new_ImageData width height s;
          s = for_yx imageData output height width (rgbaAsRgb_px env intensity width height) s
      in (Returns output, s))"

subsection \<open>rgb-as-rgba\<close>

definition rgbAsRgba_px ::
  "jsenv \<Rightarrow> jsval \<Rightarrow> nat \<Rightarrow> nat \<Rightarrow> byte list \<Rightarrow> nat \<Rightarrow> nat \<Rightarrow> byte list \<Rightarrow> byte list" where
  "rgbAsRgba_px env intensity width height data y x outData =
     (let bytesPerPixelWrong = 4;
          bytesPerPixelCorrect = 3;
          outIdx = (y * width + x) * 4;
          wrongPixelIndex = y * width + x;
          wrongByteOffset = wrongPixelIndex * bytesPerPixelWrong;
          actualPixelIndex = wrongByteOffset div bytesPerPixelCorrect;
          srcIdx = (actualPixelIndex mod (width * height)) * 4
      in if srcIdx + 3 < length data then
           (let outData = put env outData outIdx (blend env data outIdx srcIdx intensity);
                outData = put env outData (outIdx + 1)
                            (blend env data (outIdx + 1) (srcIdx + 1) intensity);
                outData = put env outData (outIdx + 2)
                            (blend env data (outIdx + 2) (srcIdx + 2) intensity);
                outData = put env outData (outIdx + 3) (N 255)
            in outData)
         else
           (let outData = put env outData outIdx (rd data outIdx);
                outData = put env outData (outIdx + 1) (rd data (outIdx + 1));
                outData = put env outData (outIdx + 2) (rd data (outIdx + 2));
                outData = put env outData (outIdx + 3) (N 255)
            in outData))"

definition rgbAsRgba_apply :: "jsenv \<Rightarrow> nat \<Rightarrow> GlitchParams \<Rightarrow> heap \<Rightarrow> outcome \<times> heap" where
  "rgbAsRgba_apply env imageData params s =
     (let width = img_width (s ! imageData);
          height = img_height (s ! imageData);
          intensity = js_or (getp params ''intensity'') (N 1);
          (output, s) = new_ImageData width height s;
          s = for_yx imageData output height width (rgbAsRgba_px env intensity width height) s
      in (Returns output, s))"

subsection \<open>bgr-swap\<close>

definition bgrSwap_px :: "jsenv \<Rightarrow> jsval \<Rightarrow> byte list \<Rightarrow> nat \<Rightarrow> byte list \<Rightarrow> byte list" where
  "bgrSwap_px env swapMode data i outData =
     (let r = rd data i;
          g = rd data (i + 1);
          b = rd data (i + 2);
          a = rd data (i + 3);
          outData =
            (if swapMode = Str ''RGB to BGR'' then
               put env (put env (put env outData i b) (i + 1) g) (i + 2) r
             else if swapMode = Str ''Swap R and G'' then
               put env (put env (put env outData i g) (i + 1) r) (i + 2) b
             else if swapMode = Str ''Swap G and B'' then
               put env (put env (put env outData i r) (i + 1) b) (i + 2) g
             else
               put env (put env (put env outData i b) (i + 1) g) (i + 2) r);
          outData = put env outData (i + 3) a
      in outData)"

definition bgrSwap_apply :: "jsenv \<Rightarrow> nat \<Rightarrow> GlitchParams \<Rightarrow> heap \<Rightarrow> outcome \<times> heap" where
  "bgrSwap_apply env imageData params s =
     (let width = img_width (s ! imageData);
          height = img_height (s ! imageData);
          swapMode = js_or (getp params ''swapMode'') (Str ''RGB to BGR'');
          (output, s) = new_ImageData width height s;
          s = for_i4 imageData output (bgrSwap_px env swapMode) s
      in (Returns output, s))"

subsection \<open>argb-order\<close>

text \<open>The four stores \<open>outData[i] = c0; ... outData[i + 3] = c3\<close> of one switch case.\<close>

definition put4 :: "jsenv \<Rightarrow> byte list \<Rightarrow> nat \<Rightarrow> jsval \<Rightarrow> jsval \<Rightarrow> jsval \<Rightarrow> jsval \<Rightarrow> byte list" where
  "put4 env outData i c0 c1 c2 c3 =
     put env (put env (put env (put env outData i c0) (i + 1) c1) (i + 2) c2) (i + 3) c3"

definition argbOrder_px :: "jsenv \<Rightarrow> jsval \<Rightarrow> byte list \<Rightarrow> nat \<Rightarrow> byte list \<Rightarrow> byte list" where
  "argbOrder_px env format data i outData =
     (let r = rd data i;
          g = rd data (i + 1);
          b = rd data (i + 2);
          a = rd data (i + 3)
      in if format = Str ''RGBA as ARGB'' then put4 env outData i a r g b
         else if format = Str ''RGBA as ABGR'' then put4 env outData i a b g r
         else if format = Str ''RGBA as BGRA'' then put4 env outData i b g r a
         else if format = Str ''Rotate channels left'' then put4 env outData i g b a r
         else if format = Str ''Rotate channels right'' then put4 env outData i a r g b
         else put4 env outData i r g b a)"

definition argbOrder_apply :: "jsenv \<Rightarrow> nat \<Rightarrow> GlitchParams \<Rightarrow> heap \<Rightarrow> outcome \<times> heap" where
  "argbOrder_apply env imageData params s =
     (let width = img_width (s ! imageData);
          height = img_height (s ! imageData);
          format = js_or (getp params ''format'') (Str ''RGBA as ARGB'');
          (output, s) = new_ImageData width height s;
          s = for_i4 imageData output (argbOrder_px env format) s
      in (Returns output, s))"

subsection \<open>endianness\<close>

definition endianness_px :: "jsenv \<Rightarrow> jsval \<Rightarrow> byte list \<Rightarrow> nat \<Rightarrow> byte list \<Rightarrow> byte list" where
  "endianness_px env swapMode data i outData =
     (let r = rd data i;
          g = rd data (i + 1);
          b = rd data (i + 2);
          a = rd data (i + 3)
      in if swapMode = Str ''Swap 32-bit (full reverse)'' then put4 env outData i a b g r
         else if swapMode = Str ''Swap 16-bit pairs'' then put4 env outData i g r a b
         else if swapMode = Str ''Swap within 16-bit'' then put4 env outData i g r b a
         else put4 env outData i r g b a)"

definition endianness_apply :: "jsenv \<Rightarrow> nat \<Rightarrow> GlitchParams \<Rightarrow> heap \<Rightarrow> outcome \<times> heap" where
  "endianness_apply env imageData params s =
     (let width = img_width (s ! imageData);
          height = img_height (s ! imageData);
          swapMode = js_or (getp params ''swapMode'') (Str ''Swap 32-bit (full reverse)'');
          (output, s) = new_ImageData width height s;
          s = for_i4 imageData output (endianness_px env swapMode) s
      in (Returns output, s))"

subsection \<open>channel-shift\<close>

definition channelShift_px ::
  "jsenv \<Rightarrow> jsval \<Rightarrow> jsval \<Rightarrow> jsval \<Rightarrow> nat \<Rightarrow> byte list \<Rightarrow> nat \<Rightarrow> nat \<Rightarrow> byte list \<Rightarrow> byte list" where
  "channelShift_px env redShift greenShift blueShift width data y x outData =
     (let idx = (y * width + x) * 4;
          redX = Math_max env (N 0) (Math_min env (N (int width - 1)) (js_add env (N (int x)) redShift));
          greenX = Math_max env (N 0) (Math_min env (N (int width - 1)) (js_add env (N (int x)) greenShift));
          blueX = Math_max env (N 0) (Math_min env (N (int width - 1)) (js_add env (N (int x)) blueShift));
          redIdx = js_mul env (js_add env (N (int (y * width))) redX) (N 4);
          greenIdx = js_mul env (js_add env (N (int (y * width))) greenX) (N 4);
          blueIdx = js_mul env (js_add env (N (int (y * width))) blueX) (N 4);
          outData = put env outData idx (rdn env data redIdx);
          outData = put env outData (idx + 1) (rdn env data (js_add env greenIdx (N 1)));
          outData = put env outData (idx + 2) (rdn env data (js_add env blueIdx (N 2)));
          outData = put env outData (idx + 3) (rd data (idx + 3))
      in outData)"

definition channelShift_apply :: "jsenv \<Rightarrow> nat \<Rightarrow> GlitchParams \<Rightarrow> heap \<Rightarrow> outcome \<times> heap" where
  "channelShift_apply env imageData params s =
     (let width = img_width (s ! imageData);
          height = img_height (s ! imageData);
          redShift = js_or (getp params ''redShift'') (N 0);
          greenShift = js_or (getp params ''greenShift'') (N 0);
          blueShift = js_or (getp params ''blueShift'') (N 0);
          (output, s) = new_ImageData width height s;
          s = for_yx imageData output height width
                (channelShift_px env redShift greenShift blueShift width) s
      in (Returns output, s))"

subsection \<open>bit-depth\<close>

definition bitDepth_channel :: "jsenv \<Rightarrow> jsval \<Rightarrow> jsval \<Rightarrow> jsval \<Rightarrow> jsval \<Rightarrow> jsval" where
  "bitDepth_channel env mode bits factor r =
     (if mode = Str ''Posterize (reduce bits)'' then
        Math_round env (js_mul env (Math_round env (js_div env r factor)) factor)
      else if mode = Str ''Simulate 16-bit as 8-bit'' then
        js_mod env (js_mul env r (N 256)) (N 256)
      else if mode = Str ''Bit truncation'' then
        (let mask = js_and env (js_shl env (N 255) (js_sub env (N 8) bits)) (N 255)
         in js_and env r mask)
      else r)"

definition bitDepth_px ::
  "jsenv \<Rightarrow> jsval \<Rightarrow> jsval \<Rightarrow> jsval \<Rightarrow> byte list \<Rightarrow> nat \<Rightarrow> byte list \<Rightarrow> byte list" where
  "bitDepth_px env mode bits factor data i outData =
     (let r = rd data i;
          g = rd data (i + 1);
          b = rd data (i + 2);
          r = bitDepth_channel env mode bits factor r;
          g = bitDepth_channel env mode bits factor g;
          b = bitDepth_channel env mode bits factor b;
          outData = put env outData i r;
          outData = put env outData (i + 1) g;
          outData = put env outData (i + 2) b;
          outData = put env outData (i + 3) (rd data (i + 3))
      in outData)"

definition bitDepth_apply :: "jsenv \<Rightarrow> nat \<Rightarrow> GlitchParams \<Rightarrow> heap \<Rightarrow> outcome \<times> heap" where
  "bitDepth_apply env imageData params s =
     (let width = img_width (s ! imageData);
          height = img_height (s ! imageData);
          mode = js_or (getp params ''mode'') (Str ''Posterize (reduce bits)'');
          bits = js_or (getp params ''bits'') (N 3);
          (output, s) = new_ImageData width height s;
          levels = Math_pow env (N 2) bits;
          factor = js_div env (N 255) (js_sub env levels (N 1));
          s = for_i4 imageData output (bitDepth_px env mode bits factor) s
      in (Returns output, s))"

subsection \<open>gamma\<close>

definition gamma_channel :: "jsenv \<Rightarrow> jsval \<Rightarrow> jsval \<Rightarrow> jsval \<Rightarrow> jsval" where
  "gamma_channel env mode gamma r =
     (if mode = Str ''sRGB treated as Linear (washed out)'' then
        Math_pow env r (js_div env (N 1) gamma)
      else if mode = Str ''Linear treated as sRGB (too dark)'' then
        Math_pow env r gamma
      else if mode = Str ''Double gamma'' then
        Math_pow env r (js_mul env (js_div env gamma (lit env (22 / 10))) (N 2))
      else if mode = Str ''Inverse gamma'' then
        Math_pow env r (js_div env (N 1) (js_div env (js_mul env gamma gamma) (lit env (22 / 10))))
      else r)"

text \<open>\<open>Math.round(Math.max(0, Math.min(1, r)) * 255)\<close>, the sample stored for a channel in \<open>[0, 1]\<close>.\<close>

definition unit_to_byte :: "jsenv \<Rightarrow> jsval \<Rightarrow> jsval" where
  "unit_to_byte env r = Math_round env (js_mul env (Math_max env (N 0) (Math_min env (N 1) r)) (N 255))"

definition gamma_px :: "jsenv \<Rightarrow> jsval \<Rightarrow> jsval \<Rightarrow> byte list \<Rightarrow> nat \<Rightarrow> byte list \<Rightarrow> byte list" where
  "gamma_px env mode gamma data i outData =
     (let r = js_div env (rd data i) (N 255);
          g = js_div env (rd data (i + 1)) (N 255);
          b = js_div env (rd data (i + 2)) (N 255);
          r = gamma_channel env mode gamma r;
          g = gamma_channel env mode gamma g;
          b = gamma_channel env mode gamma b;
          outData = put env outData i (unit_to_byte env r);
          outData = put env outData (i + 1) (unit_to_byte env g);
          outData = put env outData (i + 2) (unit_to_byte env b);
          outData = put env outData (i + 3) (rd data (i + 3))
      in outData)"

definition gamma_apply :: "jsenv \<Rightarrow> nat \<Rightarrow> GlitchParams \<Rightarrow> heap \<Rightarrow> outcome \<times> heap" where
  "gamma_apply env imageData params s =
     (let width = img_width (s ! imageData);
          height = img_height (s ! imageData);
          mode = js_or (getp params ''mode'') (Str ''sRGB treated as Linear (washed out)'');
          gamma = js_or (getp params ''gamma'') (lit env (22 / 10));
          (output, s) = new_ImageData width height s;
          s = for_i4 imageData output (gamma_px env mode gamma) s
      in (Returns output, s))"

subsection \<open>premultiplied-alpha\<close>

text \<open>The composite \<open>c + bg * (1 - a)\<close> that every mode ends with.\<close>

definition over_bg :: "jsenv \<Rightarrow> jsval \<Rightarrow> jsval \<Rightarrow> jsval \<Rightarrow> jsval" where
  "over_bg env c bg a = js_add env c (js_mul env bg (js_sub env (N 1) a))"

definition premultipliedAlpha_rgb ::
  "jsenv \<Rightarrow> jsval \<Rightarrow> jsval \<Rightarrow> jsval \<Rightarrow> jsval \<Rightarrow> jsval \<Rightarrow> jsval \<Rightarrow> jsval \<Rightarrow> jsval
     \<Rightarrow> jsval \<times> jsval \<times> jsval" where
  "premultipliedAlpha_rgb env mode bgR bgG bgB r g b a =
     (if mode = Str ''Straight as Premultiplied (dark fringes)'' then
        (over_bg env r bgR a, over_bg env g bgG a, over_bg env b bgB a)
      else if mode = Str ''Premultiplied as Straight (too bright)'' then
        (let pm_r = js_mul env r a;
             pm_g = js_mul env g a;
             pm_b = js_mul env b a
         in (over_bg env (js_mul env pm_r a) bgR a,
             over_bg env (js_mul env pm_g a) bgG a,
             over_bg env (js_mul env pm_b a) bgB a))
      else if mode = Str ''Double premultiply'' then
        (let a2 = js_mul env a a
         in (over_bg env (js_mul env r a2) bgR a,
             over_bg env (js_mul env g a2) bgG a,
             over_bg env (js_mul env b a2) bgB a))
      else if mode = Str ''Show alpha errors'' then
        (let maxRGB = Math_max env (Math_max env r g) b
         in if js_lt env a (N 1) \<and> js_gt env maxRGB (js_add env a (lit env (1 / 100)))
            then (N 1, N 0, N 1)
            else (over_bg env (js_mul env r a) bgR a,
                  over_bg env (js_mul env g a) bgG a,
                  over_bg env (js_mul env b a) bgB a))
      else
        (over_bg env (js_mul env r a) bgR a,
         over_bg env (js_mul env g a) bgG a,
         over_bg env (js_mul env b a) bgB a))"

definition premultipliedAlpha_px ::
  "jsenv \<Rightarrow> jsval \<Rightarrow> jsval \<Rightarrow> jsval \<Rightarrow> jsval \<Rightarrow> byte list \<Rightarrow> nat \<Rightarrow> byte list \<Rightarrow> byte list" where
  "premultipliedAlpha_px env mode bgR bgG bgB data i outData =
     (let r = js_div env (rd data i) (N 255);
          g = js_div env (rd data (i + 1)) (N 255);
          b = js_div env (rd data (i + 2)) (N 255);
          a = js_div env (rd data (i + 3)) (N 255);
          (outR, outG, outB) = premultipliedAlpha_rgb env mode bgR bgG bgB r g b a;
          outData = put env outData i (unit_to_byte env outR);
          outData = put env outData (i + 1) (unit_to_byte env outG);
          outData = put env outData (i + 2) (unit_to_byte env outB);
          outData = put env outData (i + 3) (N 255)
      in outData)"

definition premultipliedAlpha_apply :: "jsenv \<Rightarrow> nat \<Rightarrow> GlitchParams \<Rightarrow> heap \<Rightarrow> outcome \<times> heap" where
  "premultipliedAlpha_apply env imageData params s =
     (let width = img_width (s ! imageData);
          height = img_height (s ! imageData);
          mode = js_or (getp params ''mode'') (Str ''Straight as Premultiplied (dark fringes)'');
          bgR = js_div env (js_or (getp params ''backgroundR'') (N 128)) (N 255);
          bgG = js_div env (js_or (getp params ''backgroundG'') (N 128)) (N 255);
          bgB = js_div env (js_or (getp params ''backgroundB'') (N 128)) (N 255);
          (output, s) = new_ImageData width height s;
          s = for_i4 imageData output (premultipliedAlpha_px env mode bgR bgG bgB) s
      in (Returns output, s))"

subsection \<open>signed-unsigned\<close>

text \<open>\<open>v > 127 ? 255 - v : v\<close>, the fold used by two of the modes.\<close>

definition fold_high :: "jsenv \<Rightarrow> jsval \<Rightarrow> jsval" where
  "fold_high env v = (if js_gt env v (N 127) then js_sub env (N 255) v else v)"

definition as_signed_wrapped :: "jsenv \<Rightarrow> jsval \<Rightarrow> jsval" where
  "as_signed_wrapped env v =
     (let v = (if js_gt env v (N 127) then js_sub env v (N 256) else v);
          v = (if js_lt env v (N 0) then js_add env (N 256) v else v)
      in js_mod env (js_add env v (N 128)) (N 256))"

definition signedUnsigned_rgb ::
  "jsenv \<Rightarrow> jsval \<Rightarrow> jsval \<Rightarrow> jsval \<Rightarrow> jsval \<Rightarrow> jsval \<times> jsval \<times> jsval" where
  "signedUnsigned_rgb env mode r g b =
     (if mode = Str ''Unsigned as Signed (bright becomes dark)'' then
        (as_signed_wrapped env r, as_signed_wrapped env g, as_signed_wrapped env b)
      else if mode = Str ''Signed range visualization'' then
        (if js_gt env r (N 127) \<or> js_gt env g (N 127) \<or> js_gt env b (N 127)
         then (fold_high env r, fold_high env g, fold_high env b)
         else (r, g, b))
      else if mode = Str ''Normalize to signed (-1 to 1)'' then
        (let f = (\<lambda>v. Math_round env
                    (js_add env
                       (js_mul env (js_sub env (js_mul env (js_div env v (N 255)) (N 2)) (N 1)) (N 127))
                       (N 128)))
         in (f r, f g, f b))
      else if mode = Str ''Absolute value (fold negatives)'' then
        (let r = fold_high env r;
             g = fold_high env g;
             b = fold_high env b
         in (Math_min env (N 255) (js_mul env r (N 2)),
             Math_min env (N 255) (js_mul env g (N 2)),
             Math_min env (N 255) (js_mul env b (N 2))))
      else (r, g, b))"

text \<open>\<open>Math.max(0, Math.min(255, v))\<close>.\<close>

definition clamp255 :: "jsenv \<Rightarrow> jsval \<Rightarrow> jsval" where
  "clamp255 env v = Math_max env (N 0) (Math_min env (N 255) v)"

definition signedUnsigned_px :: "jsenv \<Rightarrow> jsval \<Rightarrow> byte list \<Rightarrow> nat \<Rightarrow> byte list \<Rightarrow> byte list" where
  "signedUnsigned_px env mode data i outData =
     (let r = rd data i;
          g = rd data (i + 1);
          b = rd data (i + 2);
          (r, g, b) = signedUnsigned_rgb env mode r g b;
          outData = put env outData i (clamp255 env r);
          outData = put env outData (i + 1) (clamp255 env g);
          outData = put env outData (i + 2) (clamp255 env b);
          outData = put env outData (i + 3) (rd data (i + 3))
      in outData)"

definition signedUnsigned_apply :: "jsenv \<Rightarrow> nat \<Rightarrow> GlitchParams \<Rightarrow> heap \<Rightarrow> outcome \<times> heap" where
  "signedUnsigned_apply env imageData params s =
     (let width = img_width (s ! imageData);
          height = img_height (s ! imageData);
          mode = js_or (getp params ''mode'') (Str ''Unsigned as Signed (bright becomes dark)'');
          (output, s) = new_ImageData width height s;
          s = for_i4 imageData output (signedUnsigned_px env mode) s
      in (Returns output, s))"

subsection \<open>compression\<close>

text \<open>The values \<open>0, step, 2 * step, ...\<close> below \<open>n\<close> of a loop \<open>for (b = 0; b < n; b += step)\<close>.\<close>

definition steps_by :: "nat \<Rightarrow> nat \<Rightarrow> nat list" where
  "steps_by step n = map (\<lambda>k. step * k) [0..<(n + step - 1) div step]"

definition compression_sums ::
  "jsenv \<Rightarrow> nat \<Rightarrow> nat \<Rightarrow> nat \<Rightarrow> byte list \<Rightarrow> nat \<Rightarrow> nat \<Rightarrow> jsval \<times> jsval \<times> jsval \<times> nat" where
  "compression_sums env blockSize width height data by' bx =
     fold (\<lambda>y. fold (\<lambda>x (sumR, sumG, sumB, count).
                      (let idx = (y * width + x) * 4
                       in (js_add env sumR (rd data idx),
                           js_add env sumG (rd data (idx + 1)),
                           js_add env sumB (rd data (idx + 2)),
                           count + 1)))
                  [bx..<min (bx + blockSize) width])
       [by'..<min (by' + blockSize) height] (N 0, N 0, N 0, 0)"

definition compression_channel :: "jsenv \<Rightarrow> jsval \<Rightarrow> jsval \<Rightarrow> jsval \<Rightarrow> jsval \<Rightarrow> jsval" where
  "compression_channel env quality quantFactor avg r =
     (let r = js_mul env (Math_round env (js_div env r quantFactor)) quantFactor;
          blendFactor = js_div env (js_sub env (N 11) quality) (N 20)
      in Math_round env
           (js_add env (js_mul env r (js_sub env (N 1) blendFactor)) (js_mul env avg blendFactor)))"

definition compression_block ::
  "jsenv \<Rightarrow> jsval \<Rightarrow> jsval \<Rightarrow> nat \<Rightarrow> nat \<Rightarrow> nat \<Rightarrow> byte list \<Rightarrow> nat \<Rightarrow> nat \<Rightarrow> byte list \<Rightarrow> byte list" where
  "compression_block env quality quantFactor blockSize width height data by' bx outData =
     (let (sumR, sumG, sumB, count) = compression_sums env blockSize width height data by' bx;
          avgR = js_div env sumR (N (int count));
          avgG = js_div env sumG (N (int count));
          avgB = js_div env sumB (N (int count))
      in fold (\<lambda>y. fold (\<lambda>x outData.
                  (let idx = (y * width + x) * 4;
                       r = compression_channel env quality quantFactor avgR (rd data idx);
                       g = compression_channel env quality quantFactor avgG (rd data (idx + 1));
                       b = compression_channel env quality quantFactor avgB (rd data (idx + 2));
                       outData = put env outData idx (clamp255 env r);
                       outData = put env outData (idx + 1) (clamp255 env g);
                       outData = put env outData (idx + 2) (clamp255 env b);
                       outData = put env outData (idx + 3) (rd data (idx + 3))
                   in outData))
                [bx..<min (bx + blockSize) width])
           [by'..<min (by' + blockSize) height] outData)"

text \<open>
  \<open>blockSizeStr.startsWith(...)\<close> is a method call: on a value that is not a string
  (a number or \<open>true\<close> given for \<open>blockSize\<close>) it throws a TypeError, after the output has
  been allocated.
\<close>

definition startsWith :: "string \<Rightarrow> string \<Rightarrow> bool" where
  "startsWith str p = (take (length p) str = p)"

definition compression_apply :: "jsenv \<Rightarrow> nat \<Rightarrow> GlitchParams \<Rightarrow> heap \<Rightarrow> outcome \<times> heap" where
  "compression_apply env imageData params s =
     (let width = img_width (s ! imageData);
          height = img_height (s ! imageData);
          blockSizeStr = js_or (getp params ''blockSize'') (Str ''8x8 (JPEG)'');
          quality = js_or (getp params ''quality'') (N 3);
          (output, s) = new_ImageData width height s
      in case blockSizeStr of
           Str str \<Rightarrow>
             (let blockSize = (if startsWith str ''4'' then 4 else if startsWith str ''8'' then 8 else 16);
                  quantFactor = Math_floor env (js_div env (N 32) quality);
                  s = for_grid imageData output (steps_by blockSize height) (steps_by blockSize width)
                        (compression_block env quality quantFactor blockSize width height) s
              in (Returns output, s))
         | _ \<Rightarrow> (Throws TypeError, s))"

subsection \<open>yuv\<close>

definition js_neg :: "jsenv \<Rightarrow> jsval \<Rightarrow> jsval" where
  "js_neg env a = Num (nneg (ToNumber env a))"

definition rgbToYuv :: "jsenv \<Rightarrow> jsval \<Rightarrow> jsval \<Rightarrow> jsval \<Rightarrow> jsval \<times> jsval \<times> jsval" where
  "rgbToYuv env r g b =
     (let y = js_add env (js_add env (js_mul env (lit env (2126 / 10000)) r)
                                     (js_mul env (lit env (7152 / 10000)) g))
                         (js_mul env (lit env (722 / 10000)) b);
          u = js_add env (js_add env (js_sub env (js_mul env (js_neg env (lit env (1146 / 10000))) r)
                                                 (js_mul env (lit env (3854 / 10000)) g))
                                     (js_mul env (lit env (5 / 10)) b))
                         (N 128);
          v = js_add env (js_sub env (js_sub env (js_mul env (lit env (5 / 10)) r)
                                                 (js_mul env (lit env (4542 / 10000)) g))
                                     (js_mul env (lit env (458 / 10000)) b))
                         (N 128)
      in (y, u, v))"

definition yuvToRgb :: "jsenv \<Rightarrow> jsval \<Rightarrow> jsval \<Rightarrow> jsval \<Rightarrow> jsval \<times> jsval \<times> jsval" where
  "yuvToRgb env y u v =
     (let r = js_add env y (js_mul env (lit env (15748 / 10000)) (js_sub env v (N 128)));
          g = js_sub env (js_sub env y (js_mul env (lit env (1873 / 10000)) (js_sub env u (N 128))))
                         (js_mul env (lit env (4681 / 10000)) (js_sub env v (N 128)));
          b = js_add env y (js_mul env (lit env (18556 / 10000)) (js_sub env u (N 128)))
      in (r, g, b))"

definition yuvToRgbWrong :: "jsenv \<Rightarrow> jsval \<Rightarrow> jsval \<Rightarrow> jsval \<Rightarrow> jsval \<times> jsval \<times> jsval" where
  "yuvToRgbWrong env y u v =
     (let r = js_add env y (js_mul env (lit env (1402 / 1000)) (js_sub env v (N 128)));
          g = js_sub env (js_sub env y (js_mul env (lit env (344 / 1000)) (js_sub env u (N 128))))
                         (js_mul env (lit env (714 / 1000)) (js_sub env v (N 128)));
          b = js_add env y (js_mul env (lit env (1772 / 1000)) (js_sub env u (N 128)))
      in (r, g, b))"

definition yuv_rgb ::
  "jsenv \<Rightarrow> jsval \<Rightarrow> nat \<Rightarrow> byte list \<Rightarrow> nat \<Rightarrow> jsval \<Rightarrow> jsval \<Rightarrow> jsval \<Rightarrow> jsval \<times> jsval \<times> jsval" where
  "yuv_rgb env mode width data i r g b =
     (let (y, u, v) = rgbToYuv env r g b
      in if mode = Str ''YUV interpreted as RGB'' then (y, u, v)
         else if mode = Str ''Swapped U/V (green/purple)'' then yuvToRgb env y v u
         else if mode = Str ''Wrong range (washed out)'' then
           (let yLimited = js_div env (js_mul env (js_sub env y (N 16)) (N 255)) (N 219);
                uLimited = js_div env (js_mul env (js_sub env u (N 16)) (N 255)) (N 224);
                vLimited = js_div env (js_mul env (js_sub env v (N 16)) (N 255)) (N 224)
            in yuvToRgb env yLimited uLimited vLimited)
         else if mode = Str ''Wrong matrix (color shift)'' then yuvToRgbWrong env y u v
         else if mode = Str ''Missing chroma (grayscale bleed)'' then
           (let blockX = ((i div 4) mod width) div 4;
                blockY = ((i div 4) div width) div 4;
                cornerIdx = (blockY * 4 * width + blockX * 4) * 4;
                cornerR = js_nullish (rd data cornerIdx) r;
                cornerG = js_nullish (rd data (cornerIdx + 1)) g;
                cornerB = js_nullish (rd data (cornerIdx + 2)) b;
                (cornerY, cornerU, cornerV) = rgbToYuv env cornerR cornerG cornerB
            in yuvToRgb env y cornerU cornerV)
         else (r, g, b))"

text \<open>\<open>Math.max(0, Math.min(255, Math.round(v)))\<close>.\<close>

definition round_clamp255 :: "jsenv \<Rightarrow> jsval \<Rightarrow> jsval" where
  "round_clamp255 env v = Math_max env (N 0) (Math_min env (N 255) (Math_round env v))"

definition yuv_px :: "jsenv \<Rightarrow> jsval \<Rightarrow> nat \<Rightarrow> byte list \<Rightarrow> nat \<Rightarrow> byte list \<Rightarrow> byte list" where
  "yuv_px env mode width data i outData =
     (let r = rd data i;
          g = rd data (i + 1);
          b = rd data (i + 2);
          (outR, outG, outB) = yuv_rgb env mode width data i r g b;
          outData = put env outData i (round_clamp255 env outR);
          outData = put env outData (i + 1) (round_clamp255 env outG);
          outData = put env outData (i + 2) (round_clamp255 env outB);
          outData = put env outData (i + 3) (rd data (i + 3))
      in outData)"

definition yuv_apply :: "jsenv \<Rightarrow> nat \<Rightarrow> GlitchParams \<Rightarrow> heap \<Rightarrow> outcome \<times> heap" where
  "yuv_apply env imageData params s =
     (let width = img_width (s ! imageData);
          height = img_height (s ! imageData);
          mode = js_or (getp params ''mode'') (Str ''YUV interpreted as RGB'');
          (output, s) = new_ImageData width height s;
          s = for_i4 imageData output (yuv_px env mode width) s
      in (Returns output, s))"

subsection \<open>float-precision\<close>

text \<open>The coordinate hash that stands in for randomness.\<close>

definition hash :: "jsenv \<Rightarrow> jsval \<Rightarrow> jsval \<Rightarrow> jsval" where
  "hash env x y =
     (let h = js_add env (js_mul env x (N 374761393)) (js_mul env y (N 668265263));
          h = js_mul env (js_xor env h (js_sar env h (N 13))) (N 1274126177)
      in js_add env (js_div env (js_xor env h (js_sar env h (N 16))) (N 4294967296)) (lit env (5 / 10)))"

definition floatPrecision_rgb ::
  "jsenv \<Rightarrow> jsval \<Rightarrow> jsval \<Rightarrow> nat \<Rightarrow> nat \<Rightarrow> jsval \<Rightarrow> jsval \<Rightarrow> jsval \<Rightarrow> jsval \<times> jsval \<times> jsval" where
  "floatPrecision_rgb env mode intensity y x r g b =
     (if mode = Str ''NaN holes (black spots)'' then
        (let threshold = js_mul env intensity (N 10);
             avg = js_div env (js_add env (js_add env r g) b) (N 3)
         in if (js_lt env avg threshold \<or> js_gt env avg (js_sub env (N 255) threshold))
               \<and> js_lt env (hash env (N (int x)) (N (int y))) (js_div env intensity (N 20))
            then (N 0, N 0, N 0)
            else (r, g, b))
      else if mode = Str ''Infinity clipping'' then
        (let brightness = js_div env (js_add env (js_add env r g) b) (N 3)
         in if js_gt env brightness (js_sub env (N 255) (js_mul env intensity (N 10))) then
              (let overflowFactor =
                     js_add env (N 1)
                       (js_div env
                          (js_sub env brightness (js_sub env (N 255) (js_mul env intensity (N 10))))
                          (N 50));
                   r = Math_min env (N 255) (js_mul env r overflowFactor);
                   g = Math_min env (N 255) (js_mul env g overflowFactor);
                   b = Math_min env (N 255) (js_mul env b overflowFactor);
                   r = (if js_gt env r (N 255) then N 255 else r);
                   g = (if js_gt env g (N 250) then N 250 else g);
                   b = (if js_gt env b (N 245) then N 245 else b)
               in (r, g, b))
            else (r, g, b))
      else if mode = Str ''Precision banding'' then
        (let precision = Math_max env (N 1) (Math_floor env (js_mul env intensity (N 3)));
             quant = (\<lambda>v. Math_max env (N 1)
                             (js_sub env precision (Math_floor env (js_div env v (N 32)))));
             quantR = quant r;
             quantG = quant g;
             quantB = quant b
         in (js_mul env (Math_round env (js_div env r quantR)) quantR,
             js_mul env (Math_round env (js_div env g quantG)) quantG,
             js_mul env (Math_round env (js_div env b quantB)) quantB))
      else if mode = Str ''Denormal visualization'' then
        (let denormalThreshold = intensity;
             mark = (\<lambda>v. if js_lt env v denormalThreshold
                          then (if js_gt env v (N 0) then N 128 else N 0) else v)
         in (mark r, mark g, mark b))
      else if mode = Str ''Random corruption'' then
        (if js_lt env (hash env (N (int x)) (N (int y))) (js_div env intensity (N 100)) then
           (let corruptType = Math_floor env (js_mul env (hash env (N (int x + 100)) (N (int y))) (N 4))
            in if js_seq corruptType (N 0) then (N 0, N 0, N 0)
               else if js_seq corruptType (N 1) then (N 255, N 255, N 255)
               else if js_seq corruptType (N 2) then (N 255, N 0, N 255)
               else if js_seq corruptType (N 3) then
                 (Math_floor env (js_mul env (hash env (N (int x)) (N (int y + 1))) (N 256)),
                  Math_floor env (js_mul env (hash env (N (int x + 1)) (N (int y))) (N 256)),
                  Math_floor env (js_mul env (hash env (N (int x + 1)) (N (int y + 1))) (N 256)))
               else (r, g, b))
         else (r, g, b))
      else (r, g, b))"

definition floatPrecision_px ::
  "jsenv \<Rightarrow> jsval \<Rightarrow> jsval \<Rightarrow> nat \<Rightarrow> byte list \<Rightarrow> nat \<Rightarrow> nat \<Rightarrow> byte list \<Rightarrow> byte list" where
  "floatPrecision_px env mode intensity width data y x outData =
     (let idx = (y * width + x) * 4;
          r = rd data idx;
          g = rd data (idx + 1);
          b = rd data (idx + 2);
          (r, g, b) = floatPrecision_rgb env mode intensity y x r g b;
          outData = put env outData idx (round_clamp255 env r);
          outData = put env outData (idx + 1) (round_clamp255 env g);
          outData = put env outData (idx + 2) (round_clamp255 env b);
          outData = put env outData (idx + 3) (rd data (idx + 3))
      in outData)"

definition floatPrecision_apply :: "jsenv \<Rightarrow> nat \<Rightarrow> GlitchParams \<Rightarrow> heap \<Rightarrow> outcome \<times> heap" where
  "floatPrecision_apply env imageData params s =
     (let width = img_width (s ! imageData);
          height = img_height (s ! imageData);
          mode = js_or (getp params ''mode'') (Str ''NaN holes (black spots)'');
          intensity = js_or (getp params ''intensity'') (N 5);
          (output, s) = new_ImageData width height s;
          s = for_yx imageData output height width (floatPrecision_px env mode intensity width) s
      in (Returns output, s))"

section \<open>Memory-layout transforms\<close>

subsection \<open>wrong-stride and wrong-pitch\<close>

text \<open>
  The two transforms share their loop body: the pixel is read at
  \<open>(y * wrongStride + x * 4) % data.length\<close>, and is black where the read would pass the
  end of the buffer.
\<close>

definition wrongStride_px ::
  "jsenv \<Rightarrow> jsval \<Rightarrow> nat \<Rightarrow> byte list \<Rightarrow> nat \<Rightarrow> nat \<Rightarrow> byte list \<Rightarrow> byte list" where
  "wrongStride_px env wrongStride width data y x outData =
     (let outIdx = (y * width + x) * 4;
          wrongOffset = js_add env (js_mul env (N (int y)) wrongStride) (N (int (x * 4)));
          wrongIdx = js_mod env wrongOffset (N (int (length data)))
      in if js_lt env (js_add env wrongIdx (N 3)) (N (int (length data))) then
           (let outData = put env outData outIdx (rdn env data wrongIdx);
                outData = put env outData (outIdx + 1) (rdn env data (js_add env wrongIdx (N 1)));
                outData = put env outData (outIdx + 2) (rdn env data (js_add env wrongIdx (N 2)));
                outData = put env outData (outIdx + 3) (N 255)
            in outData)
         else
           (let outData = put env outData outIdx (N 0);
                outData = put env outData (outIdx + 1) (N 0);
                outData = put env outData (outIdx + 2) (N 0);
                outData = put env outData (outIdx + 3) (N 255)
            in outData))"

definition wrongStride_apply :: "jsenv \<Rightarrow> nat \<Rightarrow> GlitchParams \<Rightarrow> heap \<Rightarrow> outcome \<times> heap" where
  "wrongStride_apply env imageData params s =
     (let width = img_width (s ! imageData);
          height = img_height (s ! imageData);
          strideError = js_or (getp params ''strideError'') (N 4);
          (output, s) = new_ImageData width height s;
          correctStride = width * 4;
          wrongStride = js_add env (N (int correctStride)) strideError;
          s = for_yx imageData output height width (wrongStride_px env wrongStride width) s
      in (Returns output, s))"

definition wrongPitch_apply :: "jsenv \<Rightarrow> nat \<Rightarrow> GlitchParams \<Rightarrow> heap \<Rightarrow> outcome \<times> heap" where
  "wrongPitch_apply env imageData params s =
     (let width = img_width (s ! imageData);
          height = img_height (s ! imageData);
          pitchMultiplier = js_or (getp params ''pitchMultiplier'') (lit env (125 / 100));
          (output, s) = new_ImageData width height s;
          correctPitch = width * 4;
          wrongPitch = Math_floor env (js_mul env (N (int correctPitch)) pitchMultiplier);
          s = for_yx imageData output height width (wrongStride_px env wrongPitch width) s
      in (Returns output, s))"

subsection \<open>row-padding\<close>

definition rowPadding_bmp_px ::
  "jsenv \<Rightarrow> nat \<Rightarrow> byte list \<Rightarrow> nat \<Rightarrow> nat \<Rightarrow> byte list \<Rightarrow> byte list" where
  "rowPadding_bmp_px env width data y x outData =
     (let rowSizeUnpadded = width * 3;
          padding = (4 - (rowSizeUnpadded mod 4)) mod 4;
          outIdx = (y * width + x) * 4;
          unpaddedOffset = y * rowSizeUnpadded + x * 3;
          effectiveOffset = unpaddedOffset + (y * padding);
          srcPixel = effectiveOffset div 4;
          srcIdx = srcPixel * 4
      in if srcIdx + 3 < length data then
           (let outData = put env outData outIdx (rd data srcIdx);
                outData = put env outData (outIdx + 1) (rd data (srcIdx + 1));
                outData = put env outData (outIdx + 2) (rd data (srcIdx + 2));
                outData = put env outData (outIdx + 3) (N 255)
            in outData)
         else outData)"

definition rowPadding_px ::
  "jsenv \<Rightarrow> jsval \<Rightarrow> nat \<Rightarrow> byte list \<Rightarrow> nat \<Rightarrow> nat \<Rightarrow> byte list \<Rightarrow> byte list" where
  "rowPadding_px env paddingBytes width data y x outData =
     (let outIdx = (y * width + x) * 4;
          offset = js_mul env (N (int y)) paddingBytes;
          srcIdx = js_mod env (js_add env (N (int outIdx)) offset) (N (int (length data)));
          outData = put env outData outIdx (rdn env data srcIdx);
          outData = put env outData (outIdx + 1)
                      (rdn env data (Math_min env (js_add env srcIdx (N 1)) (N (int (length data) - 1))));
          outData = put env outData (outIdx + 2)
                      (rdn env data (Math_min env (js_add env srcIdx (N 2)) (N (int (length data) - 1))));
          outData = put env outData (outIdx + 3) (N 255)
      in outData)"

definition rowPadding_apply :: "jsenv \<Rightarrow> nat \<Rightarrow> GlitchParams \<Rightarrow> heap \<Rightarrow> outcome \<times> heap" where
  "rowPadding_apply env imageData params s =
     (let width = img_width (s ! imageData);
          height = img_height (s ! imageData);
          paddingBytes = js_or (getp params ''paddingBytes'') (N 4);
          simulateBMP = js_or (getp params ''simulateBMP'') (Bool False);
          (output, s) = new_ImageData width height s;
          s = (if truthy simulateBMP
               then for_yx imageData output height width (rowPadding_bmp_px env width) s
               else for_yx imageData output height width (rowPadding_px env paddingBytes width) s)
      in (Returns output, s))"

subsection \<open>alignment\<close>

definition alignment_px ::
  "jsenv \<Rightarrow> jsval \<Rightarrow> jsval \<Rightarrow> byte list \<Rightarrow> nat \<Rightarrow> byte list \<Rightarrow> byte list" where
  "alignment_px env offsetBytes blockSize data i outData =
     (let blockIndex = Math_floor env (js_div env (N (int i)) blockSize);
          offset = (if js_seq (js_mod env blockIndex (N 2)) (N 0) then offsetBytes else N 0);
          srcIdx = js_mod env (js_add env (N (int i)) offset) (N (int (length data)));
          outData = put env outData i (rdn env data srcIdx);
          outData = put env outData (i + 1)
                      (rdn env data (Math_min env (js_add env srcIdx (N 1)) (N (int (length data) - 1))));
          outData = put env outData (i + 2)
                      (rdn env data (Math_min env (js_add env srcIdx (N 2)) (N (int (length data) - 1))));
          outData = put env outData (i + 3) (rd data (i + 3))
      in outData)"

definition alignment_apply :: "jsenv \<Rightarrow> nat \<Rightarrow> GlitchParams \<Rightarrow> heap \<Rightarrow> outcome \<times> heap" where
  "alignment_apply env imageData params s =
     (let width = img_width (s ! imageData);
          height = img_height (s ! imageData);
          offsetBytes = js_or (getp params ''offsetBytes'') (N 1);
          blockSize = js_or (getp params ''blockSize'') (N 16);
          (output, s) = new_ImageData width height s;
          s = for_i4 imageData output (alignment_px env offsetBytes blockSize) s
      in (Returns output, s))"

subsection \<open>swizzle\<close>

text \<open>
  The Morton helpers work on 32-bit integers: \<open><<\<close> wraps, \<open>>>\<close> keeps the sign, and the
  result is read back as a signed number.
\<close>

definition splitBits :: "32 word \<Rightarrow> 32 word" where
  "splitBits x =
     (let x = (x OR push_bit 8 x) AND 0x00FF00FF;
          x = (x OR push_bit 4 x) AND 0x0F0F0F0F;
          x = (x OR push_bit 2 x) AND 0x33333333;
          x = (x OR push_bit 1 x) AND 0x55555555
      in x)"

definition mortonEncode :: "nat \<Rightarrow> nat \<Rightarrow> int" where
  "mortonEncode x y = sint (splitBits (word_of_nat x) OR push_bit 1 (splitBits (word_of_nat y)))"

definition compactBits :: "32 word \<Rightarrow> 32 word" where
  "compactBits x =
     (let x = x AND 0x55555555;
          x = (x OR signed_drop_bit 1 x) AND 0x33333333;
          x = (x OR signed_drop_bit 2 x) AND 0x0F0F0F0F;
          x = (x OR signed_drop_bit 4 x) AND 0x00FF00FF;
          x = (x OR signed_drop_bit 8 x) AND 0x0000FFFF
      in x)"

definition mortonDecode :: "nat \<Rightarrow> int \<times> int" where
  "mortonDecode code =
     (sint (compactBits (word_of_nat code)),
      sint (compactBits (signed_drop_bit 1 (word_of_nat code))))"

text \<open>\<open>%\<close> on integers: the remainder has the sign of the dividend.\<close>

definition js_rem :: "int \<Rightarrow> int \<Rightarrow> int" where
  "js_rem a b = (if a \<ge> 0 then a mod \<bar>b\<bar> else - ((- a) mod \<bar>b\<bar>))"

text \<open>
  The source coordinates of output pixel \<open>(x, y)\<close>. Inside the pixel loop the width and
  the height are positive, so no remainder is taken by zero.
\<close>

definition swizzle_src :: "jsval \<Rightarrow> jsval \<Rightarrow> nat \<Rightarrow> nat \<Rightarrow> nat \<Rightarrow> nat \<Rightarrow> int \<times> int" where
  "swizzle_src pattern inverse_p width height y x =
     (if truthy inverse_p then
        (if pattern = Str ''Morton (Z-order)'' then
           (let morton = mortonEncode x y;
                linearIdx = js_rem morton (int (width * height))
            in (js_rem linearIdx (int width), linearIdx div int width))
         else if pattern = Str ''Tiled 8x8'' then
           (let tileX8 = x div 8;
                tileY8 = y div 8;
                inTileX8 = x mod 8;
                inTileY8 = y mod 8;
                tilesPerRow8 = (width + 7) div 8;
                linearIdx = (tileY8 * tilesPerRow8 + tileX8) * 64 + inTileY8 * 8 + inTileX8;
                linearIdx = linearIdx mod (width * height)
            in (int (linearIdx mod width), int (linearIdx div width)))
         else if pattern = Str ''Tiled 4x4'' then
           (let tileX4 = x div 4;
                tileY4 = y div 4;
                inTileX4 = x mod 4;
                inTileY4 = y mod 4;
                tilesPerRow4 = (width + 3) div 4;
                linearIdx = (tileY4 * tilesPerRow4 + tileX4) * 16 + inTileY4 * 4 + inTileX4;
                linearIdx = linearIdx mod (width * height)
            in (int (linearIdx mod width), int (linearIdx div width)))
         else if pattern = Str ''Interleaved rows'' then
           (int x, if y mod 2 = 0 then int (y div 2) else int (y div 2 + height div 2))
         else (int x, int y))
      else
        (let linearIdx = y * width + x
         in if pattern = Str ''Morton (Z-order)'' then
              (let (srcX, srcY) = mortonDecode linearIdx
               in (js_rem srcX (int width), js_rem srcY (int height)))
            else if pattern = Str ''Tiled 8x8'' then
              (let tile8 = linearIdx div 64;
                   inTile8 = linearIdx mod 64;
                   tilesPerRow8 = (width + 7) div 8;
                   tileX8 = tile8 mod tilesPerRow8;
                   tileY8 = tile8 div tilesPerRow8
               in (int (tileX8 * 8 + (inTile8 mod 8)), int (tileY8 * 8 + inTile8 div 8)))
            else if pattern = Str ''Tiled 4x4'' then
              (let tile4 = linearIdx div 16;
                   inTile4 = linearIdx mod 16;
                   tilesPerRow4 = (width + 3) div 4;
                   tileX4 = tile4 mod tilesPerRow4;
                   tileY4 = tile4 div tilesPerRow4
               in (int (tileX4 * 4 + (inTile4 mod 4)), int (tileY4 * 4 + inTile4 div 4)))
            else if pattern = Str ''Interleaved rows'' then
              (int x, if 2 * y < height then int (y * 2) else (int y - int (height div 2)) * 2 + 1)
            else (int x, int y)))"

definition swizzle_px ::
  "jsenv \<Rightarrow> jsval \<Rightarrow> jsval \<Rightarrow> nat \<Rightarrow> nat \<Rightarrow> byte list \<Rightarrow> nat \<Rightarrow> nat \<Rightarrow> byte list \<Rightarrow> byte list" where
  "swizzle_px env pattern inverse_p width height data y x outData =
     (let outIdx = (y * width + x) * 4;
          (srcX, srcY) = swizzle_src pattern inverse_p width height y x;
          srcX = max 0 (min (int width - 1) srcX);
          srcY = max 0 (min (int height - 1) srcY);
          srcIdx = nat ((srcY * int width + srcX) * 4);
          outData = put env outData outIdx (rd data srcIdx);
          outData = put env outData (outIdx + 1) (rd data (srcIdx + 1));
          outData = put env outData (outIdx + 2) (rd data (srcIdx + 2));
          outData = put env outData (outIdx + 3) (rd data (srcIdx + 3))
      in outData)"

definition swizzle_apply :: "jsenv \<Rightarrow> nat \<Rightarrow> GlitchParams \<Rightarrow> heap \<Rightarrow> outcome \<times> heap" where
  "swizzle_apply env imageData params s =
     (let width = img_width (s ! imageData);
          height = img_height (s ! imageData);
          pattern = js_or (getp params ''pattern'') (Str ''Morton (Z-order)'');
          inverse_p = js_or (getp params ''inverse'') (Bool False);
          (output, s) = new_ImageData width height s;
          s = for_yx imageData output height width (swizzle_px env pattern inverse_p width height) s
      in (Returns output, s))"

section \<open>Coordinate transforms\<close>

subsection \<open>flipped-axis\<close>

definition flippedAxis_px ::
  "jsenv \<Rightarrow> jsval \<Rightarrow> nat \<Rightarrow> nat \<Rightarrow> byte list \<Rightarrow> nat \<Rightarrow> nat \<Rightarrow> byte list \<Rightarrow> byte list" where
  "flippedAxis_px env flipMode width height data y x outData =
     (let outIdx = (y * width + x) * 4;
          srcX = x;
          srcY = y;
          (srcX, srcY) =
            (if flipMode = Str ''Flip Vertical'' then (srcX, height - 1 - y)
             else if flipMode = Str ''Flip Horizontal'' then (width - 1 - x, srcY)
             else if flipMode = Str ''Flip Both'' then (width - 1 - x, height - 1 - y)
             else if flipMode = Str ''Rotate 180'' then (width - 1 - x, height - 1 - y)
             else (srcX, srcY));
          srcIdx = (srcY * width + srcX) * 4;
          outData = put env outData outIdx (rd data srcIdx);
          outData = put env outData (outIdx + 1) (rd data (srcIdx + 1));
          outData = put env outData (outIdx + 2) (rd data (srcIdx + 2));
          outData = put env outData (outIdx + 3) (rd data (srcIdx + 3))
      in outData)"

definition flippedAxis_apply :: "jsenv \<Rightarrow> nat \<Rightarrow> GlitchParams \<Rightarrow> heap \<Rightarrow> outcome \<times> heap" where
  "flippedAxis_apply env imageData params s =
     (let width = img_width (s ! imageData);
          height = img_height (s ! imageData);
          flipMode = js_or (getp params ''flipMode'') (Str ''Flip Vertical'');
          (output, s) = new_ImageData width height s;
          s = for_yx imageData output height width (flippedAxis_px env flipMode width height) s
      in (Returns output, s))"

subsection \<open>off-by-one\<close>

definition offByOne_px ::
  "jsenv \<Rightarrow> jsval \<Rightarrow> jsval \<Rightarrow> bool \<Rightarrow> nat \<Rightarrow> nat \<Rightarrow> byte list \<Rightarrow> nat \<Rightarrow> nat \<Rightarrow> byte list \<Rightarrow> byte list" where
  "offByOne_px env xOffset yOffset wrapEdges width height data y x outData =
     (let outIdx = (y * width + x) * 4;
          srcX = js_add env (N (int x)) xOffset;
          srcY = js_add env (N (int y)) yOffset;
          (srcX, srcY) =
            (if wrapEdges then
               (js_mod env (js_add env (js_mod env srcX (N (int width))) (N (int width))) (N (int width)),
                js_mod env (js_add env (js_mod env srcY (N (int height))) (N (int height))) (N (int height)))
             else
               (Math_max env (N 0) (Math_min env (N (int width - 1)) srcX),
                Math_max env (N 0) (Math_min env (N (int height - 1)) srcY)));
          srcIdx = js_mul env (js_add env (js_mul env srcY (N (int width))) srcX) (N 4);
          outData = put env outData outIdx (rdn env data srcIdx);
          outData = put env outData (outIdx + 1) (rdn env data (js_add env srcIdx (N 1)));
          outData = put env outData (outIdx + 2) (rdn env data (js_add env srcIdx (N 2)));
          outData = put env outData (outIdx + 3) (rdn env data (js_add env srcIdx (N 3)))
      in outData)"

definition offByOne_apply :: "jsenv \<Rightarrow> nat \<Rightarrow> GlitchParams \<Rightarrow> heap \<Rightarrow> outcome \<times> heap" where
  "offByOne_apply env imageData params s =
     (let width = img_width (s ! imageData);
          height = img_height (s ! imageData);
          xOffset = js_or (getp params ''xOffset'') (N 1);
          yOffset = js_or (getp params ''yOffset'') (N 1);
          wrapEdges = js_sne (getp params ''wrapEdges'') (Bool False);
          (output, s) = new_ImageData width height s;
          s = for_yx imageData output height width
                (offByOne_px env xOffset yOffset wrapEdges width height) s
      in (Returns output, s))"

subsection \<open>uv-wrapping\<close>

definition uv_wrap :: "jsenv \<Rightarrow> jsval \<Rightarrow> jsval \<Rightarrow> jsval \<Rightarrow> jsval" where
  "uv_wrap env wrapMode uvScale u =
     (if wrapMode = Str ''Repeat'' then
        js_mod env (js_add env (js_mod env u (N 1)) (N 1)) (N 1)
      else if wrapMode = Str ''Mirror'' then
        (let u = Math_abs env
                   (js_sub env (js_mod env (js_add env (js_mod env u (N 2)) (N 2)) (N 2)) (N 1));
             u = (if js_seq (js_mod env (Math_floor env (Math_abs env (js_mul env u uvScale))) (N 2)) (N 1)
                  then js_sub env (N 1) u else u)
         in js_mod env (js_add env (js_mod env u (N 1)) (N 1)) (N 1))
      else if wrapMode = Str ''Clamp'' then
        Math_max env (N 0) (Math_min env (N 1) u)
      else u)"

definition uvWrapping_px ::
  "jsenv \<Rightarrow> jsval \<Rightarrow> jsval \<Rightarrow> jsval \<Rightarrow> jsval \<Rightarrow> nat \<Rightarrow> nat \<Rightarrow> byte list \<Rightarrow> nat \<Rightarrow> nat
     \<Rightarrow> byte list \<Rightarrow> byte list" where
  "uvWrapping_px env wrapMode uvScale uvOffsetX uvOffsetY width height data y x outData =
     (let outIdx = (y * width + x) * 4;
          u = js_add env (js_mul env (js_div env (N (int x)) (N (int width))) uvScale) uvOffsetX;
          v = js_add env (js_mul env (js_div env (N (int y)) (N (int height))) uvScale) uvOffsetY
      in if wrapMode = Str ''None (shows bug)''
            \<and> (js_lt env u (N 0) \<or> js_gt env u (N 1) \<or> js_lt env v (N 0) \<or> js_gt env v (N 1))
         then
           (let outData = put env outData outIdx (N 255);
                outData = put env outData (outIdx + 1) (N 0);
                outData = put env outData (outIdx + 2) (N 255);
                outData = put env outData (outIdx + 3) (N 255)
            in outData)
         else
           (let u = uv_wrap env wrapMode uvScale u;
                v = uv_wrap env wrapMode uvScale v;
                srcX = Math_floor env (js_mul env u (N (int width - 1)));
                srcY = Math_floor env (js_mul env v (N (int height - 1)));
                srcIdx = js_mul env (js_add env (js_mul env srcY (N (int width))) srcX) (N 4);
                outData = put env outData outIdx (rdn env data srcIdx);
                outData = put env outData (outIdx + 1) (rdn env data (js_add env srcIdx (N 1)));
                outData = put env outData (outIdx + 2) (rdn env data (js_add env srcIdx (N 2)));
                outData = put env outData (outIdx + 3) (rdn env data (js_add env srcIdx (N 3)))
            in outData))"

definition uvWrapping_apply :: "jsenv \<Rightarrow> nat \<Rightarrow> GlitchParams \<Rightarrow> heap \<Rightarrow> outcome \<times> heap" where
  "uvWrapping_apply env imageData params s =
     (let width = img_width (s ! imageData);
          height = img_height (s ! imageData);
          wrapMode = js_or (getp params ''wrapMode'') (Str ''Repeat'');
          uvScale = js_or (getp params ''uvScale'') (N 2);
          uvOffsetX = js_or (getp params ''uvOffsetX'') (N 0);
          uvOffsetY = js_or (getp params ''uvOffsetY'') (N 0);
          (output, s) = new_ImageData width height s;
          s = for_yx imageData output height width
                (uvWrapping_px env wrapMode uvScale uvOffsetX uvOffsetY width height) s
      in (Returns output, s))"

subsection \<open>aspect-ratio\<close>

definition aspectRatio_src ::
  "jsenv \<Rightarrow> jsval \<Rightarrow> jsval \<Rightarrow> jsval \<Rightarrow> nat \<Rightarrow> nat \<Rightarrow> nat \<Rightarrow> nat \<Rightarrow> jsval \<times> jsval" where
  "aspectRatio_src env mode scaleX scaleY width height y x =
     (if mode = Str ''Swap Width/Height'' then
        (let normalizedX = js_div env (N (int x)) (N (int width));
             normalizedY = js_div env (N (int y)) (N (int height))
         in (Math_floor env (js_mul env normalizedY (N (int width - 1))),
             Math_floor env (js_mul env normalizedX (N (int height - 1)))))
      else if mode = Str ''Force Square'' then
        (let maxDim = max width height
         in (js_mod env (Math_floor env (js_mul env (js_div env (N (int x)) (N (int width))) (N (int maxDim))))
               (N (int width)),
             js_mod env (Math_floor env (js_mul env (js_div env (N (int y)) (N (int height))) (N (int maxDim))))
               (N (int height))))
      else if mode = Str ''Wrong Aspect Scale'' then
        (let centerX = js_div env (N (int width)) (N 2);
             centerY = js_div env (N (int height)) (N 2);
             srcX = Math_floor env (js_add env centerX (js_div env (js_sub env (N (int x)) centerX) scaleX));
             srcY = Math_floor env (js_add env centerY (js_div env (js_sub env (N (int y)) centerY) scaleY))
         in (Math_max env (N 0) (Math_min env (N (int width - 1)) srcX),
             Math_max env (N 0) (Math_min env (N (int height - 1)) srcY)))
      else (N (int x), N (int y)))"

definition aspectRatio_px ::
  "jsenv \<Rightarrow> jsval \<Rightarrow> jsval \<Rightarrow> jsval \<Rightarrow> nat \<Rightarrow> nat \<Rightarrow> byte list \<Rightarrow> nat \<Rightarrow> nat \<Rightarrow> byte list \<Rightarrow> byte list" where
  "aspectRatio_px env mode scaleX scaleY width height data y x outData =
     (let outIdx = (y * width + x) * 4;
          (srcX, srcY) = aspectRatio_src env mode scaleX scaleY width height y x;
          srcX = Math_max env (N 0) (Math_min env (N (int width - 1)) srcX);
          srcY = Math_max env (N 0) (Math_min env (N (int height - 1)) srcY);
          srcIdx = js_mul env (js_add env (js_mul env srcY (N (int width))) srcX) (N 4);
          outData = put env outData outIdx (rdn env data srcIdx);
          outData = put env outData (outIdx + 1) (rdn env data (js_add env srcIdx (N 1)));
          outData = put env outData (outIdx + 2) (rdn env data (js_add env srcIdx (N 2)));
          outData = put env outData (outIdx + 3) (rdn env data (js_add env srcIdx (N 3)))
      in outData)"

definition aspectRatio_apply :: "jsenv \<Rightarrow> nat \<Rightarrow> GlitchParams \<Rightarrow> heap \<Rightarrow> outcome \<times> heap" where
  "aspectRatio_apply env imageData params s =
     (let width = img_width (s ! imageData);
          height = img_height (s ! imageData);
          mode = js_or (getp params ''mode'') (Str ''Swap Width/Height'');
          scaleX = js_or (getp params ''scaleX'') (N 1);
          scaleY = js_or (getp params ''scaleY'') (N 1);
          (output, s) = new_ImageData width height s;
          s = for_yx imageData output height width
                (aspectRatio_px env mode scaleX scaleY width height) s
      in (Returns output, s))"

subsection \<open>The sampling helpers\<close>

text \<open>
  \<open>getPixel\<close> and \<open>bilinear\<close> are local functions of both sampling and half-pixel, with
  the same text in the two files. A pixel is the list of its four samples.
\<close>

definition getPixel :: "jsenv \<Rightarrow> nat \<Rightarrow> nat \<Rightarrow> byte list \<Rightarrow> jsval \<Rightarrow> jsval \<Rightarrow> jsval list" where
  "getPixel env width height data x y =
     (let x = Math_max env (N 0) (Math_min env (N (int width - 1)) (Math_floor env x));
          y = Math_max env (N 0) (Math_min env (N (int height - 1)) (Math_floor env y));
          idx = js_mul env (js_add env (js_mul env y (N (int width))) x) (N 4)
      in [rdn env data idx, rdn env data (js_add env idx (N 1)),
          rdn env data (js_add env idx (N 2)), rdn env data (js_add env idx (N 3))])"

definition bilinear :: "jsenv \<Rightarrow> nat \<Rightarrow> nat \<Rightarrow> byte list \<Rightarrow> jsval \<Rightarrow> jsval \<Rightarrow> jsval list" where
  "bilinear env width height data x y =
     (let x0 = Math_floor env x;
          y0 = Math_floor env y;
          x1 = Math_min env (js_add env x0 (N 1)) (N (int width - 1));
          y1 = Math_min env (js_add env y0 (N 1)) (N (int height - 1));
          fx = js_sub env x x0;
          fy = js_sub env y y0;
          p00 = getPixel env width height data x0 y0;
          p10 = getPixel env width height data x1 y0;
          p01 = getPixel env width height data x0 y1;
          p11 = getPixel env width height data x1 y1
      in map (\<lambda>c.
            (let top = js_add env (js_mul env (p00 ! c) (js_sub env (N 1) fx)) (js_mul env (p10 ! c) fx);
                 bottom = js_add env (js_mul env (p01 ! c) (js_sub env (N 1) fx)) (js_mul env (p11 ! c) fx)
             in Math_round env
                  (js_add env (js_mul env top (js_sub env (N 1) fy)) (js_mul env bottom fy))))
          [0..<4])"

text \<open>The four stores \<open>outData[outIdx + c] = pixel[c]\<close>.\<close>

definition put_pixel :: "jsenv \<Rightarrow> byte list \<Rightarrow> nat \<Rightarrow> jsval list \<Rightarrow> byte list" where
  "put_pixel env outData outIdx pixel =
     put4 env outData outIdx (pixel ! 0) (pixel ! 1) (pixel ! 2) (pixel ! 3)"

subsection \<open>half-pixel\<close>

definition halfPixel_px ::
  "jsenv \<Rightarrow> jsval \<Rightarrow> jsval \<Rightarrow> bool \<Rightarrow> nat \<Rightarrow> nat \<Rightarrow> byte list \<Rightarrow> nat \<Rightarrow> nat \<Rightarrow> byte list \<Rightarrow> byte list" where
  "halfPixel_px env offsetX offsetY useFiltering width height data y x outData =
     (let outIdx = (y * width + x) * 4;
          sampleX = js_add env (N (int x)) offsetX;
          sampleY = js_add env (N (int y)) offsetY;
          pixel = (if useFiltering then bilinear env width height data sampleX sampleY
                   else getPixel env width height data (Math_floor env sampleX) (Math_floor env sampleY))
      in put_pixel env outData outIdx pixel)"

definition halfPixel_apply :: "jsenv \<Rightarrow> nat \<Rightarrow> GlitchParams \<Rightarrow> heap \<Rightarrow> outcome \<times> heap" where
  "halfPixel_apply env imageData params s =
     (let width = img_width (s ! imageData);
          height = img_height (s ! imageData);
          offsetX = js_nullish (getp params ''offsetX'') (lit env (5 / 10));
          offsetY = js_nullish (getp params ''offsetY'') (lit env (5 / 10));
          useFiltering = js_sne (getp params ''useFiltering'') (Bool False);
          (output, s) = new_ImageData width height s;
          s = for_yx imageData output height width
                (halfPixel_px env offsetX offsetY useFiltering width height) s
      in (Returns output, s))"

subsection \<open>sampling\<close>

text \<open>
  The blur of mode \<open>Bad bilinear (blurry)\<close> sums \<open>samples * samples\<close> bilinear taps in two
  counting loops, \<open>for (let sx = 0; sx < samples; sx++)\<close>, whose bound is the parameter
  \<open>scale\<close>. The counters are numbers, and for a bound such as \<open>Infinity\<close> the loops never
  end: the sums are partial functions, \<open>None\<close> when the loop does not terminate.
\<close>

partial_function (option) blur_sx ::
  "jsenv \<Rightarrow> jsval \<Rightarrow> nat \<Rightarrow> nat \<Rightarrow> byte list \<Rightarrow> nat \<Rightarrow> nat \<Rightarrow> jsval \<Rightarrow> jsval
     \<Rightarrow> jsval \<times> jsval \<times> jsval \<times> jsval \<Rightarrow> (jsval \<times> jsval \<times> jsval \<times> jsval) option" where
  "blur_sx env samples width height data y x sy sx acc =
     (if js_lt env sx samples then
        (let sampleX = js_add env (N (int x))
                         (js_mul env (js_sub env sx (js_div env samples (N 2))) (lit env (5 / 10)));
             sampleY = js_add env (N (int y))
                         (js_mul env (js_sub env sy (js_div env samples (N 2))) (lit env (5 / 10)));
             p = bilinear env width height data sampleX sampleY
         in blur_sx env samples width height data y x sy (js_add env sx (N 1))
              (js_add env (fst acc) (p ! 0),
               js_add env (fst (snd acc)) (p ! 1),
               js_add env (fst (snd (snd acc))) (p ! 2),
               js_add env (snd (snd (snd acc))) (p ! 3)))
      else Some acc)"

partial_function (option) blur_sy ::
  "jsenv \<Rightarrow> jsval \<Rightarrow> nat \<Rightarrow> nat \<Rightarrow> byte list \<Rightarrow> nat \<Rightarrow> nat \<Rightarrow> jsval
     \<Rightarrow> jsval \<times> jsval \<times> jsval \<times> jsval \<Rightarrow> (jsval \<times> jsval \<times> jsval \<times> jsval) option" where
  "blur_sy env samples width height data y x sy acc =
     (if js_lt env sy samples then
        Option.bind (blur_sx env samples width height data y x sy (N 0) acc)
          (\<lambda>acc. blur_sy env samples width height data y x (js_add env sy (N 1)) acc)
      else Some acc)"

declare blur_sx.simps [code]
declare blur_sy.simps [code]

definition sampling_pixel ::
  "jsenv \<Rightarrow> jsval \<Rightarrow> jsval \<Rightarrow> nat \<Rightarrow> nat \<Rightarrow> byte list \<Rightarrow> nat \<Rightarrow> nat \<Rightarrow> jsval list option" where
  "sampling_pixel env mode scale width height data y x =
     (if mode = Str ''Nearest (blocky)'' then
        (let nx = js_add env (js_mul env (Math_floor env (js_div env (N (int x)) scale)) scale)
                    (js_div env scale (N 2));
             ny = js_add env (js_mul env (Math_floor env (js_div env (N (int y)) scale)) scale)
                    (js_div env scale (N 2))
         in Some (getPixel env width height data nx ny))
      else if mode = Str ''Exaggerated nearest (pixelate)'' then
        (let px = js_mul env (Math_floor env (js_div env (N (int x)) scale)) scale;
             py = js_mul env (Math_floor env (js_div env (N (int y)) scale)) scale
         in Some (getPixel env width height data px py))
      else if mode = Str ''Bad bilinear (blurry)'' then
        (let samples = scale
         in case blur_sy env samples width height data y x (N 0) (N 0, N 0, N 0, N 0) of
              None \<Rightarrow> None
            | Some (r, g, b, a) \<Rightarrow>
                (let count = js_mul env samples samples
                 in Some [Math_round env (js_div env r count),
                          Math_round env (js_div env g count),
                          Math_round env (js_div env b count),
                          Math_round env (js_div env a count)]))
      else Some (getPixel env width height data (N (int x)) (N (int y))))"

definition sampling_px ::
  "jsenv \<Rightarrow> jsval \<Rightarrow> jsval \<Rightarrow> nat \<Rightarrow> nat \<Rightarrow> byte list \<Rightarrow> nat \<Rightarrow> nat
     \<Rightarrow> abort + (byte list \<Rightarrow> byte list)" where
  "sampling_px env mode scale width height data y x =
     (let outIdx = (y * width + x) * 4
      in case sampling_pixel env mode scale width height data y x of
           None \<Rightarrow> Inl Hang
         | Some pixel \<Rightarrow> Inr (\<lambda>outData. put_pixel env outData outIdx pixel))"

definition sampling_apply :: "jsenv \<Rightarrow> nat \<Rightarrow> GlitchParams \<Rightarrow> heap \<Rightarrow> outcome \<times> heap" where
  "sampling_apply env imageData params s =
     (let width = img_width (s ! imageData);
          height = img_height (s ! imageData);
          mode = js_or (getp params ''mode'') (Str ''Nearest (blocky)'');
          scale = js_or (getp params ''scale'') (N 4);
          (output, s) = new_ImageData width height s;
          (ab, s) = for_yx_abort output height width
                      (\<lambda>s. sampling_px env mode scale width height (img_data (s ! imageData))) s
      in (outcome_of ab output, s))"

subsection \<open>mipmap\<close>

text \<open>
  One pixel of the box filter: the samples of the up to four source pixels are summed
  and the rounded mean is stored. The two inner loops stop at the edge of the source.
\<close>

definition downsample_px ::
  "jsenv \<Rightarrow> nat \<Rightarrow> nat \<Rightarrow> nat \<Rightarrow> byte list \<Rightarrow> nat \<Rightarrow> nat \<Rightarrow> byte list \<Rightarrow> byte list" where
  "downsample_px env mipW mipH newW data y x outData =
     (let srcX = x * 2;
          srcY = y * 2;
          (r, g, b, a, count) =
            fold (\<lambda>dy. fold (\<lambda>dx (r, g, b, a, count).
                    (let idx = ((srcY + dy) * mipW + (srcX + dx)) * 4
                     in (js_add env r (rd data idx),
                         js_add env g (rd data (idx + 1)),
                         js_add env b (rd data (idx + 2)),
                         js_add env a (rd data (idx + 3)),
                         count + 1)))
                  (takeWhile (\<lambda>dx. srcX + dx < mipW) [0..<2]))
              (takeWhile (\<lambda>dy. srcY + dy < mipH) [0..<2])
              (N 0, N 0, N 0, N 0, 0);
          outIdx = (y * newW + x) * 4;
          outData = put env outData outIdx (Math_round env (js_div env r (N (int count))));
          outData = put env outData (outIdx + 1) (Math_round env (js_div env g (N (int count))));
          outData = put env outData (outIdx + 2) (Math_round env (js_div env b (N (int count))));
          outData = put env outData (outIdx + 3) (Math_round env (js_div env a (N (int count))))
      in outData)"

text \<open>
  Following the spec: the average of the four source samples of a channel, rounded to the
  nearest integer (a tie goes up, as \<open>Math.round\<close> does).
\<close>

definition box_mean :: "byte \<Rightarrow> byte \<Rightarrow> byte \<Rightarrow> byte \<Rightarrow> byte" where
  "box_mean a b c d = word_of_int \<lfloor>real_of_int (uint a + uint b + uint c + uint d) / 4 + 1 / 2\<rfloor>"

text \<open>One round of the \<open>while\<close> loop: the next level is allocated and filled from the last.\<close>

definition mip_step :: "jsenv \<Rightarrow> nat \<Rightarrow> nat \<Rightarrow> nat \<Rightarrow> heap \<Rightarrow> nat \<times> nat \<times> nat \<times> heap" where
  "mip_step env prevMip mipW mipH s =
     (let newW = max 1 (mipW div 2);
          newH = max 1 (mipH div 2);
          (newMip, s) = new_ImageData newW newH s;
          s = for_yx prevMip newMip newH newW (downsample_px env mipW mipH newW) s
      in (newMip, newW, newH, s))"

function build_mips :: "jsenv \<Rightarrow> nat list \<Rightarrow> nat \<Rightarrow> nat \<Rightarrow> heap \<Rightarrow> nat list \<times> heap" where
  "build_mips env mipLevels mipW mipH s =
     (if mipW > 1 \<or> mipH > 1 then
        (let prevMip = last mipLevels;
             (newMip, newW, newH, s) = mip_step env prevMip mipW mipH s
         in build_mips env (mipLevels @ [newMip]) newW newH s)
      else (mipLevels, s))"
  by pat_completeness auto
termination
proof (relation "measure (\<lambda>(env, mipLevels, mipW, mipH, s).
    (if mipW > 1 then mipW else 0) + (if mipH > 1 then mipH else 0))", goal_cases)
  case 1
  show ?case by simp
next
  case (2 env mipLevels mipW mipH s prevMip x newMip y newW z newH s')
  then have "newW = max 1 (mipW div 2)" "newH = max 1 (mipH div 2)"
    by (auto simp: mip_step_def Let_def split: prod.splits)
  then show ?case using 2(1) by (auto simp: max_def)
qed

text \<open>
  The levels that the \<open>while\<close> loop appends, as a function of the last level alone: this
  is what the loop computes once the heap is left out, and the proofs relate the two.
\<close>

function mip_chain :: "jsenv \<Rightarrow> ImageData \<Rightarrow> nat \<Rightarrow> nat \<Rightarrow> ImageData list" where
  "mip_chain env prevMip mipW mipH =
     (if mipW > 1 \<or> mipH > 1 then
        (let newW = max 1 (mipW div 2);
             newH = max 1 (mipH div 2);
             newMip = \<lparr>img_width = newW, img_height = newH,
                       img_data = fold_yx newH newW (downsample_px env mipW mipH newW (img_data prevMip))
                                    (replicate (newW * newH * 4) 0)\<rparr>
         in newMip # mip_chain env newMip newW newH)
      else [])"
  by pat_completeness auto
termination
  by (relation "measure (\<lambda>(env, prevMip, mipW, mipH).
        (if mipW > 1 then mipW else 0) + (if mipH > 1 then mipH else 0))")
     (auto simp: max_def)

declare mip_chain.simps [simp del]

definition mipColors :: "int list list" where
  "mipColors =
     [[255, 0, 0], [0, 255, 0], [0, 0, 255], [255, 255, 0],
      [255, 0, 255], [0, 255, 255], [255, 128, 0], [128, 0, 255]]"

definition mipmap_level :: "jsenv \<Rightarrow> jsval \<Rightarrow> jsval \<Rightarrow> nat \<Rightarrow> nat \<Rightarrow> nat \<Rightarrow> jsval" where
  "mipmap_level env mode lodBias nLevels y x =
     (if mode = Str ''Too blurry (high LOD)'' then
        Math_min env (N (int nLevels - 1)) (Math_floor env lodBias)
      else if mode = Str ''Aliased (low LOD)'' then N 0
      else if mode = Str ''Wrong mip level'' then N (int (((x + y) div 32) mod nLevels))
      else if mode = Str ''Visualize mip levels'' then
        Math_min env (N (int nLevels - 1)) (Math_floor env lodBias)
      else N 0)"

text \<open>
  \<open>mipLevels[mipLevel]\<close> is \<open>undefined\<close> unless the level is an index of the array, and
  reading \<open>mip.width\<close> then throws a TypeError, before the pixel is stored.
\<close>

definition mipmap_px ::
  "jsenv \<Rightarrow> jsval \<Rightarrow> jsval \<Rightarrow> nat \<Rightarrow> ImageData list \<Rightarrow> nat \<Rightarrow> nat \<Rightarrow> abort + (byte list \<Rightarrow> byte list)" where
  "mipmap_px env mode lodBias width mips y x =
     (let outIdx = (y * width + x) * 4;
          mipLevel = mipmap_level env mode lodBias (length mips) y x
      in case to_index (ToNumber env mipLevel) of
           None \<Rightarrow> Inl (Throw TypeError)
         | Some k \<Rightarrow>
             if k < length mips then
               (let mip = mips ! k;
                    scale = Math_pow env (N 2) mipLevel;
                    srcX = js_mod env (Math_floor env (js_div env (N (int x)) scale)) (N (int (img_width mip)));
                    srcY = js_mod env (Math_floor env (js_div env (N (int y)) scale)) (N (int (img_height mip)));
                    srcIdx = js_mul env (js_add env (js_mul env srcY (N (int (img_width mip)))) srcX) (N 4)
                in Inr (\<lambda>outData.
                     (let outData =
                            (if mode = Str ''Visualize mip levels'' then
                               (let color = mipColors ! (k mod length mipColors);
                                    outData = put env outData outIdx
                                      (Math_round env (js_div env
                                         (js_add env (rdn env (img_data mip) srcIdx) (N (color ! 0))) (N 2)));
                                    outData = put env outData (outIdx + 1)
                                      (Math_round env (js_div env
                                         (js_add env (rdn env (img_data mip) (js_add env srcIdx (N 1)))
                                            (N (color ! 1))) (N 2)));
                                    outData = put env outData (outIdx + 2)
                                      (Math_round env (js_div env
                                         (js_add env (rdn env (img_data mip) (js_add env srcIdx (N 2)))
                                            (N (color ! 2))) (N 2)))
                                in outData)
                             else
                               (let outData = put env outData outIdx (rdn env (img_data mip) srcIdx);
                                    outData = put env outData (outIdx + 1)
                                      (rdn env (img_data mip) (js_add env srcIdx (N 1)));
                                    outData = put env outData (outIdx + 2)
                                      (rdn env (img_data mip) (js_add env srcIdx (N 2)))
                                in outData))
                      in put env outData (outIdx + 3) (N 255))))
             else Inl (Throw TypeError))"

definition mipmap_apply :: "jsenv \<Rightarrow> nat \<Rightarrow> GlitchParams \<Rightarrow> heap \<Rightarrow> outcome \<times> heap" where
  "mipmap_apply env imageData params s =
     (let width = img_width (s ! imageData);
          height = img_height (s ! imageData);
          mode = js_or (getp params ''mode'') (Str ''Too blurry (high LOD)'');
          lodBias = js_or (getp params ''lodBias'') (N 2);
          (output, s) = new_ImageData width height s;
          (mipLevels, s) = build_mips env [imageData] width height s;
          (ab, s) = for_yx_abort output height width
                      (\<lambda>s. mipmap_px env mode lodBias width (map (\<lambda>r. s ! r) mipLevels)) s
      in (outcome_of ab output, s))"

section \<open>The registry\<close>

text \<open>
  A \<open>GlitchDefinition\<close> pairs the metadata of a transform with its \<open>apply\<close> function. The
  documentation strings (description, technicalDetails, bugCode, fixCode and the
  description of each parameter) are never executed and are left out. A schema default is
  kept as the literal the source writes.
\<close>

datatype GlitchCategory = PixelFormat | MemoryLayout | Coordinates

datatype ParamType = Range | Boolean | Select

datatype literal = NumLit real | BoolLit bool | StrLit string

fun lit_val :: "jsenv \<Rightarrow> literal \<Rightarrow> jsval" where
  "lit_val env (NumLit q) = lit env q"
| "lit_val env (BoolLit b) = Bool b"
| "lit_val env (StrLit s) = Str s"

record ParamDefinition =
  param_name :: string
  param_type :: ParamType
  param_min :: "real option"
  param_max :: "real option"
  param_step :: "real option"
  param_options :: "string list"
  param_default :: literal

definition range_param :: "string \<Rightarrow> real \<Rightarrow> real \<Rightarrow> real \<Rightarrow> real \<Rightarrow> ParamDefinition" where
  "range_param n lo hi st d =
     \<lparr>param_name = n, param_type = Range, param_min = Some lo, param_max = Some hi,
      param_step = Some st, param_options = [], param_default = NumLit d\<rparr>"

definition boolean_param :: "string \<Rightarrow> bool \<Rightarrow> ParamDefinition" where
  "boolean_param n d =
     \<lparr>param_name = n, param_type = Boolean, param_min = None, param_max = None,
      param_step = None, param_options = [], param_default = BoolLit d\<rparr>"

definition select_param :: "string \<Rightarrow> string list \<Rightarrow> string \<Rightarrow> ParamDefinition" where
  "select_param n opts d =
     \<lparr>param_name = n, param_type = Select, param_min = None, param_max = None,
      param_step = None, param_options = opts, param_default = StrLit d\<rparr>"

record GlitchDefinition =
  glitch_id :: string
  glitch_name :: string
  glitch_category :: GlitchCategory
  glitch_params :: "ParamDefinition list"
  glitch_apply :: "jsenv \<Rightarrow> nat \<Rightarrow> GlitchParams \<Rightarrow> heap \<Rightarrow> outcome \<times> heap"

definition rgbaAsRgb :: GlitchDefinition where
  "rgbaAsRgb =
     \<lparr>glitch_id = ''rgba-as-rgb'', glitch_name = ''RGBA as RGB'', glitch_category = PixelFormat,
      glitch_params =
        [range_param ''intensity'' (1 / 10) 1 (1 / 10) 1],
      glitch_apply = rgbaAsRgb_apply\<rparr>"

definition rgbAsRgba :: GlitchDefinition where
  "rgbAsRgba =
     \<lparr>glitch_id = ''rgb-as-rgba'', glitch_name = ''RGB as RGBA'', glitch_category = PixelFormat,
      glitch_params =
        [range_param ''intensity'' (1 / 10) 1 (1 / 10) 1],
      glitch_apply = rgbAsRgba_apply\<rparr>"

definition bgrSwap :: GlitchDefinition where
  "bgrSwap =
     \<lparr>glitch_id = ''bgr-swap'', glitch_name = ''BGR Swap'', glitch_category = PixelFormat,
      glitch_params =
        [select_param ''swapMode''
          [''RGB to BGR'', ''Swap R and G'', ''Swap G and B'']
          ''RGB to BGR''],
      glitch_apply = bgrSwap_apply\<rparr>"

definition argbOrder :: GlitchDefinition where
  "argbOrder =
     \<lparr>glitch_id = ''argb-order'', glitch_name = ''ARGB/ABGR Order'', glitch_category = PixelFormat,
      glitch_params =
        [select_param ''format''
          [''RGBA as ARGB'', ''RGBA as ABGR'', ''RGBA as BGRA'', ''Rotate channels left'', ''Rotate channels right'']
          ''RGBA as ARGB''],
      glitch_apply = argbOrder_apply\<rparr>"

definition endianness :: GlitchDefinition where
  "endianness =
     \<lparr>glitch_id = ''endianness'', glitch_name = ''Endianness Swap'', glitch_category = PixelFormat,
      glitch_params =
        [select_param ''swapMode''
          [''Swap 32-bit (full reverse)'', ''Swap 16-bit pairs'', ''Swap within 16-bit'']
          ''Swap 32-bit (full reverse)''],
      glitch_apply = endianness_apply\<rparr>"

definition channelShift :: GlitchDefinition where
  "channelShift =
     \<lparr>glitch_id = ''channel-shift'', glitch_name = ''Channel Shift'', glitch_category = PixelFormat,
      glitch_params =
        [range_param ''redShift'' (- 20) 20 1 5,
         range_param ''greenShift'' (- 20) 20 1 0,
         range_param ''blueShift'' (- 20) 20 1 (- 5)],
      glitch_apply = channelShift_apply\<rparr>"

definition bitDepth :: GlitchDefinition where
  "bitDepth =
     \<lparr>glitch_id = ''bit-depth'', glitch_name = ''Bit Depth Mismatch'', glitch_category = PixelFormat,
      glitch_params =
        [select_param ''mode''
          [''Posterize (reduce bits)'', ''Simulate 16-bit as 8-bit'', ''Bit truncation'']
          ''Posterize (reduce bits)'',
         range_param ''bits'' 1 7 1 3],
      glitch_apply = bitDepth_apply\<rparr>"

definition gamma :: GlitchDefinition where
  "gamma =
     \<lparr>glitch_id = ''gamma'', glitch_name = ''Gamma / sRGB Mismatch'', glitch_category = PixelFormat,
      glitch_params =
        [select_param ''mode''
          [''sRGB treated as Linear (washed out)'', ''Linear treated as sRGB (too dark)'', ''Double gamma'', ''Inverse gamma'']
          ''sRGB treated as Linear (washed out)'',
         range_param ''gamma'' 1 3 (1 / 10) (11 / 5)],
      glitch_apply = gamma_apply\<rparr>"

definition premultipliedAlpha :: GlitchDefinition where
  "premultipliedAlpha =
     \<lparr>glitch_id = ''premultiplied-alpha'', glitch_name = ''Premultiplied Alpha'', glitch_category = PixelFormat,
      glitch_params =
        [select_param ''mode''
          [''Straight as Premultiplied (dark fringes)'', ''Premultiplied as Straight (too bright)'', ''Double premultiply'', ''Show alpha errors'']
          ''Straight as Premultiplied (dark fringes)'',
         range_param ''backgroundR'' 0 255 1 128,
         range_param ''backgroundG'' 0 255 1 128,
         range_param ''backgroundB'' 0 255 1 128],
      glitch_apply = premultipliedAlpha_apply\<rparr>"

definition signedUnsigned :: GlitchDefinition where
  "signedUnsigned =
     \<lparr>glitch_id = ''signed-unsigned'', glitch_name = ''Signed/Unsigned Mismatch'', glitch_category = PixelFormat,
      glitch_params =
        [select_param ''mode''
          [''Unsigned as Signed (bright becomes dark)'', ''Signed range visualization'', ''Normalize to signed (-1 to 1)'', ''Absolute value (fold negatives)'']
          ''Unsigned as Signed (bright becomes dark)''],
      glitch_apply = signedUnsigned_apply\<rparr>"

definition compression :: GlitchDefinition where
  "compression =
     \<lparr>glitch_id = ''compression'', glitch_name = ''Compression Artifacts'', glitch_category = PixelFormat,
      glitch_params =
        [select_param ''blockSize''
          [''4x4 (DXT/BCn)'', ''8x8 (JPEG)'', ''16x16 (heavy)'']
          ''8x8 (JPEG)'',
         range_param ''quality'' 1 10 1 3],
      glitch_apply = compression_apply\<rparr>"

definition yuv :: GlitchDefinition where
  "yuv =
     \<lparr>glitch_id = ''yuv'', glitch_name = ''YUV/Color Space Errors'', glitch_category = PixelFormat,
      glitch_params =
        [select_param ''mode''
          [''YUV interpreted as RGB'', ''Swapped U/V (green/purple)'', ''Wrong range (washed out)'', ''Wrong matrix (color shift)'', ''Missing chroma (grayscale bleed)'']
          ''YUV interpreted as RGB''],
      glitch_apply = yuv_apply\<rparr>"

definition floatPrecision :: GlitchDefinition where
  "floatPrecision =
     \<lparr>glitch_id = ''float-precision'', glitch_name = ''Float Precision Errors'', glitch_category = PixelFormat,
      glitch_params =
        [select_param ''mode''
          [''NaN holes (black spots)'', ''Infinity clipping'', ''Precision banding'', ''Denormal visualization'', ''Random corruption'']
          ''NaN holes (black spots)'',
         range_param ''intensity'' 1 10 1 5],
      glitch_apply = floatPrecision_apply\<rparr>"

definition wrongStride :: GlitchDefinition where
  "wrongStride =
     \<lparr>glitch_id = ''wrong-stride'', glitch_name = ''Wrong Stride'', glitch_category = MemoryLayout,
      glitch_params =
        [range_param ''strideError'' (- 20) 20 1 4],
      glitch_apply = wrongStride_apply\<rparr>"

definition wrongPitch :: GlitchDefinition where
  "wrongPitch =
     \<lparr>glitch_id = ''wrong-pitch'', glitch_name = ''Wrong Pitch'', glitch_category = MemoryLayout,
      glitch_params =
        [range_param ''pitchMultiplier'' (1 / 2) 2 (1 / 10) (5 / 4)],
      glitch_apply = wrongPitch_apply\<rparr>"

definition rowPadding :: GlitchDefinition where
  "rowPadding =
     \<lparr>glitch_id = ''row-padding'', glitch_name = ''Row Padding'', glitch_category = MemoryLayout,
      glitch_params =
        [range_param ''paddingBytes'' 0 16 1 4,
         boolean_param ''simulateBMP'' False],
      glitch_apply = rowPadding_apply\<rparr>"

definition alignment :: GlitchDefinition where
  "alignment =
     \<lparr>glitch_id = ''alignment'', glitch_name = ''Byte Alignment'', glitch_category = MemoryLayout,
      glitch_params =
        [range_param ''offsetBytes'' 1 7 1 1,
         range_param ''blockSize'' 4 64 4 16],
      glitch_apply = alignment_apply\<rparr>"

definition swizzle :: GlitchDefinition where
  "swizzle =
     \<lparr>glitch_id = ''swizzle'', glitch_name = ''Swizzle/Tiled Layout'', glitch_category = MemoryLayout,
      glitch_params =
        [select_param ''pattern''
          [''Morton (Z-order)'', ''Tiled 8x8'', ''Tiled 4x4'', ''Interleaved rows'']
          ''Morton (Z-order)'',
         boolean_param ''inverse'' False],
      glitch_apply = swizzle_apply\<rparr>"

definition offByOne :: GlitchDefinition where
  "offByOne =
     \<lparr>glitch_id = ''off-by-one'', glitch_name = ''Off-by-One'', glitch_category = Coordinates,
      glitch_params =
        [range_param ''xOffset'' (- 5) 5 1 1,
         range_param ''yOffset'' (- 5) 5 1 1,
         boolean_param ''wrapEdges'' True],
      glitch_apply = offByOne_apply\<rparr>"

definition flippedAxis :: GlitchDefinition where
  "flippedAxis =
     \<lparr>glitch_id = ''flipped-axis'', glitch_name = ''Flipped Axis'', glitch_category = Coordinates,
      glitch_params =
        [select_param ''flipMode''
          [''Flip Vertical'', ''Flip Horizontal'', ''Flip Both'', ''Rotate 180'']
          ''Flip Vertical''],
      glitch_apply = flippedAxis_apply\<rparr>"

definition uvWrapping :: GlitchDefinition where
  "uvWrapping =
     \<lparr>glitch_id = ''uv-wrapping'', glitch_name = ''UV Wrapping'', glitch_category = Coordinates,
      glitch_params =
        [select_param ''wrapMode''
          [''Repeat'', ''Mirror'', ''Clamp'', ''None (shows bug)'']
          ''Repeat'',
         range_param ''uvScale'' (1 / 2) 4 (1 / 4) 2,
         range_param ''uvOffsetX'' (- 1) 1 (1 / 10) 0,
         range_param ''uvOffsetY'' (- 1) 1 (1 / 10) 0],
      glitch_apply = uvWrapping_apply\<rparr>"

definition aspectRatio :: GlitchDefinition where
  "aspectRatio =
     \<lparr>glitch_id = ''aspect-ratio'', glitch_name = ''Aspect Ratio'', glitch_category = Coordinates,
      glitch_params =
        [select_param ''mode''
          [''Swap Width/Height'', ''Force Square'', ''Wrong Aspect Scale'']
          ''Swap Width/Height'',
         range_param ''scaleX'' (1 / 4) 2 (1 / 10) 1,
         range_param ''scaleY'' (1 / 4) 2 (1 / 10) 1],
      glitch_apply = aspectRatio_apply\<rparr>"

definition sampling :: GlitchDefinition where
  "sampling =
     \<lparr>glitch_id = ''sampling'', glitch_name = ''Wrong Texture Sampling'', glitch_category = Coordinates,
      glitch_params =
        [select_param ''mode''
          [''Nearest (blocky)'', ''Exaggerated nearest (pixelate)'', ''Bad bilinear (blurry)'']
          ''Nearest (blocky)'',
         range_param ''scale'' 2 16 1 4],
      glitch_apply = sampling_apply\<rparr>"

definition halfPixel :: GlitchDefinition where
  "halfPixel =
     \<lparr>glitch_id = ''half-pixel'', glitch_name = ''Half-Pixel Offset'', glitch_category = Coordinates,
      glitch_params =
        [range_param ''offsetX'' (- 1) 1 (1 / 10) (1 / 2),
         range_param ''offsetY'' (- 1) 1 (1 / 10) (1 / 2),
         boolean_param ''useFiltering'' True],
      glitch_apply = halfPixel_apply\<rparr>"

definition mipmap :: GlitchDefinition where
  "mipmap =
     \<lparr>glitch_id = ''mipmap'', glitch_name = ''Mipmap LOD Errors'', glitch_category = Coordinates,
      glitch_params =
        [select_param ''mode''
          [''Too blurry (high LOD)'', ''Aliased (low LOD)'', ''Wrong mip level'', ''Visualize mip levels'']
          ''Too blurry (high LOD)'',
         range_param ''lodBias'' 0 4 (1 / 2) 2],
      glitch_apply = mipmap_apply\<rparr>"

definition glitches :: "GlitchDefinition list" where
  "glitches =
     [rgbaAsRgb,
      rgbAsRgba,
      bgrSwap,
      argbOrder,
      endianness,
      channelShift,
      bitDepth,
      gamma,
      premultipliedAlpha,
      signedUnsigned,
      compression,
      yuv,
      floatPrecision,
      wrongStride,
      wrongPitch,
      rowPadding,
      alignment,
      swizzle,
      offByOne,
      flippedAxis,
      uvWrapping,
      aspectRatio,
      sampling,
      halfPixel,
      mipmap]"

text \<open>\<open>new Map(glitches.map(g => [g.id, g]))\<close>: a later entry replaces an earlier one.\<close>

definition glitchById :: "string \<rightharpoonup> GlitchDefinition" where
  "glitchById = fold (\<lambda>g m. m(glitch_id g \<mapsto> g)) glitches Map.empty"

definition glitchesByCategory :: "GlitchCategory \<Rightarrow> GlitchDefinition list" where
  "glitchesByCategory c = filter (\<lambda>g. glitch_category g = c) glitches"

text \<open>
  The map completed with the schema defaults, as the registry's callers build it:
  a key of the schema that the partial map lacks gets the declared default.
\<close>

definition with_defaults :: "jsenv \<Rightarrow> ParamDefinition list \<Rightarrow> GlitchParams \<Rightarrow> GlitchParams" where
  "with_defaults env schema params =
     fold (\<lambda>p m. if m (param_name p) = None then m(param_name p \<mapsto> lit_val env (param_default p)) else m)
       schema params"

section \<open>Loops and stores\<close>

lemma upd_data_length [simp]: "length (upd_data r f s) = length s"
  by (simp add: upd_data_def)

lemma upd_data_other [simp]: "j \<noteq> r \<Longrightarrow> upd_data r f s ! j = s ! j"
  by (simp add: upd_data_def)

lemma upd_data_same [simp]:
  "r < length s \<Longrightarrow> upd_data r f s ! r = (s ! r)\<lparr>img_data := f (img_data (s ! r))\<rparr>"
  by (simp add: upd_data_def)

lemma fold_upd_data:
  assumes "i < length s" "r < length s" "i \<noteq> r"
  shows "fold (\<lambda>a s. upd_data r (g (img_data (s ! i)) a) s) as s =
         upd_data r (fold (g (img_data (s ! i))) as) s"
  using assms
proof (induction as arbitrary: s)
  case Nil
  then show ?case by (simp add: upd_data_def)
next
  case (Cons a as)
  let ?s1 = "upd_data r (g (img_data (s ! i)) a) s"
  have "fold (\<lambda>a s. upd_data r (g (img_data (s ! i)) a) s) (a # as) s =
        fold (\<lambda>a s. upd_data r (g (img_data (s ! i)) a) s) as ?s1" by simp
  also have "\<dots> = upd_data r (fold (g (img_data (?s1 ! i))) as) ?s1"
    using Cons.prems by (intro Cons.IH) simp_all
  also have "\<dots> = upd_data r (fold (g (img_data (s ! i))) (a # as)) s"
    using Cons.prems by (simp add: upd_data_def)
  finally show ?case .
qed

lemma fold_product:
  "fold (\<lambda>y. fold (F y) xs) ys s = fold (\<lambda>(y, x). F y x) (List.product ys xs) s"
  by (induction ys arbitrary: s) (simp_all add: fold_map comp_def)

lemma for_yx_hoist:
  assumes "i < length s" "r < length s" "i \<noteq> r"
  shows "for_yx i r h w body s = upd_data r (fold_yx h w (body (img_data (s ! i)))) s"
proof -
  have "for_yx i r h w body s =
        fold (\<lambda>a s. upd_data r ((\<lambda>d (y, x). body d y x) (img_data (s ! i)) a) s)
          (List.product [0..<h] [0..<w]) s"
    unfolding for_yx_def for_grid_def fold_product by (simp add: case_prod_unfold)
  also have "\<dots> = upd_data r (fold ((\<lambda>d (y, x). body d y x) (img_data (s ! i)))
          (List.product [0..<h] [0..<w])) s"
    using assms by (rule fold_upd_data)
  also have "fold ((\<lambda>d (y, x). body d y x) (img_data (s ! i))) (List.product [0..<h] [0..<w])
      = fold_yx h w (body (img_data (s ! i)))"
    unfolding fold_yx_def by (rule ext) (simp add: fold_product case_prod_unfold)
  finally show ?thesis .
qed

lemma for_i4_hoist:
  assumes "i < length s" "r < length s" "i \<noteq> r"
  shows "for_i4 i r body s =
     upd_data r (fold (body (img_data (s ! i))) (steps4 (length (img_data (s ! i))))) s"
  unfolding for_i4_def using assms by (rule fold_upd_data)

lemma fold_upt_induct:
  assumes "P 0 s" and "\<And>i s. i < n \<Longrightarrow> P i s \<Longrightarrow> P (Suc i) (f i s)"
  shows "P n (fold f [0..<n] s)"
  using assms
proof (induction n)
  case 0
  then show ?case by simp
next
  case (Suc n)
  have "P n (fold f [0..<n] s)"
    using Suc.prems by (intro Suc.IH) auto
  then show ?case using Suc.prems(2)[of n] by simp
qed

lemma length_set_px [simp]: "length (set_px out p v) = length out"
  by (simp add: set_px_def)

lemma set_px_same: "p * 4 + 3 < length out \<Longrightarrow> k < 4 \<Longrightarrow> set_px out p v ! (p * 4 + k) = v k"
proof -
  assume a: "p * 4 + 3 < length out" "k < 4"
  then consider "k = 0" | "k = 1" | "k = 2" | "k = 3" by linarith
  then show ?thesis using a by cases (simp_all add: set_px_def)
qed

lemma set_px_other: "q \<noteq> p \<Longrightarrow> k < 4 \<Longrightarrow> set_px out p v ! (q * 4 + k) = out ! (q * 4 + k)"
  by (simp add: set_px_def) 

lemma row_major_less: "y' < y \<Longrightarrow> x' < w \<Longrightarrow> y' * w + x' < y * (w::nat)"
proof -
  assume a: "y' < y" "x' < w"
  have "y' * w + x' < Suc y' * w" using a by simp
  also have "\<dots> \<le> y * w" using a by (intro mult_le_mono1) simp
  finally show ?thesis .
qed

lemma row_major_bound: "y < h \<Longrightarrow> x < w \<Longrightarrow> (y * w + x) * 4 + 3 < w * h * (4::nat)"
proof -
  assume a: "y < h" "x < w"
  have "y * w + x < h * w" using a by (rule row_major_less)
  then show ?thesis by (simp add: mult.commute)
qed

lemma fold_yx_pixels:
  assumes body: "\<And>y x out. y < h \<Longrightarrow> x < w \<Longrightarrow> length out = w * h * 4 \<Longrightarrow>
            body y x out = set_px out (y * w + x) (f y x)"
    and len: "length out = w * h * 4"
  shows "length (fold_yx h w body out) = w * h * 4 \<and>
         (\<forall>y<h. \<forall>x<w. \<forall>k<4. fold_yx h w body out ! ((y * w + x) * 4 + k) = f y x k)"
  unfolding fold_yx_def
proof (rule fold_upt_induct
    [where P = "\<lambda>n out. length out = w * h * 4 \<and>
         (\<forall>y<n. \<forall>x<w. \<forall>k<4. out ! ((y * w + x) * 4 + k) = f y x k)"])
  show "length out = w * h * 4 \<and> (\<forall>y<0. \<forall>x<w. \<forall>k<4. out ! ((y * w + x) * 4 + k) = f y x k)"
    using len by simp
next
  fix y out1
  assume y: "y < h"
    and inv: "length out1 = w * h * 4 \<and>
         (\<forall>y'<y. \<forall>x<w. \<forall>k<4. out1 ! ((y' * w + x) * 4 + k) = f y' x k)"
  have "length (fold (body y) [0..<w] out1) = w * h * 4 \<and>
        (\<forall>y'<y. \<forall>x<w. \<forall>k<4. fold (body y) [0..<w] out1 ! ((y' * w + x) * 4 + k) = f y' x k) \<and>
        (\<forall>x<w. \<forall>k<4. fold (body y) [0..<w] out1 ! ((y * w + x) * 4 + k) = f y x k)"
  proof (rule fold_upt_induct
      [where P = "\<lambda>n out. length out = w * h * 4 \<and>
        (\<forall>y'<y. \<forall>x<w. \<forall>k<4. out ! ((y' * w + x) * 4 + k) = f y' x k) \<and>
        (\<forall>x<n. \<forall>k<4. out ! ((y * w + x) * 4 + k) = f y x k)"])
    show "length out1 = w * h * 4 \<and>
        (\<forall>y'<y. \<forall>x<w. \<forall>k<4. out1 ! ((y' * w + x) * 4 + k) = f y' x k) \<and>
        (\<forall>x<0. \<forall>k<4. out1 ! ((y * w + x) * 4 + k) = f y x k)"
      using inv by simp
  next
    fix x out2
    assume x: "x < w"
      and inv2: "length out2 = w * h * 4 \<and>
        (\<forall>y'<y. \<forall>x<w. \<forall>k<4. out2 ! ((y' * w + x) * 4 + k) = f y' x k) \<and>
        (\<forall>x'<x. \<forall>k<4. out2 ! ((y * w + x') * 4 + k) = f y x' k)"
    have b: "body y x out2 = set_px out2 (y * w + x) (f y x)"
      using body y x inv2 by simp
    have bound: "(y * w + x) * 4 + 3 < length out2"
      using row_major_bound[OF y x] inv2 by simp
    have prev: "\<forall>y'<y. \<forall>x'<w. \<forall>k<4. body y x out2 ! ((y' * w + x') * 4 + k) = f y' x' k"
    proof (intro allI impI)
      fix y' x' k assume a: "y' < y" "x' < w" "k < (4::nat)"
      have "y' * w + x' < y * w" using a by (intro row_major_less)
      then have "y' * w + x' \<noteq> y * w + x" by simp
      then show "body y x out2 ! ((y' * w + x') * 4 + k) = f y' x' k"
        using a inv2 by (simp add: b set_px_other del: distrib_right_numeral)
    qed
    have cur: "\<forall>x'<Suc x. \<forall>k<4. body y x out2 ! ((y * w + x') * 4 + k) = f y x' k"
    proof (intro allI impI)
      fix x' k assume a: "x' < Suc x" "k < (4::nat)"
      show "body y x out2 ! ((y * w + x') * 4 + k) = f y x' k"
      proof (cases "x' = x")
        case True
        then show ?thesis using a bound by (simp add: b set_px_same del: distrib_right_numeral)
      next
        case False
        then have "y * w + x' \<noteq> y * w + x" by simp
        then show ?thesis using a False inv2 by (simp add: b set_px_other del: distrib_right_numeral)
      qed
    qed
    show "length (body y x out2) = w * h * 4 \<and>
        (\<forall>y'<y. \<forall>x'<w. \<forall>k<4. body y x out2 ! ((y' * w + x') * 4 + k) = f y' x' k) \<and>
        (\<forall>x'<Suc x. \<forall>k<4. body y x out2 ! ((y * w + x') * 4 + k) = f y x' k)"
    proof (intro conjI)
      show "length (body y x out2) = w * h * 4" using inv2 by (simp add: b)
    qed (rule prev, rule cur)
  qed
  then show "length (fold (body y) [0..<w] out1) = w * h * 4 \<and>
         (\<forall>y'<Suc y. \<forall>x<w. \<forall>k<4. fold (body y) [0..<w] out1 ! ((y' * w + x) * 4 + k) = f y' x k)"
    by (auto simp: less_Suc_eq)
qed

lemma round_half_even_of_int [simp]: "round_half_even (of_int k) = k"
  by (simp add: round_half_even_def)

lemma unsigned_byte_real: "(unsigned (b::byte) :: real) = of_int (uint b)"
  by simp

lemma to_uint8_clamp_byte [simp]: "to_uint8_clamp (Fin (unsigned (b::byte))) = b"
proof -
  have le: "uint b \<le> 255" "0 \<le> uint b" using uint_bounded[of b] by simp_all
  show ?thesis
  proof (cases "uint b = 0")
    case True
    then have "b = 0" by (simp add: uint_0_iff)
    then show ?thesis by simp
  next
    case nz: False
    show ?thesis
    proof (cases "uint b = 255")
      case True
      then have "b = 255" by (metis word_of_int_uint word_of_int_numeral)
      then show ?thesis by simp
    next
      case False
      then have "\<not> real_of_int (uint b) \<le> 0" "\<not> real_of_int (uint b) \<ge> 255"
        using nz le by linarith+
      then show ?thesis
        unfolding unsigned_byte_real to_uint8_clamp.simps by (simp add: word_of_int_uint del: of_int_uint)
    qed
  qed
qed

declare to_uint8_clamp.simps [simp del]

lemma put_rd [simp]:
  "i < length out \<Longrightarrow> j < length data \<Longrightarrow> put env out i (rd data j) = out[i := data ! j]"
  by (simp add: put_def rd_def N_def)

lemma length_put [simp]: "length (put env out i v) = length out"
  by (simp add: put_def)

lemma flip_src_bound:
  assumes "y < h" "x < w"
  shows "((h - 1 - y) * w + (w - 1 - x)) * 4 + 3 < w * h * (4::nat)"
  using row_major_bound[of "h - 1 - y" h "w - 1 - x" w] assms by simp

lemma flippedAxis_px_both:
  assumes "y < height" "x < width" "length data = width * height * 4"
    "length out = width * height * 4"
    "flipMode = Str ''Flip Both''"
  shows "flippedAxis_px env flipMode width height data y x out =
         set_px out (y * width + x)
           (\<lambda>k. data ! (((height - 1 - y) * width + (width - 1 - x)) * 4 + k))"
proof -
  have a: "(y * width + x) * 4 + 3 < length out"
    using row_major_bound[OF assms(1,2)] assms(4) by simp
  have b: "((height - 1 - y) * width + (width - 1 - x)) * 4 + 3 < length data"
    using flip_src_bound[OF assms(1,2)] assms(3) by simp
  show ?thesis
    using a b by (simp add: flippedAxis_px_def set_px_def assms(5) Let_def del: distrib_right_numeral)
qed

lemma new_ImageData_simps [simp]:
  "fst (new_ImageData w h s) = length s"
  "snd (new_ImageData w h s) = s @ [\<lparr>img_width = w, img_height = h, img_data = replicate (w * h * 4) 0\<rparr>]"
  by (simp_all add: new_ImageData_def)

lemma upd_data_append_last:
  "upd_data (length s) f (s @ [img]) = s @ [img\<lparr>img_data := f (img_data img)\<rparr>]"
  by (simp add: upd_data_def)

lemma flippedAxis_apply_eq:
  assumes "i < length s"
  shows "flippedAxis_apply env i params s =
    (Returns (length s),
     s @ [\<lparr>img_width = img_width (s ! i), img_height = img_height (s ! i),
           img_data = fold_yx (img_height (s ! i)) (img_width (s ! i))
             (flippedAxis_px env (js_or (getp params ''flipMode'') (Str ''Flip Vertical''))
                (img_width (s ! i)) (img_height (s ! i)) (img_data (s ! i)))
             (replicate (img_width (s ! i) * img_height (s ! i) * 4) 0)\<rparr>])"
  using assms
  by (simp add: flippedAxis_apply_def new_ImageData_def for_yx_hoist nth_append
      upd_data_append_last Let_def)

lemma flip_flip:
  assumes "y < (h::nat)" "x < (w::nat)"
  shows "h - 1 - (h - 1 - y) = y" "w - 1 - (w - 1 - x) = x" "h - 1 - y < h" "w - 1 - x < w"
  using assms by simp_all

lemma pixel_index_split:
  assumes "n < w * h * (4::nat)"
  obtains y x k where "y < h" "x < w" "k < 4" "n = (y * w + x) * 4 + k"
proof -
  have w: "0 < w" using assms by (cases w) simp_all
  let ?p = "n div 4"
  have p: "?p < h * w" using assms by (simp add: mult.commute less_mult_imp_div_less)
  have "?p div w < h" using p w by (simp add: less_mult_imp_div_less)
  moreover have "?p mod w < w" using w by simp
  moreover have "n mod 4 < 4" by simp
  moreover have "n = ((?p div w) * w + ?p mod w) * 4 + n mod 4" by simp
  ultimately show ?thesis using that by blast
qed

section \<open>Exact arithmetic on small integers\<close>

lemma exact_small_int:
  assumes "exact_small env" "\<bar>k\<bar> \<le> 2 ^ 51"
  shows "fround env (of_int k) = Fin (of_int k)"
proof -
  have "\<bar>4 * k\<bar> \<le> 2 ^ 53" using assms(2) by simp
  then have "fround env (of_int (4 * k) / 4) = Fin (of_int (4 * k) / 4)"
    using assms(1) unfolding exact_small_def by blast
  then show ?thesis by simp
qed

lemma exact_small_exact_env [simp]: "exact_small exact_env"
  by (simp add: exact_small_def exact_env_def)

lemma unsigned_byte_bounds: "0 \<le> (unsigned (b::byte) :: real)" "(unsigned (b::byte) :: real) \<le> 255"
proof -
  have "uint b \<le> 255" "0 \<le> uint b" using uint_bounded[of b] by simp_all
  then have "0 \<le> real_of_int (uint b)" "real_of_int (uint b) \<le> 255" by linarith+
  then show "0 \<le> (unsigned b :: real)" "(unsigned b :: real) \<le> 255" by simp_all
qed

lemma trunc_of_int [simp]: "trunc (of_int k) = k"
  by (simp add: trunc_def)

lemma bitDepth_channel_16:
  assumes "exact_small env" "i < length data"
  shows "ToNumber env (bitDepth_channel env (Str ''Simulate 16-bit as 8-bit'') bits factor (rd data i)) = Fin 0"
proof -
  define b where "b = data ! i"
  have "\<bar>uint b * 256\<bar> \<le> 2 ^ 51" using uint_bounded[of b] by simp
  from exact_small_int[OF assms(1) this]
  have "fround env (unsigned b * 256) = Fin (unsigned b * 256)" by simp
  moreover have "trunc (unsigned b :: real) = uint b"
    using trunc_of_int[of "uint b"] by (simp del: trunc_of_int)
  ultimately show ?thesis using assms(2)
    by (simp add: bitDepth_channel_def rd_def N_def js_mod_def js_mul_def b_def)
qed

lemma to_uint8_clamp_0 [simp]: "to_uint8_clamp (Fin 0) = 0"
  by (simp add: to_uint8_clamp.simps)

lemma clamp_rd [simp]:
  "i < length data \<Longrightarrow> to_uint8_clamp (ToNumber env (rd data i)) = data ! i"
  by (simp add: rd_def N_def)

lemma put_in_range: "i < length out \<Longrightarrow> put env out i v = out[i := to_uint8_clamp (ToNumber env v)]"
  by (simp add: put_def)

lemma bitDepth_px_16:
  assumes "exact_small env" "p * 4 + 3 < length data" "length out = length data"
  shows "bitDepth_px env (Str ''Simulate 16-bit as 8-bit'') bits factor data (4 * p) out =
         set_px out p (\<lambda>k. if k = 3 then data ! (p * 4 + 3) else 0)"
proof -
  have r: "4 * p < length data" "4 * p + 1 < length data" "4 * p + 2 < length data"
      "4 * p + 3 < length data"
    using assms(2) by simp_all
  show ?thesis
    using r assms(3)
    by (simp add: bitDepth_px_def Let_def put_in_range bitDepth_channel_16[OF assms(1)] set_px_def
        mult.commute)
qed

lemma fold_steps4:
  "fold body (steps4 (n * 4)) out = fold_yx n 1 (\<lambda>y x. body (4 * y)) out"
  by (simp add: steps4_def fold_yx_def fold_map comp_def)

lemma fold_i4_pixels:
  assumes body: "\<And>p out. p < n \<Longrightarrow> length out = n * 4 \<Longrightarrow> body (4 * p) out = set_px out p (f p)"
    and len: "length out = n * 4"
  shows "length (fold body (steps4 (n * 4)) out) = n * 4 \<and>
         (\<forall>p<n. \<forall>k<4. fold body (steps4 (n * 4)) out ! (p * 4 + k) = f p k)"
proof -
  have "length (fold_yx n 1 (\<lambda>y x. body (4 * y)) out) = 1 * n * 4 \<and>
        (\<forall>y<n. \<forall>x<1. \<forall>k<4. fold_yx n 1 (\<lambda>y x. body (4 * y)) out ! ((y * 1 + x) * 4 + k) = f y k)"
    by (rule fold_yx_pixels[where f = "\<lambda>y x. f y"]) (simp_all add: body len)
  then show ?thesis by (simp add: fold_steps4)
qed

lemma bitDepth_apply_eq:
  assumes "i < length s"
  shows "bitDepth_apply env i params s =
    (let mode = js_or (getp params ''mode'') (Str ''Posterize (reduce bits)'');
         bits = js_or (getp params ''bits'') (N 3);
         factor = js_div env (N 255) (js_sub env (Math_pow env (N 2) bits) (N 1))
     in (Returns (length s),
     s @ [\<lparr>img_width = img_width (s ! i), img_height = img_height (s ! i),
           img_data = fold (bitDepth_px env mode bits factor (img_data (s ! i)))
             (steps4 (length (img_data (s ! i))))
             (replicate (img_width (s ! i) * img_height (s ! i) * 4) 0)\<rparr>]))"
  using assms
  by (simp add: bitDepth_apply_def new_ImageData_def for_i4_hoist nth_append
      upd_data_append_last Let_def)

section \<open>Integer arithmetic through the number operations\<close>

lemma fround_int:
  assumes "exact_small env" "\<bar>k\<bar> \<le> 2 ^ 51"
  shows "fround env (real_of_int k) = Fin (real_of_int k)"
  using exact_small_int[OF assms] .

lemma js_add_N:
  assumes "exact_small env" "\<bar>a + b\<bar> \<le> 2 ^ 51"
  shows "js_add env (N a) (N b) = N (a + b)"
  using fround_int[OF assms] by (simp add: js_add_def N_def)

lemma js_sub_N:
  assumes "exact_small env" "\<bar>a - b\<bar> \<le> 2 ^ 51"
  shows "js_sub env (N a) (N b) = N (a - b)"
  using fround_int[OF assms] by (simp add: js_sub_def N_def nsub_def)

lemma js_mul_N:
  assumes "exact_small env" "\<bar>a * b\<bar> \<le> 2 ^ 51"
  shows "js_mul env (N a) (N b) = N (a * b)"
  using fround_int[OF assms] by (simp add: js_mul_def N_def)

lemma real_mod_int:
  assumes "0 \<le> a" "0 < b"
  shows "real_of_int a - real_of_int b * real_of_int (trunc (real_of_int a / real_of_int b))
         = real_of_int (a mod b)"
proof -
  have "trunc (real_of_int a / real_of_int b) = a div b"
    using assms by (simp add: trunc_def floor_divide_of_int_eq)
  moreover have "a mod b = a - b * (a div b)"
    by (simp add: minus_mult_div_eq_mod)
  ultimately show ?thesis by simp
qed

lemma js_mod_N:
  assumes "0 \<le> a" "0 < b"
  shows "js_mod env (N a) (N b) = N (a mod b)"
  using real_mod_int[OF assms] assms by (simp add: js_mod_def N_def)

lemma rdn_N: "0 \<le> k \<Longrightarrow> rdn env data (N k) = rd data (nat k)"
  by (simp add: rdn_def N_def)

lemma truthy_N [simp]: "truthy (N k) = (k \<noteq> 0)"
  by (simp add: N_def)

lemma js_or_N0 [simp]: "js_or (N 0) d = d"
  by (simp add: js_or_def)

lemma js_or_N_nz: "k \<noteq> 0 \<Longrightarrow> js_or (N k) d = N k"
  by (simp add: js_or_def)

lemma Math_min_N: "Math_min env (N a) (N b) = N (min a b)"
  by (simp add: Math_min_def N_def nmin_def min_def)

lemma Math_max_N: "Math_max env (N a) (N b) = N (max a b)"
  by (simp add: Math_max_def N_def nmax_def max_def)

lemma int_bound: "n \<le> (2::nat) ^ 51 \<Longrightarrow> \<bar>int n\<bar> \<le> 2 ^ 51"
  by simp

lemma js_add_nat:
  assumes "exact_small env" "a + b \<le> 2 ^ 51"
  shows "js_add env (N (int a)) (N (int b)) = N (int (a + b))"
  using js_add_N[OF assms(1), of "int a" "int b"] int_bound[OF assms(2)] by simp

lemma js_mul_nat:
  assumes "exact_small env" "a * b \<le> 2 ^ 51"
  shows "js_mul env (N (int a)) (N (int b)) = N (int (a * b))"
  using js_mul_N[OF assms(1), of "int a" "int b"] int_bound[OF assms(2)] by simp

lemma js_mod_nat:
  assumes "0 < b"
  shows "js_mod env (N (int a)) (N (int b)) = N (int (a mod b))"
  using js_mod_N[of "int a" "int b" env] assms by (simp add: zmod_int)

lemma rdn_nat: "rdn env data (N (int k)) = rd data k"
  by (simp add: rdn_N)

lemma wrap_coord:
  assumes env: "exact_small env" and xw: "x < w" and wb: "w \<le> 2 ^ 50"
  shows "js_mod env (js_add env (js_mod env (js_add env (N (int x)) (N 1)) (N (int w))) (N (int w))) (N (int w))
         = N (int ((x + 1) mod w))"
proof -
  have w0: "0 < w" using xw by simp
  have p: "(2::nat) ^ 50 + 2 ^ 50 = 2 ^ 51" by simp
  have b1: "x + 1 \<le> 2 ^ 51" using xw wb p by linarith
  have "(x + 1) mod w < w" using w0 by simp
  then have b2: "(x + 1) mod w + w \<le> 2 ^ 51" using wb p by linarith
  have one: "N 1 = N (int 1)" by simp
  have "js_add env (N (int x)) (N 1) = N (int (x + 1))"
    unfolding one by (rule js_add_nat[OF env b1])
  also have "js_mod env (N (int (x + 1))) (N (int w)) = N (int ((x + 1) mod w))"
    by (rule js_mod_nat[OF w0])
  also have "js_add env (N (int ((x + 1) mod w))) (N (int w)) = N (int ((x + 1) mod w + w))"
    by (rule js_add_nat[OF env b2])
  also have "js_mod env (N (int ((x + 1) mod w + w))) (N (int w)) = N (int (((x + 1) mod w + w) mod w))"
    by (rule js_mod_nat[OF w0])
  also have "((x + 1) mod w + w) mod w = (x + 1) mod w" by simp
  finally show ?thesis .
qed

lemma src_index:
  assumes env: "exact_small env" and sy: "sy < h" and sx: "sx < w"
    and b: "w * h * 4 \<le> 2 ^ 50"
  shows "js_mul env (js_add env (js_mul env (N (int sy)) (N (int w))) (N (int sx))) (N 4)
         = N (int ((sy * w + sx) * 4))"
    and "k < 4 \<Longrightarrow> js_add env (N (int ((sy * w + sx) * 4))) (N (int k)) = N (int ((sy * w + sx) * 4 + k))"
proof -
  define p where "p = sy * w + sx"
  define q where "q = sy * w"
  define P where "P = w * h * 4"
  have lt: "p * 4 + 3 < P"
    using row_major_bound[OF sy sx] by (simp add: p_def P_def)
  have qp: "q \<le> p" by (simp add: p_def q_def)
  have e: "(2::nat) ^ 50 \<le> 2 ^ 51" by simp
  have bP: "P \<le> 2 ^ 50" using b by (simp add: P_def)
  have b1: "q \<le> 2 ^ 51" using lt bP qp e by linarith
  have b2: "q + sx \<le> 2 ^ 51" using lt bP e by (simp add: p_def q_def)
  have b3: "p * 4 \<le> 2 ^ 51" using lt bP e by linarith
  have four: "N 4 = N (int 4)" by simp
  have "js_mul env (N (int sy)) (N (int w)) = N (int q)"
    unfolding q_def by (rule js_mul_nat[OF env b1[unfolded q_def]])
  also have "js_add env (N (int q)) (N (int sx)) = N (int p)"
    unfolding p_def q_def by (rule js_add_nat[OF env b2[unfolded q_def]])
  also have "js_mul env (N (int p)) (N 4) = N (int (p * 4))"
    unfolding four by (rule js_mul_nat[OF env b3])
  finally show "js_mul env (js_add env (js_mul env (N (int sy)) (N (int w))) (N (int sx))) (N 4)
         = N (int ((sy * w + sx) * 4))"
    by (simp only: p_def)
  assume k: "k < 4"
  have b4: "p * 4 + k \<le> 2 ^ 51" using lt bP k e by linarith
  show "js_add env (N (int ((sy * w + sx) * 4))) (N (int k)) = N (int ((sy * w + sx) * 4 + k))"
    by (rule js_add_nat[OF env b4[unfolded p_def]])
qed

lemma copy_px:
  assumes env: "exact_small env" and src: "srcIdx = N (int j)"
    and j: "j + 3 < length data" and jb: "j + 3 \<le> 2 ^ 51"
    and o: "p * 4 + 3 < length out"
  shows "put env (put env (put env (put env out (p * 4) (rdn env data srcIdx))
                    (p * 4 + 1) (rdn env data (js_add env srcIdx (N 1))))
                    (p * 4 + 2) (rdn env data (js_add env srcIdx (N 2))))
                    (p * 4 + 3) (rdn env data (js_add env srcIdx (N 3)))
         = set_px out p (\<lambda>k. data ! (j + k))"
proof -
  have k: "\<And>k. k < 4 \<Longrightarrow> js_add env (N (int j)) (N (int k)) = N (int (j + k))"
    using jb by (intro js_add_nat[OF env]) simp
  have r: "rdn env data srcIdx = rd data j"
      "rdn env data (js_add env srcIdx (N 1)) = rd data (j + 1)"
      "rdn env data (js_add env srcIdx (N 2)) = rd data (j + 2)"
      "rdn env data (js_add env srcIdx (N 3)) = rd data (j + 3)"
    using k[of 1] k[of 2] k[of 3] by (simp_all add: src rdn_N nat_add_distrib)
  show ?thesis
    unfolding r set_px_def using j o by simp
qed

lemma offByOne_px_wrap:
  assumes env: "exact_small env" and y: "y < height" and x: "x < width"
    and len: "length data = width * height * 4" "length out = width * height * 4"
    and b: "width * height * 4 \<le> 2 ^ 50"
  shows "offByOne_px env (N 1) (N 1) True width height data y x out =
         set_px out (y * width + x)
           (\<lambda>k. data ! ((((y + 1) mod height) * width + (x + 1) mod width) * 4 + k))"
proof -
  define sx where "sx = (x + 1) mod width"
  define sy where "sy = (y + 1) mod height"
  have s: "sx < width" "sy < height" using x y by (simp_all add: sx_def sy_def)
  have wb: "width \<le> 2 ^ 50" "height \<le> 2 ^ 50"
  proof -
    have "width * 1 \<le> width * (height * 4)" using y by (intro mult_le_mono2) simp
    also have "\<dots> = width * height * 4" by (simp only: mult.assoc)
    finally have "width \<le> width * height * 4" by (simp only: mult_1_right)
    then show "width \<le> 2 ^ 50" using b by (rule order_trans)
    have "height * 1 \<le> height * (width * 4)" using x by (intro mult_le_mono2) simp
    also have "\<dots> = width * height * 4" by (simp only: mult.assoc mult.left_commute mult.commute)
    finally have "height \<le> width * height * 4" by (simp only: mult_1_right)
    then show "height \<le> 2 ^ 50" using b by (rule order_trans)
  qed
  have a: "(y * width + x) * 4 + 3 < length out"
    using row_major_bound[OF y x] len by simp
  have r: "(sy * width + sx) * 4 + 3 < length data"
    using row_major_bound[OF s(2) s(1)] len by simp
  have e: "(2::nat) ^ 50 \<le> 2 ^ 51" by simp
  have rb: "(sy * width + sx) * 4 + 3 \<le> 2 ^ 51"
    using r len(1) b e by linarith
  have idx: "js_mul env (js_add env (js_mul env (N (int sy)) (N (int width))) (N (int sx))) (N 4)
         = N (int ((sy * width + sx) * 4))"
    by (rule src_index(1)[OF env s(2) s(1) b])
  have "offByOne_px env (N 1) (N 1) True width height data y x out =
     put env (put env (put env (put env out ((y * width + x) * 4)
        (rdn env data (N (int ((sy * width + sx) * 4)))))
        ((y * width + x) * 4 + 1) (rdn env data (js_add env (N (int ((sy * width + sx) * 4))) (N 1))))
        ((y * width + x) * 4 + 2) (rdn env data (js_add env (N (int ((sy * width + sx) * 4))) (N 2))))
        ((y * width + x) * 4 + 3) (rdn env data (js_add env (N (int ((sy * width + sx) * 4))) (N 3)))"
    by (simp only: offByOne_px_def Let_def if_True prod.case
        wrap_coord[OF env x wb(1)] wrap_coord[OF env y wb(2)] idx flip: sx_def sy_def)
  also have "\<dots> = set_px out (y * width + x) (\<lambda>k. data ! ((sy * width + sx) * 4 + k))"
    by (rule copy_px[OF env refl r rb a])
  finally show ?thesis by (simp only: sx_def sy_def)
qed

section \<open>off-by-one with wrapped edges\<close>

lemma pixel_at_nth:
  assumes "(y * img_width img + x) * 4 + 3 < length (img_data img)"
  shows "pixel_at img x y =
         [img_data img ! ((y * img_width img + x) * 4), img_data img ! ((y * img_width img + x) * 4 + 1),
          img_data img ! ((y * img_width img + x) * 4 + 2), img_data img ! ((y * img_width img + x) * 4 + 3)]"
proof -
  define n where "n = (y * img_width img + x) * 4"
  define d where "d = img_data img"
  have l: "n + 3 < length d" using assms by (simp add: n_def d_def)
  have "take 4 (drop n d) = [d ! n, d ! (n + 1), d ! (n + 2), d ! (n + 3)]"
  proof (rule nth_equalityI)
    show "length (take 4 (drop n d)) = length [d ! n, d ! (n + 1), d ! (n + 2), d ! (n + 3)]"
      using l by simp
  next
    fix k assume "k < length (take 4 (drop n d))"
    then have k: "k < 4" by simp
    then consider "k = 0" | "k = 1" | "k = 2" | "k = 3" by linarith
    then show "take 4 (drop n d) ! k = [d ! n, d ! (n + 1), d ! (n + 2), d ! (n + 3)] ! k"
      using l by cases simp_all
  qed
  then show ?thesis by (simp add: pixel_at_def n_def d_def)
qed

lemma pixels_eq:
  assumes "(y * w + x) * 4 + 3 < length d'" "(y' * w + x') * 4 + 3 < length d"
    and "\<And>k. k < 4 \<Longrightarrow> d' ! ((y * w + x) * 4 + k) = d ! ((y' * w + x') * 4 + k)"
  shows "pixel_at \<lparr>img_width = w, img_height = h', img_data = d'\<rparr> x y =
         pixel_at \<lparr>img_width = w, img_height = h, img_data = d\<rparr> x' y'"
  using assms(3)[of 0] assms(3)[of 1] assms(3)[of 2] assms(3)[of 3] assms(1,2)
  by (simp add: pixel_at_nth)

lemma offByOne_apply_eq:
  assumes "i < length s"
  shows "offByOne_apply env i params s =
    (Returns (length s),
     s @ [\<lparr>img_width = img_width (s ! i), img_height = img_height (s ! i),
           img_data = fold_yx (img_height (s ! i)) (img_width (s ! i))
             (offByOne_px env (js_or (getp params ''xOffset'') (N 1))
                (js_or (getp params ''yOffset'') (N 1))
                (js_sne (getp params ''wrapEdges'') (Bool False))
                (img_width (s ! i)) (img_height (s ! i)) (img_data (s ! i)))
             (replicate (img_width (s ! i) * img_height (s ! i) * 4) 0)\<rparr>])"
  using assms
  by (simp add: offByOne_apply_def new_ImageData_def for_yx_hoist nth_append
      upd_data_append_last Let_def)

lemma offByOne_zero_yOffset_shift:
  assumes env: "exact_small env" and i: "i < length s" and wf: "well_formed (s ! i)"
    and b: "img_width (s ! i) * img_height (s ! i) * 4 \<le> 2 ^ 50"
    and px: "getp params ''xOffset'' = N 1" and py: "getp params ''yOffset'' = N 0"
    and pw: "getp params ''wrapEdges'' = Bool True"
  shows "\<exists>out s'. offByOne_apply env i params s = (Returns out, s') \<and>
           img_width (s' ! out) = img_width (s ! i) \<and>
           img_height (s' ! out) = img_height (s ! i) \<and>
           (\<forall>y < img_height (s ! i). \<forall>x < img_width (s ! i).
              pixel_at (s' ! out) x y =
              pixel_at (s ! i) ((x + 1) mod img_width (s ! i)) ((y + 1) mod img_height (s ! i)))"
proof -
  define w where "w = img_width (s ! i)"
  define h where "h = img_height (s ! i)"
  define d where "d = img_data (s ! i)"
  define d' where "d' = fold_yx h w (offByOne_px env (N 1) (N 1) True w h d) (replicate (w * h * 4) 0)"
  have img: "s ! i = \<lparr>img_width = w, img_height = h, img_data = d\<rparr>"
    by (simp add: w_def h_def d_def)
  have len: "length d = w * h * 4" using wf by (simp add: well_formed_def w_def h_def d_def)
  have res: "js_or (getp params ''xOffset'') (N 1) = N 1" "js_or (getp params ''yOffset'') (N 1) = N 1"
      "js_sne (getp params ''wrapEdges'') (Bool False) = True"
    by (simp_all add: px py pw js_or_def js_sne_def)
  have r: "offByOne_apply env i params s =
      (Returns (length s), s @ [\<lparr>img_width = w, img_height = h, img_data = d'\<rparr>])"
    using offByOne_apply_eq[OF i, of env params]
    by (simp only: res d'_def w_def h_def d_def)
  have pxs: "length d' = w * h * 4 \<and>
      (\<forall>y<h. \<forall>x<w. \<forall>k<4. d' ! ((y * w + x) * 4 + k) =
          d ! ((((y + 1) mod h) * w + (x + 1) mod w) * 4 + k))"
    unfolding d'_def
  proof (rule fold_yx_pixels)
    fix y x and out :: "byte list" assume "y < h" "x < w" "length out = w * h * 4"
    then show "offByOne_px env (N 1) (N 1) True w h d y x out =
        set_px out (y * w + x) (\<lambda>k. d ! ((((y + 1) mod h) * w + (x + 1) mod w) * 4 + k))"
      using len b[folded w_def h_def] by (intro offByOne_px_wrap[OF env])
  qed simp
  have "\<forall>y<h. \<forall>x<w. pixel_at \<lparr>img_width = w, img_height = h, img_data = d'\<rparr> x y =
          pixel_at \<lparr>img_width = w, img_height = h, img_data = d\<rparr> ((x + 1) mod w) ((y + 1) mod h)"
  proof (intro allI impI)
    fix y x assume y: "y < h" and x: "x < w"
    have s: "(y + 1) mod h < h" "(x + 1) mod w < w" using x y by simp_all
    show "pixel_at \<lparr>img_width = w, img_height = h, img_data = d'\<rparr> x y =
          pixel_at \<lparr>img_width = w, img_height = h, img_data = d\<rparr> ((x + 1) mod w) ((y + 1) mod h)"
    proof (rule pixels_eq)
      show "(y * w + x) * 4 + 3 < length d'" using row_major_bound[OF y x] pxs by simp
      show "((y + 1) mod h * w + (x + 1) mod w) * 4 + 3 < length d"
        using row_major_bound[OF s] len by simp
      fix k :: nat assume "k < 4"
      then show "d' ! ((y * w + x) * 4 + k) = d ! (((y + 1) mod h * w + (x + 1) mod w) * 4 + k)"
        using pxs x y by blast
    qed
  qed
  then show ?thesis using r by (simp add: img flip: w_def h_def)
qed

section \<open>The box filter of mipmap\<close>

lemma upt_0_2: "[0..<2] = [0, 1]"
  by (simp add: upt_rec numeral_2_eq_2)

lemma rd_in: "i < length data \<Longrightarrow> rd data i = N (uint (data ! i))"
  by (simp add: rd_def)

lemma sum4:
  assumes env: "exact_small env"
  shows "js_add env (js_add env (js_add env (js_add env (N 0) (N (uint (a::byte)))) (N (uint (b::byte))))
           (N (uint (c::byte)))) (N (uint (d::byte)))
         = N (uint a + uint b + uint c + uint d)"
proof -
  have u: "0 \<le> uint a" "uint a \<le> 255" "0 \<le> uint b" "uint b \<le> 255"
      "0 \<le> uint c" "uint c \<le> 255" "0 \<le> uint d" "uint d \<le> 255"
    using uint_bounded[of a] uint_bounded[of b] uint_bounded[of c] uint_bounded[of d] by simp_all
  have "js_add env (N 0) (N (uint a)) = N (0 + uint a)"
    by (rule js_add_N[OF env]) (use u in simp)
  moreover have "js_add env (N (uint a)) (N (uint b)) = N (uint a + uint b)"
    by (rule js_add_N[OF env]) (use u in simp)
  moreover have "js_add env (N (uint a + uint b)) (N (uint c)) = N (uint a + uint b + uint c)"
    by (rule js_add_N[OF env]) (use u in simp)
  moreover have "js_add env (N (uint a + uint b + uint c)) (N (uint d)) = N (uint a + uint b + uint c + uint d)"
    by (rule js_add_N[OF env]) (use u in simp)
  ultimately show ?thesis by simp
qed

lemma to_uint8_clamp_int:
  assumes "0 \<le> m" "m \<le> 255"
  shows "to_uint8_clamp (Fin (real_of_int m)) = word_of_int m"
proof -
  consider "m = 0" | "m = 255" | "0 < m" "m < 255" using assms by linarith
  then show ?thesis
  proof cases
    case 1 then show ?thesis by (simp add: to_uint8_clamp.simps)
  next
    case 2 then show ?thesis by (simp add: to_uint8_clamp.simps)
  next
    case 3
    then have "\<not> real_of_int m \<le> 0" "\<not> real_of_int m \<ge> 255" by simp_all
    then show ?thesis by (simp add: to_uint8_clamp.simps)
  qed
qed

lemma mean4:
  assumes env: "exact_small env"
  shows "to_uint8_clamp (ToNumber env (Math_round env (js_div env
           (N (uint (a::byte) + uint (b::byte) + uint (c::byte) + uint (d::byte))) (N 4))))
         = box_mean a b c d"
proof -
  define S where "S = uint a + uint b + uint c + uint d"
  have u: "0 \<le> uint a" "uint a \<le> 255" "0 \<le> uint b" "uint b \<le> 255"
      "0 \<le> uint c" "uint c \<le> 255" "0 \<le> uint d" "uint d \<le> 255"
    using uint_bounded[of a] uint_bounded[of b] uint_bounded[of c] uint_bounded[of d] by simp_all
  have S: "0 \<le> S" "S \<le> 1020" using u by (simp_all add: S_def)
  then have "\<bar>S\<bar> \<le> 2 ^ 53" by simp
  then have f: "fround env (real_of_int S / 4) = Fin (real_of_int S / 4)"
    using env unfolding exact_small_def by blast
  define m where "m = \<lfloor>real_of_int S / 4 + 1 / 2\<rfloor>"
  have m: "0 \<le> m" "m \<le> 255"
  proof -
    have "0 \<le> real_of_int S / 4 + 1 / 2" using S by simp
    then show "0 \<le> m" unfolding m_def by simp
    have "real_of_int S / 4 + 1 / 2 < 256" using S by simp
    then have "m < 256" unfolding m_def by (simp add: floor_less_iff)
    then show "m \<le> 255" by simp
  qed
  have "ToNumber env (Math_round env (js_div env (N S) (N 4))) = Fin (real_of_int m)"
    using f by (simp add: Math_round_def js_div_def N_def m_def)
  then show ?thesis
    using to_uint8_clamp_int[OF m] by (simp add: box_mean_def m_def S_def)
qed

lemma downsample_px_mean:
  assumes env: "exact_small env"
    and x: "2 * x + 1 < mipW" and y: "2 * y + 1 < mipH"
    and len: "length data = mipW * mipH * 4"
    and o: "(y * newW + x) * 4 + 3 < length out"
  shows "downsample_px env mipW mipH newW data y x out =
         set_px out (y * newW + x)
           (\<lambda>k. box_mean (data ! (((y * 2) * mipW + x * 2) * 4 + k))
                          (data ! (((y * 2) * mipW + (x * 2 + 1)) * 4 + k))
                          (data ! (((y * 2 + 1) * mipW + x * 2) * 4 + k))
                          (data ! (((y * 2 + 1) * mipW + (x * 2 + 1)) * 4 + k)))"
proof -
  define i00 where "i00 = ((y * 2) * mipW + x * 2) * 4"
  define i01 where "i01 = ((y * 2) * mipW + (x * 2 + 1)) * 4"
  define i10 where "i10 = ((y * 2 + 1) * mipW + x * 2) * 4"
  define i11 where "i11 = ((y * 2 + 1) * mipW + (x * 2 + 1)) * 4"
  have r: "i00 + 3 < length data" "i01 + 3 < length data" "i10 + 3 < length data" "i11 + 3 < length data"
    using row_major_bound[of "y * 2" mipH "x * 2" mipW] row_major_bound[of "y * 2" mipH "x * 2 + 1" mipW]
      row_major_bound[of "y * 2 + 1" mipH "x * 2" mipW] row_major_bound[of "y * 2 + 1" mipH "x * 2 + 1" mipW]
      x y len
    by (simp_all add: i00_def i01_def i10_def i11_def)
  have tw: "takeWhile (\<lambda>dx. x * 2 + dx < mipW) [0..<2] = [0, 1]"
      "takeWhile (\<lambda>dy. y * 2 + dy < mipH) [0..<2] = [0, 1]"
    using x y by (simp_all add: upt_0_2)
  have step1: "fold (\<lambda>dy. fold (\<lambda>dx (r, g, b, a, count).
                    (let idx = ((y * 2 + dy) * mipW + (x * 2 + dx)) * 4
                     in (js_add env r (rd data idx),
                         js_add env g (rd data (idx + 1)),
                         js_add env b (rd data (idx + 2)),
                         js_add env a (rd data (idx + 3)),
                         count + 1)))
                  (takeWhile (\<lambda>dx. x * 2 + dx < mipW) [0..<2]))
              (takeWhile (\<lambda>dy. y * 2 + dy < mipH) [0..<2])
              (N 0, N 0, N 0, N 0, 0::nat)
      = (js_add env (js_add env (js_add env (js_add env (N 0) (rd data i00)) (rd data i01))
           (rd data i10)) (rd data i11),
         js_add env (js_add env (js_add env (js_add env (N 0) (rd data (i00 + 1))) (rd data (i01 + 1)))
           (rd data (i10 + 1))) (rd data (i11 + 1)),
         js_add env (js_add env (js_add env (js_add env (N 0) (rd data (i00 + 2))) (rd data (i01 + 2)))
           (rd data (i10 + 2))) (rd data (i11 + 2)),
         js_add env (js_add env (js_add env (js_add env (N 0) (rd data (i00 + 3))) (rd data (i01 + 3)))
           (rd data (i10 + 3))) (rd data (i11 + 3)),
         0 + 1 + 1 + 1 + 1)"
    unfolding tw i00_def i01_def i10_def i11_def
    by (simp only: fold.simps comp_apply Let_def prod.case add_0_right id_apply)
  have sums: "fold (\<lambda>dy. fold (\<lambda>dx (r, g, b, a, count).
                    (let idx = ((y * 2 + dy) * mipW + (x * 2 + dx)) * 4
                     in (js_add env r (rd data idx),
                         js_add env g (rd data (idx + 1)),
                         js_add env b (rd data (idx + 2)),
                         js_add env a (rd data (idx + 3)),
                         count + 1)))
                  (takeWhile (\<lambda>dx. x * 2 + dx < mipW) [0..<2]))
              (takeWhile (\<lambda>dy. y * 2 + dy < mipH) [0..<2])
              (N 0, N 0, N 0, N 0, 0::nat)
      = (N (uint (data ! i00) + uint (data ! i01) + uint (data ! i10) + uint (data ! i11)),
         N (uint (data ! (i00 + 1)) + uint (data ! (i01 + 1)) + uint (data ! (i10 + 1)) + uint (data ! (i11 + 1))),
         N (uint (data ! (i00 + 2)) + uint (data ! (i01 + 2)) + uint (data ! (i10 + 2)) + uint (data ! (i11 + 2))),
         N (uint (data ! (i00 + 3)) + uint (data ! (i01 + 3)) + uint (data ! (i10 + 3)) + uint (data ! (i11 + 3))),
         4)"
    unfolding step1 using r by (simp add: rd_in sum4[OF env])
  have "downsample_px env mipW mipH newW data y x out =
      put env (put env (put env (put env out ((y * newW + x) * 4)
        (Math_round env (js_div env
           (N (uint (data ! i00) + uint (data ! i01) + uint (data ! i10) + uint (data ! i11))) (N (int 4)))))
        ((y * newW + x) * 4 + 1)
        (Math_round env (js_div env
           (N (uint (data ! (i00 + 1)) + uint (data ! (i01 + 1)) + uint (data ! (i10 + 1)) + uint (data ! (i11 + 1))))
           (N (int 4)))))
        ((y * newW + x) * 4 + 2)
        (Math_round env (js_div env
           (N (uint (data ! (i00 + 2)) + uint (data ! (i01 + 2)) + uint (data ! (i10 + 2)) + uint (data ! (i11 + 2))))
           (N (int 4)))))
        ((y * newW + x) * 4 + 3)
        (Math_round env (js_div env
           (N (uint (data ! (i00 + 3)) + uint (data ! (i01 + 3)) + uint (data ! (i10 + 3)) + uint (data ! (i11 + 3))))
           (N (int 4))))"
    unfolding downsample_px_def Let_def sums[unfolded Let_def] prod.case by (rule refl)
  also have "\<dots> = set_px out (y * newW + x)
           (\<lambda>k. box_mean (data ! (i00 + k)) (data ! (i01 + k)) (data ! (i10 + k)) (data ! (i11 + k)))"
    using o by (simp add: put_in_range mean4[OF env] set_px_def)
  finally show ?thesis by (simp only: i00_def i01_def i10_def i11_def)
qed

lemma mip_step_eq:
  assumes "prev < length s"
  shows "mip_step env prev mipW mipH s =
    (length s, max 1 (mipW div 2), max 1 (mipH div 2),
     s @ [\<lparr>img_width = max 1 (mipW div 2), img_height = max 1 (mipH div 2),
           img_data = fold_yx (max 1 (mipH div 2)) (max 1 (mipW div 2))
             (downsample_px env mipW mipH (max 1 (mipW div 2)) (img_data (s ! prev)))
             (replicate (max 1 (mipW div 2) * max 1 (mipH div 2) * 4) 0)\<rparr>])"
  using assms
  by (simp add: mip_step_def new_ImageData_def for_yx_hoist nth_append
      upd_data_append_last Let_def)

lemma downsample_pixels:
  assumes env: "exact_small env" and w: "2 \<le> mipW" and h: "2 \<le> mipH"
    and len: "length data = mipW * mipH * 4"
  defines "newW \<equiv> mipW div 2" and "newH \<equiv> mipH div 2"
  defines "d' \<equiv> fold_yx newH newW (downsample_px env mipW mipH newW data) (replicate (newW * newH * 4) 0)"
  shows "length d' = newW * newH * 4 \<and>
         (\<forall>y<newH. \<forall>x<newW. \<forall>k<4. d' ! ((y * newW + x) * 4 + k) =
            box_mean (data ! (((y * 2) * mipW + x * 2) * 4 + k))
                     (data ! (((y * 2) * mipW + (x * 2 + 1)) * 4 + k))
                     (data ! (((y * 2 + 1) * mipW + x * 2) * 4 + k))
                     (data ! (((y * 2 + 1) * mipW + (x * 2 + 1)) * 4 + k)))"
  unfolding d'_def
proof (rule fold_yx_pixels)
  fix y x and out :: "byte list"
  assume y: "y < newH" and x: "x < newW" and o: "length out = newW * newH * 4"
  have "2 * x + 1 < mipW" "2 * y + 1 < mipH" using x y by (simp_all add: newW_def newH_def)
  moreover have "(y * newW + x) * 4 + 3 < length out" using row_major_bound[OF y x] o by simp
  ultimately show "downsample_px env mipW mipH newW data y x out =
       set_px out (y * newW + x)
        (\<lambda>k. box_mean (data ! (((y * 2) * mipW + x * 2) * 4 + k))
                     (data ! (((y * 2) * mipW + (x * 2 + 1)) * 4 + k))
                     (data ! (((y * 2 + 1) * mipW + x * 2) * 4 + k))
                     (data ! (((y * 2 + 1) * mipW + (x * 2 + 1)) * 4 + k)))"
    using len by (intro downsample_px_mean[OF env])
qed simp

lemma box_mean_same [simp]: "box_mean a a a a = a"
proof -
  have "real_of_int (uint a + uint a + uint a + uint a) / 4 + 1 / 2 = real_of_int (uint a) + 1 / 2"
    by simp
  moreover have "\<lfloor>real_of_int (uint a) + 1 / 2\<rfloor> = uint a" by linarith
  ultimately show ?thesis by (simp add: box_mean_def)
qed

section \<open>The catalog\<close>

lemmas glitch_defs =
  rgbaAsRgb_def rgbAsRgba_def bgrSwap_def argbOrder_def endianness_def channelShift_def
  bitDepth_def gamma_def premultipliedAlpha_def signedUnsigned_def compression_def yuv_def
  floatPrecision_def wrongStride_def wrongPitch_def rowPadding_def alignment_def swizzle_def
  offByOne_def flippedAxis_def uvWrapping_def aspectRatio_def sampling_def halfPixel_def
  mipmap_def

section \<open>What a call does to the heap\<close>

subsection \<open>The loops, with the stores hoisted\<close>

lemma for_grid_hoist:
  assumes "i < length s" "r < length s" "i \<noteq> r"
  shows "for_grid i r ys xs body s =
         upd_data r (fold (\<lambda>y. fold (body (img_data (s ! i)) y) xs) ys) s"
proof -
  have "for_grid i r ys xs body s =
        fold (\<lambda>p s. upd_data r (body (img_data (s ! i)) (fst p) (snd p)) s) (List.product ys xs) s"
    unfolding for_grid_def fold_product by (simp add: case_prod_unfold)
  also have "\<dots> = upd_data r (fold (\<lambda>p. body (img_data (s ! i)) (fst p) (snd p)) (List.product ys xs)) s"
    using assms by (rule fold_upd_data)
  also have "fold (\<lambda>p. body (img_data (s ! i)) (fst p) (snd p)) (List.product ys xs) =
             fold (\<lambda>y. fold (body (img_data (s ! i)) y) xs) ys"
    by (rule ext) (simp add: fold_product case_prod_unfold)
  finally show ?thesis .
qed

lemma fold_length:
  assumes "\<And>a d. length (g a d) = length d"
  shows "length (fold g as d) = length d"
  by (induction as arbitrary: d) (simp_all add: assms)

lemma fold2_length:
  assumes "\<And>y x d. length (g y x d) = length d"
  shows "length (fold (\<lambda>y. fold (g y) xs) ys d) = length d"
  by (intro fold_length assms)

lemma upd_data_id: "upd_data out (\<lambda>_. img_data (s ! out)) s = s"
  by (simp add: upd_data_def)

lemma upd_data_twice:
  "out < length s \<Longrightarrow> upd_data out g (upd_data out f s) = upd_data out (\<lambda>d. g (f d)) s"
  by (simp add: upd_data_def)

lemma upd_data_middle:
  "upd_data (length s) f (s @ a # ch) = s @ a\<lparr>img_data := f (img_data a)\<rparr> # ch"
  by (simp add: upd_data_def list_update_append)

text \<open>
  A loop that can stop early, when its body reads nothing that its own stores change:
  the body is evaluated in the heap the loop starts from.
\<close>

lemma loop_abort_hoist:
  fixes body :: "heap \<Rightarrow> 'a \<Rightarrow> abort + (byte list \<Rightarrow> byte list)"
  assumes inv: "\<And>t g. body (upd_data out g t) = body t"
  shows "out < length s \<Longrightarrow>
    loop_abort (\<lambda>a s. case body s a of Inl e \<Rightarrow> Inl e | Inr f \<Rightarrow> Inr (upd_data out f s)) as s =
      (fst (fold_abort (body s) as (img_data (s ! out))),
       upd_data out (\<lambda>_. snd (fold_abort (body s) as (img_data (s ! out)))) s)"
proof (induction as arbitrary: s)
  case Nil
  show ?case by (simp add: upd_data_id)
next
  case (Cons a as)
  show ?case
  proof (cases "body s a")
    case (Inl e)
    then show ?thesis by (simp add: upd_data_id)
  next
    case (Inr f)
    have len: "out < length (upd_data out f s)"
      using Cons.prems by (simp add: upd_data_def)
    have at: "img_data (upd_data out f s ! out) = f (img_data (s ! out))"
      using Cons.prems by (simp add: upd_data_def)
    show ?thesis
      using Cons.IH[OF len] Inr Cons.prems
      by (simp add: inv at upd_data_twice)
  qed
qed

lemma for_yx_abort_hoist:
  assumes inv: "\<And>t g. body (upd_data out g t) = body t" and out: "out < length s"
  shows "for_yx_abort out h w body s =
      (fst (fold_abort (\<lambda>(y, x). body s y x) (List.product [0..<h] [0..<w]) (img_data (s ! out))),
       upd_data out (\<lambda>_. snd (fold_abort (\<lambda>(y, x). body s y x) (List.product [0..<h] [0..<w])
                                 (img_data (s ! out)))) s)"
proof -
  have e: "(\<lambda>(y, x) s. case body s y x of Inl e \<Rightarrow> Inl e | Inr f \<Rightarrow> Inr (upd_data out f s)) =
           (\<lambda>a s. case (\<lambda>s (y, x). body s y x) s a of Inl e \<Rightarrow> Inl e | Inr f \<Rightarrow> Inr (upd_data out f s))"
    by (rule ext) (simp add: case_prod_unfold)
  have inv': "\<And>t g. (\<lambda>s (y, x). body s y x) (upd_data out g t) = (\<lambda>s (y, x). body s y x) t"
    by (simp add: inv)
  show ?thesis
    unfolding for_yx_abort_def e
    using loop_abort_hoist[of "\<lambda>s (y, x). body s y x" out s, OF inv' out] by simp
qed

lemma fold_abort_length:
  assumes "\<And>a f d. g a = Inr f \<Longrightarrow> length (f d) = length d"
  shows "length (snd (fold_abort g as d)) = length d"
  by (induction as arbitrary: d) (simp_all add: assms split: sum.splits)

lemma fold_abort_completes:
  assumes "\<And>a. \<exists>f. g a = Inr f"
  shows "fst (fold_abort g as d) = None"
proof (induction as arbitrary: d)
  case Nil
  show ?case by simp
next
  case (Cons a as)
  obtain f where "g a = Inr f" using assms by blast
  then show ?case by (simp add: Cons.IH)
qed

subsection \<open>Consequences of \<open>allocates\<close>\<close>

lemma allocates_shape:
  assumes "allocates f G" "i < length s" "f i s = (Returns out, s')"
  shows "out < length s' \<and> length s \<le> out \<and>
         img_width (s' ! out) = img_width (s ! i) \<and>
         img_height (s' ! out) = img_height (s ! i) \<and>
         length (img_data (s' ! out)) = img_width (s ! i) * img_height (s ! i) * 4"
proof -
  have f: "f i s = (outcome_of (fst (G (s ! i))) (length s), s @ snd (G (s ! i)))"
    and ne: "snd (G (s ! i)) \<noteq> []"
    and w: "img_width (hd (snd (G (s ! i)))) = img_width (s ! i)"
    and h: "img_height (hd (snd (G (s ! i)))) = img_height (s ! i)"
    and l: "length (img_data (hd (snd (G (s ! i))))) = img_width (s ! i) * img_height (s ! i) * 4"
    using assms(1,2) unfolding allocates_def by blast+
  have out: "out = length s"
  proof (cases "fst (G (s ! i))")
    case None
    then show ?thesis using f assms(3) by simp
  next
    case (Some e)
    then show ?thesis using f assms(3) by (cases e) simp_all
  qed
  have s': "s' = s @ snd (G (s ! i))" using f assms(3) by simp
  have at: "s' ! out = hd (snd (G (s ! i)))"
    using ne by (simp add: s' out nth_append hd_conv_nth)
  show ?thesis using ne w h l by (simp add: at) (simp add: s' out)
qed

lemma allocates_returns:
  assumes "allocates f G" "i < length s" "fst (G (s ! i)) = None"
  shows "\<exists>out s'. f i s = (Returns out, s')"
  using assms unfolding allocates_def by simp

lemma allocates_frame:
  assumes "allocates f G" "i < length s"
  shows "length s \<le> length (snd (f i s)) \<and> (\<forall>j<length s. snd (f i s) ! j = s ! j)"
  using assms unfolding allocates_def by (simp add: nth_append)

lemma allocates_same:
  assumes "allocates f G" "i1 < length s1" "i2 < length s2" "s1 ! i1 = s2 ! i2"
  shows "(\<exists>o1 o2. fst (f i1 s1) = Returns o1 \<and> fst (f i2 s2) = Returns o2 \<and>
                   snd (f i1 s1) ! o1 = snd (f i2 s2) ! o2) \<or>
         (fst (f i1 s1) = fst (f i2 s2) \<and> (\<forall>out. fst (f i1 s1) \<noteq> Returns out))"
proof -
  have f1: "f i1 s1 = (outcome_of (fst (G (s2 ! i2))) (length s1), s1 @ snd (G (s2 ! i2)))"
    using assms(1,2,4) unfolding allocates_def by metis
  have f2: "f i2 s2 = (outcome_of (fst (G (s2 ! i2))) (length s2), s2 @ snd (G (s2 ! i2)))"
    and ne: "snd (G (s2 ! i2)) \<noteq> []"
    using assms(1,3) unfolding allocates_def by metis+
  show ?thesis
  proof (cases "fst (G (s2 ! i2))")
    case None
    then show ?thesis using f1 f2 ne by (simp add: nth_append)
  next
    case (Some e)
    then show ?thesis using f1 f2 by (cases e) simp_all
  qed
qed

subsection \<open>The shapes of \<open>apply\<close>\<close>

text \<open>
  A call that allocates its output, fills it in one loop and returns it. \<open>F\<close> is the
  buffer it computes from the input bitmap.
\<close>

lemma allocates_one:
  assumes "\<And>(s::heap) i. i < length s \<Longrightarrow>
      f i s = (Returns (length s),
               s @ [\<lparr>img_width = img_width (s ! i), img_height = img_height (s ! i),
                     img_data = F (s ! i)\<rparr>])"
    and "\<And>img. length (F img) = img_width img * img_height img * 4"
  shows "\<exists>G. allocates f G \<and> (\<forall>img. fst (G img) = None)"
proof -
  have "allocates f (\<lambda>img. (None, [\<lparr>img_width = img_width img, img_height = img_height img,
                                        img_data = F img\<rparr>]))"
    unfolding allocates_def using assms by simp
  then show ?thesis by (intro exI[of _ "\<lambda>img. (None, [\<lparr>img_width = img_width img,
      img_height = img_height img, img_data = F img\<rparr>])"]) simp
qed

lemma allocates_grid:
  assumes f: "\<And>i (s::heap). f i s =
      (let width = img_width (s ! i);
           height = img_height (s ! i);
           (output, s) = new_ImageData width height s;
           s = for_grid i output (ys width height) (xs width height) (body width height) s
       in (Returns output, s))"
    and len: "\<And>w h d y x out. length (body w h d y x out) = length out"
  shows "\<exists>G. allocates f G \<and> (\<forall>img. fst (G img) = None)"
proof (rule allocates_one)
  fix s :: heap and i assume "i < length s"
  then show "f i s = (Returns (length s),
               s @ [\<lparr>img_width = img_width (s ! i), img_height = img_height (s ! i),
                     img_data = (\<lambda>img. fold (\<lambda>y. fold (body (img_width img) (img_height img) (img_data img) y)
                                    (xs (img_width img) (img_height img)))
                        (ys (img_width img) (img_height img))
                        (replicate (img_width img * img_height img * 4) 0)) (s ! i)\<rparr>])"
    by (simp add: f new_ImageData_def for_grid_hoist nth_append upd_data_append_last Let_def)
next
  fix img :: ImageData
  show "length ((\<lambda>img. fold (\<lambda>y. fold (body (img_width img) (img_height img) (img_data img) y)
                                    (xs (img_width img) (img_height img)))
                        (ys (img_width img) (img_height img))
                        (replicate (img_width img * img_height img * 4) 0)) img)
        = img_width img * img_height img * 4"
    by (simp add: fold2_length len)
qed

lemma allocates_yx:
  assumes f: "\<And>i (s::heap). f i s =
      (let width = img_width (s ! i);
           height = img_height (s ! i);
           (output, s) = new_ImageData width height s;
           s = for_yx i output height width (body width height) s
       in (Returns output, s))"
    and len: "\<And>w h d y x out. length (body w h d y x out) = length out"
  shows "\<exists>G. allocates f G \<and> (\<forall>img. fst (G img) = None)"
  by (rule allocates_grid[where body = body and ys = "\<lambda>w h. [0..<h]" and xs = "\<lambda>w h. [0..<w]"])
     (simp_all add: f len for_yx_def)

lemma allocates_i4:
  assumes f: "\<And>i (s::heap). f i s =
      (let width = img_width (s ! i);
           height = img_height (s ! i);
           (output, s) = new_ImageData width height s;
           s = for_i4 i output (body width height) s
       in (Returns output, s))"
    and len: "\<And>w h d i out. length (body w h d i out) = length out"
  shows "\<exists>G. allocates f G \<and> (\<forall>img. fst (G img) = None)"
proof (rule allocates_one)
  fix s :: heap and i assume "i < length s"
  then show "f i s = (Returns (length s),
               s @ [\<lparr>img_width = img_width (s ! i), img_height = img_height (s ! i),
                     img_data = (\<lambda>img. fold (body (img_width img) (img_height img) (img_data img))
                        (steps4 (length (img_data img)))
                        (replicate (img_width img * img_height img * 4) 0)) (s ! i)\<rparr>])"
    by (simp add: f new_ImageData_def for_i4_hoist nth_append upd_data_append_last Let_def)
next
  fix img :: ImageData
  show "length ((\<lambda>img. fold (body (img_width img) (img_height img) (img_data img))
                        (steps4 (length (img_data img)))
                        (replicate (img_width img * img_height img * 4) 0)) img)
        = img_width img * img_height img * 4"
    by (simp add: fold_length len)
qed

text \<open>A call that throws once its output is allocated.\<close>

lemma allocates_throw:
  assumes f: "\<And>i (s::heap). f i s =
      (let width = img_width (s ! i);
           height = img_height (s ! i);
           (output, s) = new_ImageData width height s
       in (Throws e, s))"
  shows "\<exists>G. allocates f G"
proof -
  have "allocates f (\<lambda>img. (Some (Throw e),
      [\<lparr>img_width = img_width img, img_height = img_height img,
        img_data = replicate (img_width img * img_height img * 4) 0\<rparr>]))"
    unfolding allocates_def by (simp add: f new_ImageData_def Let_def)
  then show ?thesis by blast
qed

subsection \<open>Every store stays inside the output buffer\<close>

lemma length_put4 [simp]: "length (put4 env out i a b c d) = length out"
  by (simp add: put4_def)

lemma length_put_pixel [simp]: "length (put_pixel env out i p) = length out"
  by (simp add: put_pixel_def)

lemma rgbaAsRgb_px_length [simp]:
  "length (rgbaAsRgb_px env a1 a2 a3 a4 a5 a6 out) = length out"
  by (simp add: rgbaAsRgb_px_def Let_def split: prod.splits)

lemma rgbAsRgba_px_length [simp]:
  "length (rgbAsRgba_px env a1 a2 a3 a4 a5 a6 out) = length out"
  by (simp add: rgbAsRgba_px_def Let_def split: prod.splits)

lemma bgrSwap_px_length [simp]:
  "length (bgrSwap_px env a1 a2 a3 out) = length out"
  by (simp add: bgrSwap_px_def Let_def split: prod.splits)

lemma argbOrder_px_length [simp]:
  "length (argbOrder_px env a1 a2 a3 out) = length out"
  by (simp add: argbOrder_px_def Let_def split: prod.splits)

lemma endianness_px_length [simp]:
  "length (endianness_px env a1 a2 a3 out) = length out"
  by (simp add: endianness_px_def Let_def split: prod.splits)

lemma channelShift_px_length [simp]:
  "length (channelShift_px env a1 a2 a3 a4 a5 a6 a7 out) = length out"
  by (simp add: channelShift_px_def Let_def split: prod.splits)

lemma bitDepth_px_length [simp]:
  "length (bitDepth_px env a1 a2 a3 a4 a5 out) = length out"
  by (simp add: bitDepth_px_def Let_def split: prod.splits)

lemma gamma_px_length [simp]:
  "length (gamma_px env a1 a2 a3 a4 out) = length out"
  by (simp add: gamma_px_def Let_def split: prod.splits)

lemma premultipliedAlpha_px_length [simp]:
  "length (premultipliedAlpha_px env a1 a2 a3 a4 a5 a6 out) = length out"
  by (simp add: premultipliedAlpha_px_def Let_def split: prod.splits)

lemma signedUnsigned_px_length [simp]:
  "length (signedUnsigned_px env a1 a2 a3 out) = length out"
  by (simp add: signedUnsigned_px_def Let_def split: prod.splits)

lemma yuv_px_length [simp]:
  "length (yuv_px env a1 a2 a3 a4 out) = length out"
  by (simp add: yuv_px_def Let_def split: prod.splits)

lemma floatPrecision_px_length [simp]:
  "length (floatPrecision_px env a1 a2 a3 a4 a5 a6 out) = length out"
  by (simp add: floatPrecision_px_def Let_def split: prod.splits)

lemma wrongStride_px_length [simp]:
  "length (wrongStride_px env a1 a2 a3 a4 a5 out) = length out"
  by (simp add: wrongStride_px_def Let_def split: prod.splits)

lemma rowPadding_bmp_px_length [simp]:
  "length (rowPadding_bmp_px env a1 a2 a3 a4 out) = length out"
  by (simp add: rowPadding_bmp_px_def Let_def split: prod.splits)

lemma rowPadding_px_length [simp]:
  "length (rowPadding_px env a1 a2 a3 a4 a5 out) = length out"
  by (simp add: rowPadding_px_def Let_def split: prod.splits)

lemma alignment_px_length [simp]:
  "length (alignment_px env a1 a2 a3 a4 out) = length out"
  by (simp add: alignment_px_def Let_def split: prod.splits)

lemma swizzle_px_length [simp]:
  "length (swizzle_px env a1 a2 a3 a4 a5 a6 a7 out) = length out"
  by (simp add: swizzle_px_def Let_def split: prod.splits)

lemma offByOne_px_length [simp]:
  "length (offByOne_px env a1 a2 a3 a4 a5 a6 a7 a8 out) = length out"
  by (simp add: offByOne_px_def Let_def split: prod.splits)

lemma flippedAxis_px_length [simp]:
  "length (flippedAxis_px env a1 a2 a3 a4 a5 a6 out) = length out"
  by (simp add: flippedAxis_px_def Let_def split: prod.splits)

lemma uvWrapping_px_length [simp]:
  "length (uvWrapping_px env a1 a2 a3 a4 a5 a6 a7 a8 a9 out) = length out"
  by (simp add: uvWrapping_px_def Let_def split: prod.splits)

lemma aspectRatio_px_length [simp]:
  "length (aspectRatio_px env a1 a2 a3 a4 a5 a6 a7 a8 out) = length out"
  by (simp add: aspectRatio_px_def Let_def split: prod.splits)

lemma halfPixel_px_length [simp]:
  "length (halfPixel_px env a1 a2 a3 a4 a5 a6 a7 a8 out) = length out"
  by (simp add: halfPixel_px_def Let_def split: prod.splits)

lemma compression_block_length [simp]:
  "length (compression_block env q qf bs w h d y x out) = length out"
  by (simp add: compression_block_def Let_def fold2_length split: prod.splits)

lemma sampling_px_length:
  "sampling_px env m sc w h d y x = Inr f \<Longrightarrow> length (f out) = length out"
  by (auto simp: sampling_px_def Let_def split: option.splits)

lemma mipmap_px_length:
  "mipmap_px env m lb w mips y x = Inr f \<Longrightarrow> length (f out) = length out"
  by (auto simp: mipmap_px_def Let_def split: option.splits if_splits)

subsection \<open>The transforms that always return\<close>

lemma rgbaAsRgb_allocates:
  "\<exists>G. allocates (\<lambda>i. rgbaAsRgb_apply env i params) G \<and> (\<forall>img. fst (G img) = None)"
  apply (rule allocates_yx)
   apply (unfold rgbaAsRgb_apply_def Let_def)
   apply (rule refl)
  apply simp
  done

lemma rgbAsRgba_allocates:
  "\<exists>G. allocates (\<lambda>i. rgbAsRgba_apply env i params) G \<and> (\<forall>img. fst (G img) = None)"
  apply (rule allocates_yx)
   apply (unfold rgbAsRgba_apply_def Let_def)
   apply (rule refl)
  apply simp
  done

lemma bgrSwap_allocates:
  "\<exists>G. allocates (\<lambda>i. bgrSwap_apply env i params) G \<and> (\<forall>img. fst (G img) = None)"
  apply (rule allocates_i4)
   apply (unfold bgrSwap_apply_def Let_def)
   apply (rule refl)
  apply simp
  done

lemma argbOrder_allocates:
  "\<exists>G. allocates (\<lambda>i. argbOrder_apply env i params) G \<and> (\<forall>img. fst (G img) = None)"
  apply (rule allocates_i4)
   apply (unfold argbOrder_apply_def Let_def)
   apply (rule refl)
  apply simp
  done

lemma endianness_allocates:
  "\<exists>G. allocates (\<lambda>i. endianness_apply env i params) G \<and> (\<forall>img. fst (G img) = None)"
  apply (rule allocates_i4)
   apply (unfold endianness_apply_def Let_def)
   apply (rule refl)
  apply simp
  done

lemma channelShift_allocates:
  "\<exists>G. allocates (\<lambda>i. channelShift_apply env i params) G \<and> (\<forall>img. fst (G img) = None)"
  apply (rule allocates_yx)
   apply (unfold channelShift_apply_def Let_def)
   apply (rule refl)
  apply simp
  done

lemma bitDepth_allocates:
  "\<exists>G. allocates (\<lambda>i. bitDepth_apply env i params) G \<and> (\<forall>img. fst (G img) = None)"
  apply (rule allocates_i4)
   apply (unfold bitDepth_apply_def Let_def)
   apply (rule refl)
  apply simp
  done

lemma gamma_allocates:
  "\<exists>G. allocates (\<lambda>i. gamma_apply env i params) G \<and> (\<forall>img. fst (G img) = None)"
  apply (rule allocates_i4)
   apply (unfold gamma_apply_def Let_def)
   apply (rule refl)
  apply simp
  done

lemma premultipliedAlpha_allocates:
  "\<exists>G. allocates (\<lambda>i. premultipliedAlpha_apply env i params) G \<and> (\<forall>img. fst (G img) = None)"
  apply (rule allocates_i4)
   apply (unfold premultipliedAlpha_apply_def Let_def)
   apply (rule refl)
  apply simp
  done

lemma signedUnsigned_allocates:
  "\<exists>G. allocates (\<lambda>i. signedUnsigned_apply env i params) G \<and> (\<forall>img. fst (G img) = None)"
  apply (rule allocates_i4)
   apply (unfold signedUnsigned_apply_def Let_def)
   apply (rule refl)
  apply simp
  done

lemma yuv_allocates:
  "\<exists>G. allocates (\<lambda>i. yuv_apply env i params) G \<and> (\<forall>img. fst (G img) = None)"
  apply (rule allocates_i4)
   apply (unfold yuv_apply_def Let_def)
   apply (rule refl)
  apply simp
  done

lemma floatPrecision_allocates:
  "\<exists>G. allocates (\<lambda>i. floatPrecision_apply env i params) G \<and> (\<forall>img. fst (G img) = None)"
  apply (rule allocates_yx)
   apply (unfold floatPrecision_apply_def Let_def)
   apply (rule refl)
  apply simp
  done

lemma wrongStride_allocates:
  "\<exists>G. allocates (\<lambda>i. wrongStride_apply env i params) G \<and> (\<forall>img. fst (G img) = None)"
  apply (rule allocates_yx)
   apply (unfold wrongStride_apply_def Let_def)
   apply (rule refl)
  apply simp
  done

lemma wrongPitch_allocates:
  "\<exists>G. allocates (\<lambda>i. wrongPitch_apply env i params) G \<and> (\<forall>img. fst (G img) = None)"
  apply (rule allocates_yx)
   apply (unfold wrongPitch_apply_def Let_def)
   apply (rule refl)
  apply simp
  done

lemma alignment_allocates:
  "\<exists>G. allocates (\<lambda>i. alignment_apply env i params) G \<and> (\<forall>img. fst (G img) = None)"
  apply (rule allocates_i4)
   apply (unfold alignment_apply_def Let_def)
   apply (rule refl)
  apply simp
  done

lemma swizzle_allocates:
  "\<exists>G. allocates (\<lambda>i. swizzle_apply env i params) G \<and> (\<forall>img. fst (G img) = None)"
  apply (rule allocates_yx)
   apply (unfold swizzle_apply_def Let_def)
   apply (rule refl)
  apply simp
  done

lemma offByOne_allocates:
  "\<exists>G. allocates (\<lambda>i. offByOne_apply env i params) G \<and> (\<forall>img. fst (G img) = None)"
  apply (rule allocates_yx)
   apply (unfold offByOne_apply_def Let_def)
   apply (rule refl)
  apply simp
  done

lemma flippedAxis_allocates:
  "\<exists>G. allocates (\<lambda>i. flippedAxis_apply env i params) G \<and> (\<forall>img. fst (G img) = None)"
  apply (rule allocates_yx)
   apply (unfold flippedAxis_apply_def Let_def)
   apply (rule refl)
  apply simp
  done

lemma uvWrapping_allocates:
  "\<exists>G. allocates (\<lambda>i. uvWrapping_apply env i params) G \<and> (\<forall>img. fst (G img) = None)"
  apply (rule allocates_yx)
   apply (unfold uvWrapping_apply_def Let_def)
   apply (rule refl)
  apply simp
  done

lemma aspectRatio_allocates:
  "\<exists>G. allocates (\<lambda>i. aspectRatio_apply env i params) G \<and> (\<forall>img. fst (G img) = None)"
  apply (rule allocates_yx)
   apply (unfold aspectRatio_apply_def Let_def)
   apply (rule refl)
  apply simp
  done

lemma halfPixel_allocates:
  "\<exists>G. allocates (\<lambda>i. halfPixel_apply env i params) G \<and> (\<forall>img. fst (G img) = None)"
  apply (rule allocates_yx)
   apply (unfold halfPixel_apply_def Let_def)
   apply (rule refl)
  apply simp
  done

lemma rowPadding_allocates:
  "\<exists>G. allocates (\<lambda>i. rowPadding_apply env i params) G \<and> (\<forall>img. fst (G img) = None)"
proof (cases "truthy (js_or (getp params ''simulateBMP'') (Bool False))")
  case True
  show ?thesis
    by (rule allocates_yx[where body = "\<lambda>w h. rowPadding_bmp_px env w"])
       (simp_all add: rowPadding_apply_def True)
next
  case False
  show ?thesis
    by (rule allocates_yx[where body =
          "\<lambda>w h. rowPadding_px env (js_or (getp params ''paddingBytes'') (N 4)) w"])
       (simp_all add: rowPadding_apply_def False)
qed

subsection \<open>compression\<close>

text \<open>The call returns when \<open>blockSize\<close> resolves to a string, and throws otherwise.\<close>

lemma compression_allocates:
  "\<exists>G. allocates (\<lambda>i. compression_apply env i params) G \<and>
       (is_str (js_or (getp params ''blockSize'') (Str ''8x8 (JPEG)'')) \<longrightarrow>
          (\<forall>img. fst (G img) = None))"
proof (cases "js_or (getp params ''blockSize'') (Str ''8x8 (JPEG)'')")
  case (Str str)
  have "\<exists>G. allocates (\<lambda>i. compression_apply env i params) G \<and> (\<forall>img. fst (G img) = None)"
    apply (rule allocates_grid)
     apply (unfold compression_apply_def Let_def Str jsval.case)
     apply (rule refl)
    apply simp
    done
  then show ?thesis by blast
next
  case Undefined
  have "\<exists>G. allocates (\<lambda>i. compression_apply env i params) G"
    apply (rule allocates_throw)
    apply (unfold compression_apply_def Let_def Undefined jsval.case)
    apply (rule refl)
    done
  then show ?thesis using Undefined by simp
next
  case (Num n)
  have "\<exists>G. allocates (\<lambda>i. compression_apply env i params) G"
    apply (rule allocates_throw)
    apply (unfold compression_apply_def Let_def Num jsval.case)
    apply (rule refl)
    done
  then show ?thesis using Num by simp
next
  case (Bool b)
  have "\<exists>G. allocates (\<lambda>i. compression_apply env i params) G"
    apply (rule allocates_throw)
    apply (unfold compression_apply_def Let_def Bool jsval.case)
    apply (rule refl)
    done
  then show ?thesis using Bool by simp
qed

subsection \<open>sampling\<close>

text \<open>
  The two counting loops of the blur end when their bound is an integer: the counter
  takes the values 0, 1, 2, ... exactly.
\<close>

lemma js_lt_N [simp]: "js_lt env (N a) (N b) = (a < b)"
  by (simp add: N_def)

lemma blur_sx_returns:
  assumes env: "exact_small env" and k: "k \<le> 2 ^ 51"
  shows "0 \<le> j \<Longrightarrow> blur_sx env (N k) w h d y x sy (N j) acc \<noteq> None"
proof (induction "nat (k - j)" arbitrary: j acc)
  case 0
  then have "\<not> j < k" by simp
  then show ?case by (subst blur_sx.simps) simp
next
  case (Suc n)
  then have lt: "j < k" and n: "n = nat (k - (j + 1))" by linarith+
  have "\<bar>j + 1\<bar> \<le> 2 ^ 51" using lt k Suc.prems by linarith
  then have step: "js_add env (N j) (N 1) = N (j + 1)" by (rule js_add_N[OF env])
  have "0 \<le> j + 1" using Suc.prems by simp
  from Suc.hyps(1)[OF n this] show ?case
    using lt by (subst blur_sx.simps) (simp add: step Let_def)
qed

lemma blur_sy_returns:
  assumes env: "exact_small env" and k: "k \<le> 2 ^ 51"
  shows "0 \<le> j \<Longrightarrow> blur_sy env (N k) w h d y x (N j) acc \<noteq> None"
proof (induction "nat (k - j)" arbitrary: j acc)
  case 0
  then have "\<not> j < k" by simp
  then show ?case by (subst blur_sy.simps) simp
next
  case (Suc n)
  then have lt: "j < k" and n: "n = nat (k - (j + 1))" by linarith+
  have "\<bar>j + 1\<bar> \<le> 2 ^ 51" using lt k Suc.prems by linarith
  then have step: "js_add env (N j) (N 1) = N (j + 1)" by (rule js_add_N[OF env])
  have j1: "0 \<le> j + 1" using Suc.prems by simp
  obtain acc' where sx: "blur_sx env (N k) w h d y x (N j) (N 0) acc = Some acc'"
    using blur_sx_returns[OF env k, of 0 w h d y x "N j" acc] by blast
  from Suc.hyps(1)[OF n j1, of acc'] show ?case
    using lt by (subst blur_sy.simps) (simp add: step sx)
qed

lemma sampling_px_returns:
  assumes "mode \<noteq> Str ''Bad bilinear (blurry)'' \<or>
           (exact_small env \<and> (\<exists>k \<le> 2 ^ 51. scale = N k))"
  shows "\<exists>f. sampling_px env mode scale w h d y x = Inr f"
proof (cases "mode = Str ''Bad bilinear (blurry)''")
  case False
  then show ?thesis by (simp add: sampling_px_def sampling_pixel_def Let_def)
next
  case True
  then obtain k where env: "exact_small env" and k: "k \<le> 2 ^ 51" and scale: "scale = N k"
    using assms by blast
  obtain r where "blur_sy env (N k) w h d y x (N 0) (N 0, N 0, N 0, N 0) = Some r"
    using blur_sy_returns[OF env k, of 0 w h d y x "(N 0, N 0, N 0, N 0)"] by blast
  then show ?thesis
    by (simp add: sampling_px_def sampling_pixel_def Let_def True scale split: prod.splits)
qed

lemma sampling_allocates:
  "\<exists>G. allocates (\<lambda>i. sampling_apply env i params) G \<and>
       (js_or (getp params ''mode'') (Str ''Nearest (blocky)'') \<noteq> Str ''Bad bilinear (blurry)'' \<or>
        (exact_small env \<and> (\<exists>k \<le> 2 ^ 51. js_or (getp params ''scale'') (N 4) = N k)) \<longrightarrow>
          (\<forall>img. fst (G img) = None))"
proof -
  define mode where "mode = js_or (getp params ''mode'') (Str ''Nearest (blocky)'')"
  define scale where "scale = js_or (getp params ''scale'') (N 4)"
  define R where "R = (\<lambda>img::ImageData. fold_abort
      (\<lambda>(y, x). sampling_px env mode scale (img_width img) (img_height img) (img_data img) y x)
      (List.product [0..<img_height img] [0..<img_width img])
      (replicate (img_width img * img_height img * 4) (0::byte)))"
  define G where "G = (\<lambda>img::ImageData. (fst (R img),
      [\<lparr>img_width = img_width img, img_height = img_height img, img_data = snd (R img)\<rparr>]))"
  have len: "length (snd (R img)) = img_width img * img_height img * 4" for img
    unfolding R_def
    by (subst fold_abort_length) (auto simp: sampling_px_length)
  have alloc: "allocates (\<lambda>i. sampling_apply env i params) G"
    unfolding allocates_def
  proof (intro allI impI conjI)
    fix s :: heap and i assume i: "i < length s"
    have ne: "\<And>g t. upd_data (length s) g t ! i = t ! i"
      using i by (simp add: upd_data_def)
    show "sampling_apply env i params s = (outcome_of (fst (G (s ! i))) (length s), s @ snd (G (s ! i)))"
      using i
      by (simp add: sampling_apply_def Let_def new_ImageData_def for_yx_abort_hoist ne nth_append
          upd_data_append_last G_def R_def mode_def scale_def)
  qed (simp_all add: G_def len)
  have tot: "fst (G img) = None"
    if "mode \<noteq> Str ''Bad bilinear (blurry)'' \<or> (exact_small env \<and> (\<exists>k \<le> 2 ^ 51. scale = N k))"
    for img
  proof -
    have "\<exists>f. (\<lambda>(y, x). sampling_px env mode scale (img_width img) (img_height img) (img_data img) y x) a
            = Inr f" for a
      using sampling_px_returns[OF that, of "img_width img" "img_height img" "img_data img" "fst a" "snd a"]
      by (simp add: case_prod_unfold)
    then show ?thesis
      unfolding G_def R_def fst_conv by (rule fold_abort_completes)
  qed
  show ?thesis
  proof (intro exI[of _ G] conjI impI allI)
    show "allocates (\<lambda>i. sampling_apply env i params) G" by (rule alloc)
  next
    fix img
    assume "js_or (getp params ''mode'') (Str ''Nearest (blocky)'') \<noteq> Str ''Bad bilinear (blurry)'' \<or>
        (exact_small env \<and> (\<exists>k \<le> 2 ^ 51. js_or (getp params ''scale'') (N 4) = N k))"
    then show "fst (G img) = None" by (intro tot) (simp add: mode_def scale_def)
  qed
qed

subsection \<open>mipmap\<close>

lemma mip_step_new:
  assumes "prevMip < length s"
  shows "mip_step env prevMip mipW mipH s =
     (length s, max 1 (mipW div 2), max 1 (mipH div 2),
      s @ [\<lparr>img_width = max 1 (mipW div 2), img_height = max 1 (mipH div 2),
            img_data = fold_yx (max 1 (mipH div 2)) (max 1 (mipW div 2))
                         (downsample_px env mipW mipH (max 1 (mipW div 2)) (img_data (s ! prevMip)))
                         (replicate (max 1 (mipW div 2) * max 1 (mipH div 2) * 4) 0)\<rparr>])"
  using assms
  by (simp add: mip_step_def new_ImageData_def for_yx_hoist nth_append upd_data_append_last Let_def)

lemma map_upt_Suc_shift: "map f [0..<Suc n] = f 0 # map (\<lambda>k. f (Suc k)) [0..<n]"
  by (simp only: map_upt_Suc)

text \<open>The \<open>while\<close> loop appends the levels of \<open>mip_chain\<close> and changes nothing else.\<close>

lemma build_mips_eq:
  "mipLevels \<noteq> [] \<Longrightarrow> last mipLevels < length s \<Longrightarrow>
   build_mips env mipLevels mipW mipH s =
     (mipLevels @ map (\<lambda>k. length s + k) [0..<length (mip_chain env (s ! last mipLevels) mipW mipH)],
      s @ mip_chain env (s ! last mipLevels) mipW mipH)"
proof (induction env mipLevels mipW mipH s rule: build_mips.induct)
  case (1 env mipLevels mipW mipH s)
  show ?case
  proof (cases "mipW > 1 \<or> mipH > 1")
    case False
    then show ?thesis
      by (subst build_mips.simps, subst mip_chain.simps, subst mip_chain.simps) simp
  next
    case True
    define newW where "newW = max 1 (mipW div 2)"
    define newH where "newH = max 1 (mipH div 2)"
    define newMip where "newMip = \<lparr>img_width = newW, img_height = newH,
        img_data = fold_yx newH newW (downsample_px env mipW mipH newW (img_data (s ! last mipLevels)))
                     (replicate (newW * newH * 4) 0)\<rparr>"
    have step: "mip_step env (last mipLevels) mipW mipH s = (length s, newW, newH, s @ [newMip])"
      using "1.prems"(2) by (simp add: mip_step_new newW_def newH_def newMip_def)
    have IH: "build_mips env (mipLevels @ [length s]) newW newH (s @ [newMip]) =
        ((mipLevels @ [length s]) @
           map (\<lambda>k. length (s @ [newMip]) + k) [0..<length (mip_chain env newMip newW newH)],
         (s @ [newMip]) @ mip_chain env newMip newW newH)"
      using "1.IH"[OF True refl step[symmetric] refl refl refl] by simp
    have chain: "mip_chain env (s ! last mipLevels) mipW mipH = newMip # mip_chain env newMip newW newH"
      using True by (subst mip_chain.simps) (simp add: Let_def newW_def newH_def newMip_def)
    have lhs: "build_mips env mipLevels mipW mipH s =
        build_mips env (mipLevels @ [length s]) newW newH (s @ [newMip])"
      using True by (subst build_mips.simps) (simp add: step)
    show ?thesis
      unfolding lhs IH chain by (simp add: map_upt_Suc_shift del: upt_Suc)
  qed
qed

text \<open>
  With a bias that is a number and not negative, the level the pixel loop selects is
  an index of \<open>mipLevels\<close> in every mode.
\<close>

lemma to_index_N: "0 \<le> k \<Longrightarrow> to_index (ToNumber env (N k)) = Some (nat k)"
  by (simp add: N_def)

lemma mipmap_level_N:
  assumes "1 \<le> n" "0 \<le> r"
  shows "\<exists>k. 0 \<le> k \<and> k < int n \<and> mipmap_level env mode (Num (Fin r)) n y x = N k"
proof -
  have fl: "Math_floor env (Num (Fin r)) = N \<lfloor>r\<rfloor>"
    by (simp add: Math_floor_def N_def)
  have m: "Math_min env (N (int n - 1)) (Math_floor env (Num (Fin r))) = N (min (int n - 1) \<lfloor>r\<rfloor>)"
    unfolding fl by (rule Math_min_N)
  have a: "0 \<le> min (int n - 1) \<lfloor>r\<rfloor>" "min (int n - 1) \<lfloor>r\<rfloor> < int n"
    using assms by simp_all
  have b: "0 \<le> int (((x + y) div 32) mod n)" "int (((x + y) div 32) mod n) < int n"
    using assms by simp_all
  have c: "(0::int) \<le> 0" "0 < int n" using assms by simp_all
  consider "mode = Str ''Too blurry (high LOD)'' \<or> mode = Str ''Visualize mip levels''"
    | "mode = Str ''Wrong mip level''"
    | "mode \<noteq> Str ''Too blurry (high LOD)''" "mode \<noteq> Str ''Visualize mip levels''"
      "mode \<noteq> Str ''Wrong mip level''"
    by blast
  then show ?thesis
  proof cases
    case 1
    then have "mipmap_level env mode (Num (Fin r)) n y x = N (min (int n - 1) \<lfloor>r\<rfloor>)"
      unfolding mipmap_level_def m by auto
    then show ?thesis using a by blast
  next
    case 2
    then have "mipmap_level env mode (Num (Fin r)) n y x = N (int (((x + y) div 32) mod n))"
      unfolding mipmap_level_def by simp
    then show ?thesis using b by blast
  next
    case 3
    then have "mipmap_level env mode (Num (Fin r)) n y x = N 0"
      unfolding mipmap_level_def by simp
    then show ?thesis using c by blast
  qed
qed

lemma mipmap_px_returns:
  assumes "mips \<noteq> []" "0 \<le> r"
  shows "\<exists>f. mipmap_px env mode (Num (Fin r)) w mips y x = Inr f"
proof -
  have "1 \<le> length mips" using assms(1) by (cases mips) simp_all
  then obtain k where k: "0 \<le> k" "k < int (length mips)"
      "mipmap_level env mode (Num (Fin r)) (length mips) y x = N k"
    using mipmap_level_N[OF _ assms(2)] by blast
  have "nat k < length mips" using k by linarith
  then show ?thesis
    by (simp add: mipmap_px_def Let_def k(3) to_index_N[OF k(1)])
qed

lemma mipmap_allocates:
  "\<exists>G. allocates (\<lambda>i. mipmap_apply env i params) G \<and>
       ((\<exists>r\<ge>0. js_or (getp params ''lodBias'') (N 2) = Num (Fin r)) \<longrightarrow>
          (\<forall>img. fst (G img) = None))"
proof -
  define mode where "mode = js_or (getp params ''mode'') (Str ''Too blurry (high LOD)'')"
  define lodBias where "lodBias = js_or (getp params ''lodBias'') (N 2)"
  define C where "C = (\<lambda>img::ImageData. mip_chain env img (img_width img) (img_height img))"
  define R where "R = (\<lambda>img::ImageData. fold_abort
      (\<lambda>(y, x). mipmap_px env mode lodBias (img_width img) (img # C img) y x)
      (List.product [0..<img_height img] [0..<img_width img])
      (replicate (img_width img * img_height img * 4) (0::byte)))"
  define G where "G = (\<lambda>img::ImageData. (fst (R img),
      \<lparr>img_width = img_width img, img_height = img_height img, img_data = snd (R img)\<rparr> # C img))"
  have len: "length (snd (R img)) = img_width img * img_height img * 4" for img
    unfolding R_def
    by (subst fold_abort_length) (auto simp: mipmap_px_length)
  have alloc: "allocates (\<lambda>i. mipmap_apply env i params) G"
    unfolding allocates_def
  proof (intro allI impI conjI)
    fix s :: heap and i assume i: "i < length s"
    define w where "w = img_width (s ! i)"
    define h where "h = img_height (s ! i)"
    define blank where "blank = \<lparr>img_width = w, img_height = h,
        img_data = replicate (w * h * 4) (0::byte)\<rparr>"
    define levels where "levels = i # map (\<lambda>k. Suc (length s) + k) [0..<length (C (s ! i))]"
    define s2 where "s2 = s @ blank # C (s ! i)"
    have new: "new_ImageData w h s = (length s, s @ [blank])"
      by (simp add: new_ImageData_def blank_def)
    have build: "build_mips env [i] w h (s @ [blank]) = (levels, s2)"
      using i by (subst build_mips_eq) (simp_all add: nth_append levels_def s2_def C_def w_def h_def)
    have inv: "\<And>t g. (\<lambda>t. mipmap_px env mode lodBias w (map (\<lambda>r. t ! r) levels))
                 (upd_data (length s) g t) =
               (\<lambda>t. mipmap_px env mode lodBias w (map (\<lambda>r. t ! r) levels)) t"
    proof -
      fix t :: heap and g
      have "map (\<lambda>r. upd_data (length s) g t ! r) levels = map (\<lambda>r. t ! r) levels"
        using i by (intro map_cong refl) (auto simp: levels_def upd_data_def)
      then show "(\<lambda>t. mipmap_px env mode lodBias w (map (\<lambda>r. t ! r) levels))
                 (upd_data (length s) g t) =
               (\<lambda>t. mipmap_px env mode lodBias w (map (\<lambda>r. t ! r) levels)) t"
        by (simp only:)
    qed
    have "map (\<lambda>k. s2 ! (Suc (length s) + k)) [0..<length (C (s ! i))] = C (s ! i)"
      by (intro nth_equalityI) (simp_all add: s2_def nth_append)
    then have view: "map (\<lambda>r. s2 ! r) levels = s ! i # C (s ! i)"
      using i by (simp add: levels_def s2_def nth_append comp_def)
    have out: "length s < length s2" by (simp add: s2_def)
    have at: "img_data (s2 ! length s) = replicate (w * h * 4) 0"
      by (simp add: s2_def blank_def)
    have loop: "for_yx_abort (length s) h w
        (\<lambda>t. mipmap_px env mode lodBias w (map (\<lambda>r. t ! r) levels)) s2 =
        (fst (R (s ! i)), s @ snd (G (s ! i)))"
      unfolding for_yx_abort_hoist[where out = "length s" and s = s2 and
          body = "\<lambda>t. mipmap_px env mode lodBias w (map (\<lambda>r. t ! r) levels)", OF inv out]
      apply (simp only: view at)
      apply (simp add: R_def G_def w_def h_def s2_def upd_data_middle blank_def)
      done
    show "mipmap_apply env i params s = (outcome_of (fst (G (s ! i))) (length s), s @ snd (G (s ! i)))"
      unfolding mipmap_apply_def Let_def w_def[symmetric] h_def[symmetric]
        mode_def[symmetric] lodBias_def[symmetric]
      by (simp add: new build loop G_def del: build_mips.simps)
  qed (simp_all add: G_def len)
  have tot: "fst (G img) = None" if ex: "\<exists>r\<ge>0. lodBias = Num (Fin r)" for img
  proof -
    obtain r where r: "0 \<le> r" "lodBias = Num (Fin r)" using ex by blast
    have ne: "img # C img \<noteq> []" by simp
    have ret: "\<exists>f. mipmap_px env mode lodBias (img_width img) (img # C img) y x = Inr f" for y x
      unfolding r(2) by (rule mipmap_px_returns[OF ne r(1)])
    have "fst (R img) = None"
      unfolding R_def
    proof (rule fold_abort_completes)
      fix a :: "nat \<times> nat"
      show "\<exists>f. (case a of (y, x) \<Rightarrow> mipmap_px env mode lodBias (img_width img) (img # C img) y x)
              = Inr f"
        using ret[of "fst a" "snd a"] by (simp add: case_prod_unfold)
    qed
    then show ?thesis by (simp add: G_def)
  qed
  show ?thesis
  proof (intro exI[of _ G] conjI impI allI)
    show "allocates (\<lambda>i. mipmap_apply env i params) G" by (rule alloc)
  next
    fix img assume "\<exists>r\<ge>0. js_or (getp params ''lodBias'') (N 2) = Num (Fin r)"
    then show "fst (G img) = None" by (intro tot) (simp add: lodBias_def)
  qed
qed

subsection \<open>The whole catalog\<close>

text \<open>
  Every registered transform allocates its output and the objects it needs, and touches
  nothing else. All but three return for every parameter map; the three return under the
  conditions stated.
\<close>

lemma glitches_allocate:
  assumes "t \<in> set glitches"
  shows "\<exists>G. allocates (\<lambda>i. glitch_apply t env i params) G \<and>
     (((glitch_id t = ''compression'' \<longrightarrow>
          is_str (js_or (getp params ''blockSize'') (Str ''8x8 (JPEG)''))) \<and>
       (glitch_id t = ''sampling'' \<longrightarrow>
          js_or (getp params ''mode'') (Str ''Nearest (blocky)'') \<noteq> Str ''Bad bilinear (blurry)'' \<or>
          (exact_small env \<and> (\<exists>k \<le> 2 ^ 51. js_or (getp params ''scale'') (N 4) = N k))) \<and>
       (glitch_id t = ''mipmap'' \<longrightarrow>
          (\<exists>r\<ge>0. js_or (getp params ''lodBias'') (N 2) = Num (Fin r)))) \<longrightarrow>
      (\<forall>img. fst (G img) = None))"
proof -
  consider "t = rgbaAsRgb" | "t = rgbAsRgba" | "t = bgrSwap" | "t = argbOrder" | "t = endianness"
    | "t = channelShift" | "t = bitDepth" | "t = gamma" | "t = premultipliedAlpha"
    | "t = signedUnsigned" | "t = compression" | "t = yuv" | "t = floatPrecision"
    | "t = wrongStride" | "t = wrongPitch" | "t = rowPadding" | "t = alignment" | "t = swizzle"
    | "t = offByOne" | "t = flippedAxis" | "t = uvWrapping" | "t = aspectRatio" | "t = sampling"
    | "t = halfPixel" | "t = mipmap"
    using assms unfolding glitches_def by auto
  then show ?thesis
  proof cases
    case 1
    have a: "glitch_apply t = rgbaAsRgb_apply" using 1 by (simp add: rgbaAsRgb_def)
    show ?thesis unfolding a using rgbaAsRgb_allocates[of env params] by blast
  next
    case 2
    have a: "glitch_apply t = rgbAsRgba_apply" using 2 by (simp add: rgbAsRgba_def)
    show ?thesis unfolding a using rgbAsRgba_allocates[of env params] by blast
  next
    case 3
    have a: "glitch_apply t = bgrSwap_apply" using 3 by (simp add: bgrSwap_def)
    show ?thesis unfolding a using bgrSwap_allocates[of env params] by blast
  next
    case 4
    have a: "glitch_apply t = argbOrder_apply" using 4 by (simp add: argbOrder_def)
    show ?thesis unfolding a using argbOrder_allocates[of env params] by blast
  next
    case 5
    have a: "glitch_apply t = endianness_apply" using 5 by (simp add: endianness_def)
    show ?thesis unfolding a using endianness_allocates[of env params] by blast
  next
    case 6
    have a: "glitch_apply t = channelShift_apply" using 6 by (simp add: channelShift_def)
    show ?thesis unfolding a using channelShift_allocates[of env params] by blast
  next
    case 7
    have a: "glitch_apply t = bitDepth_apply" using 7 by (simp add: bitDepth_def)
    show ?thesis unfolding a using bitDepth_allocates[of env params] by blast
  next
    case 8
    have a: "glitch_apply t = gamma_apply" using 8 by (simp add: gamma_def)
    show ?thesis unfolding a using gamma_allocates[of env params] by blast
  next
    case 9
    have a: "glitch_apply t = premultipliedAlpha_apply" using 9 by (simp add: premultipliedAlpha_def)
    show ?thesis unfolding a using premultipliedAlpha_allocates[of env params] by blast
  next
    case 10
    have a: "glitch_apply t = signedUnsigned_apply" using 10 by (simp add: signedUnsigned_def)
    show ?thesis unfolding a using signedUnsigned_allocates[of env params] by blast
  next
    case 11
    have a: "glitch_apply t = compression_apply" and b: "glitch_id t = ''compression''"
      using 11 by (simp_all add: compression_def)
    show ?thesis unfolding a b using compression_allocates[of env params] by simp
  next
    case 12
    have a: "glitch_apply t = yuv_apply" using 12 by (simp add: yuv_def)
    show ?thesis unfolding a using yuv_allocates[of env params] by blast
  next
    case 13
    have a: "glitch_apply t = floatPrecision_apply" using 13 by (simp add: floatPrecision_def)
    show ?thesis unfolding a using floatPrecision_allocates[of env params] by blast
  next
    case 14
    have a: "glitch_apply t = wrongStride_apply" using 14 by (simp add: wrongStride_def)
    show ?thesis unfolding a using wrongStride_allocates[of env params] by blast
  next
    case 15
    have a: "glitch_apply t = wrongPitch_apply" using 15 by (simp add: wrongPitch_def)
    show ?thesis unfolding a using wrongPitch_allocates[of env params] by blast
  next
    case 16
    have a: "glitch_apply t = rowPadding_apply" using 16 by (simp add: rowPadding_def)
    show ?thesis unfolding a using rowPadding_allocates[of env params] by blast
  next
    case 17
    have a: "glitch_apply t = alignment_apply" using 17 by (simp add: alignment_def)
    show ?thesis unfolding a using alignment_allocates[of env params] by blast
  next
    case 18
    have a: "glitch_apply t = swizzle_apply" using 18 by (simp add: swizzle_def)
    show ?thesis unfolding a using swizzle_allocates[of env params] by blast
  next
    case 19
    have a: "glitch_apply t = offByOne_apply" using 19 by (simp add: offByOne_def)
    show ?thesis unfolding a using offByOne_allocates[of env params] by blast
  next
    case 20
    have a: "glitch_apply t = flippedAxis_apply" using 20 by (simp add: flippedAxis_def)
    show ?thesis unfolding a using flippedAxis_allocates[of env params] by blast
  next
    case 21
    have a: "glitch_apply t = uvWrapping_apply" using 21 by (simp add: uvWrapping_def)
    show ?thesis unfolding a using uvWrapping_allocates[of env params] by blast
  next
    case 22
    have a: "glitch_apply t = aspectRatio_apply" using 22 by (simp add: aspectRatio_def)
    show ?thesis unfolding a using aspectRatio_allocates[of env params] by blast
  next
    case 23
    have a: "glitch_apply t = sampling_apply" and b: "glitch_id t = ''sampling''"
      using 23 by (simp_all add: sampling_def)
    show ?thesis unfolding a b using sampling_allocates[of env params] by simp
  next
    case 24
    have a: "glitch_apply t = halfPixel_apply" using 24 by (simp add: halfPixel_def)
    show ?thesis unfolding a using halfPixel_allocates[of env params] by blast
  next
    case 25
    have a: "glitch_apply t = mipmap_apply" and b: "glitch_id t = ''mipmap''"
      using 25 by (simp_all add: mipmap_def)
    show ?thesis unfolding a b using mipmap_allocates[of env params] by simp
  qed
qed

section \<open>Claims\<close>

text \<open>
  C6. Applying flipped-axis with flipMode \<open>Flip Both\<close> twice in succession to a
  well-formed bitmap returns a bitmap whose pixel bytes are exactly those of the original
  input. The second call runs on the result of the first, in the heap the first call
  left. The statement holds for every well-formed bitmap, so in particular for one with
  even width and even height.
\<close>

theorem flippedAxis_flip_both_twice:
  assumes i: "i < length s" and wf: "well_formed (s ! i)"
    and mode: "getp params ''flipMode'' = Str ''Flip Both''"
  shows "\<exists>o1 s1 o2 s2.
           flippedAxis_apply env i params s = (Returns o1, s1) \<and>
           flippedAxis_apply env o1 params s1 = (Returns o2, s2) \<and>
           img_width (s2 ! o2) = img_width (s ! i) \<and>
           img_height (s2 ! o2) = img_height (s ! i) \<and>
           img_data (s2 ! o2) = img_data (s ! i)"
proof -
  define w where "w = img_width (s ! i)"
  define h where "h = img_height (s ! i)"
  define d where "d = img_data (s ! i)"
  define m where "m = js_or (getp params ''flipMode'') (Str ''Flip Vertical'')"
  have m: "m = Str ''Flip Both''" by (simp add: m_def mode js_or_def)
  have len: "length d = w * h * 4" using wf by (simp add: well_formed_def w_def h_def d_def)
  define d1 where "d1 = fold_yx h w (flippedAxis_px env m w h d) (replicate (w * h * 4) 0)"
  define img1 where "img1 = \<lparr>img_width = w, img_height = h, img_data = d1\<rparr>"
  define s1 where "s1 = s @ [img1]"
  have r1: "flippedAxis_apply env i params s = (Returns (length s), s1)"
    using flippedAxis_apply_eq[OF i] by (simp add: s1_def img1_def d1_def w_def h_def d_def m_def)
  have px1: "length d1 = w * h * 4 \<and>
      (\<forall>y<h. \<forall>x<w. \<forall>k<4. d1 ! ((y * w + x) * 4 + k) =
          d ! (((h - 1 - y) * w + (w - 1 - x)) * 4 + k))"
    unfolding d1_def
    by (rule fold_yx_pixels) (simp_all add: flippedAxis_px_both len m)
  define d2 where "d2 = fold_yx h w (flippedAxis_px env m w h d1) (replicate (w * h * 4) 0)"
  define img2 where "img2 = \<lparr>img_width = w, img_height = h, img_data = d2\<rparr>"
  have i1: "length s < length s1" by (simp add: s1_def)
  have at1: "s1 ! length s = img1" by (simp add: s1_def)
  have r2: "flippedAxis_apply env (length s) params s1 = (Returns (length s1), s1 @ [img2])"
    using flippedAxis_apply_eq[OF i1] by (simp add: at1 img1_def img2_def d2_def m_def)
  have px2: "length d2 = w * h * 4 \<and>
      (\<forall>y<h. \<forall>x<w. \<forall>k<4. d2 ! ((y * w + x) * 4 + k) =
          d1 ! (((h - 1 - y) * w + (w - 1 - x)) * 4 + k))"
    unfolding d2_def
    by (rule fold_yx_pixels) (simp_all add: flippedAxis_px_both px1 m)
  have "d2 = d"
  proof (rule nth_equalityI)
    show "length d2 = length d" using px2 len by simp
  next
    fix n assume "n < length d2"
    then have n: "n < w * h * 4" using px2 by simp
    then obtain y x k where yxk: "y < h" "x < w" "k < 4" "n = (y * w + x) * 4 + k"
      by (rule pixel_index_split)
    have "d2 ! n = d1 ! (((h - 1 - y) * w + (w - 1 - x)) * 4 + k)"
      using px2 yxk by blast
    also have "\<dots> = d ! (((h - 1 - (h - 1 - y)) * w + (w - 1 - (w - 1 - x))) * 4 + k)"
      using px1 flip_flip(3,4)[OF yxk(1,2)] yxk(3) by blast
    also have "\<dots> = d ! n"
      using flip_flip(1,2)[OF yxk(1,2)] yxk(4) by simp
    finally show "d2 ! n = d ! n" .
  qed
  then have "img_data ((s1 @ [img2]) ! length s1) = img_data (s ! i)"
    by (simp add: img2_def d_def)
  moreover have "img_width ((s1 @ [img2]) ! length s1) = img_width (s ! i)"
    "img_height ((s1 @ [img2]) ! length s1) = img_height (s ! i)"
    by (simp_all add: img2_def w_def h_def)
  ultimately show ?thesis using r1 r2 by blast
qed

theorem flippedAxis_flip_both_twice_witness:
  "0 < length [\<lparr>img_width = 2, img_height = 2, img_data = [1, 2, 3, 4, 5, 6, 7, 8, 9, 10, 11, 12, 13, 14, 15, 16]\<rparr>] \<and>
   well_formed \<lparr>img_width = 2, img_height = 2, img_data = [1, 2, 3, 4, 5, 6, 7, 8, 9, 10, 11, 12, 13, 14, 15, 16]\<rparr> \<and>
   getp [''flipMode'' \<mapsto> Str ''Flip Both''] ''flipMode'' = Str ''Flip Both'' \<and>
   (\<exists>o1 s1 o2 s2.
      flippedAxis_apply exact_env 0 [''flipMode'' \<mapsto> Str ''Flip Both'']
        [\<lparr>img_width = 2, img_height = 2, img_data = [1, 2, 3, 4, 5, 6, 7, 8, 9, 10, 11, 12, 13, 14, 15, 16]\<rparr>]
        = (Returns o1, s1) \<and>
      flippedAxis_apply exact_env o1 [''flipMode'' \<mapsto> Str ''Flip Both''] s1 = (Returns o2, s2) \<and>
      img_width (s2 ! o2) = 2 \<and> img_height (s2 ! o2) = 2 \<and>
      img_data (s2 ! o2) = [1, 2, 3, 4, 5, 6, 7, 8, 9, 10, 11, 12, 13, 14, 15, 16])"
  using flippedAxis_flip_both_twice
    [of 0 "[\<lparr>img_width = 2, img_height = 2, img_data = [1, 2, 3, 4, 5, 6, 7, 8, 9, 10, 11, 12, 13, 14, 15, 16]\<rparr>]"
        "[''flipMode'' \<mapsto> Str ''Flip Both'']" exact_env]
  by (simp add: well_formed_def getp_def)

text \<open>
  C9. Whatever else the parameter map holds, flipped-axis computes the same result for
  flipMode \<open>Flip Both\<close> and for flipMode \<open>Rotate 180\<close>: the two calls return the same
  address and leave the same heap, so the output bitmaps are byte-identical.
\<close>

theorem flippedAxis_flip_both_eq_rotate_180:
  "flippedAxis_apply env i (params(''flipMode'' \<mapsto> Str ''Flip Both'')) s =
   flippedAxis_apply env i (params(''flipMode'' \<mapsto> Str ''Rotate 180'')) s"
proof -
  have "flippedAxis_px env (Str ''Flip Both'') = flippedAxis_px env (Str ''Rotate 180'')"
    by (intro ext) (simp add: flippedAxis_px_def)
  then show ?thesis
    by (simp add: flippedAxis_apply_def getp_def js_or_def)
qed

text \<open>
  C10. For every well-formed bitmap, bit-depth with mode \<open>Simulate 16-bit as 8-bit\<close>, whatever
  the value of \<open>bits\<close> and of any other parameter, returns an output in which the R, G and B
  samples of every pixel are 0 and the alpha sample is the input's: \<open>(v * 256) % 256\<close> is 0
  for every 8-bit sample \<open>v\<close>. The product is computed exactly, as doubles do for integers of this size.
\<close>

theorem bitDepth_16_bit_zeroes_rgb:
  assumes env: "exact_small env" and i: "i < length s" and wf: "well_formed (s ! i)"
    and mode: "getp params ''mode'' = Str ''Simulate 16-bit as 8-bit''"
  shows "\<exists>out s'. bitDepth_apply env i params s = (Returns out, s') \<and>
           img_width (s' ! out) = img_width (s ! i) \<and>
           img_height (s' ! out) = img_height (s ! i) \<and>
           length (img_data (s' ! out)) = length (img_data (s ! i)) \<and>
           (\<forall>p < img_width (s ! i) * img_height (s ! i).
              img_data (s' ! out) ! (p * 4) = 0 \<and>
              img_data (s' ! out) ! (p * 4 + 1) = 0 \<and>
              img_data (s' ! out) ! (p * 4 + 2) = 0 \<and>
              img_data (s' ! out) ! (p * 4 + 3) = img_data (s ! i) ! (p * 4 + 3))"
proof -
  define n where "n = img_width (s ! i) * img_height (s ! i)"
  define d where "d = img_data (s ! i)"
  define bits where "bits = js_or (getp params ''bits'') (N 3)"
  define factor where "factor = js_div env (N 255) (js_sub env (Math_pow env (N 2) bits) (N 1))"
  define d' where "d' = fold (bitDepth_px env (Str ''Simulate 16-bit as 8-bit'') bits factor d)
             (steps4 (n * 4)) (replicate (n * 4) 0)"
  have len: "length d = n * 4" using wf by (simp add: well_formed_def n_def d_def)
  have m: "js_or (getp params ''mode'') (Str ''Posterize (reduce bits)'') = Str ''Simulate 16-bit as 8-bit''"
    by (simp add: mode js_or_def)
  have r: "bitDepth_apply env i params s =
      (Returns (length s), s @ [\<lparr>img_width = img_width (s ! i), img_height = img_height (s ! i),
           img_data = d'\<rparr>])"
    using bitDepth_apply_eq[OF i, of env params] len
    by (simp add: m Let_def d'_def bits_def factor_def d_def n_def)
  have px: "length d' = n * 4 \<and> (\<forall>p<n. \<forall>k<4. d' ! (p * 4 + k) = (if k = 3 then d ! (p * 4 + 3) else 0))"
    unfolding d'_def
    by (rule fold_i4_pixels) (simp_all add: bitDepth_px_16[OF env] len)
  have "\<forall>p<n. d' ! (p * 4) = 0 \<and> d' ! (p * 4 + 1) = 0 \<and> d' ! (p * 4 + 2) = 0 \<and>
          d' ! (p * 4 + 3) = d ! (p * 4 + 3)"
  proof (intro allI impI)
    fix p assume p: "p < n"
    have k: "\<And>k. k < 4 \<Longrightarrow> d' ! (p * 4 + k) = (if k = 3 then d ! (p * 4 + 3) else 0)"
      using px p by blast
    show "d' ! (p * 4) = 0 \<and> d' ! (p * 4 + 1) = 0 \<and> d' ! (p * 4 + 2) = 0 \<and>
          d' ! (p * 4 + 3) = d ! (p * 4 + 3)"
      using k[of 0] k[of 1] k[of 2] k[of 3] by simp
  qed
  then show ?thesis using r px len by (simp add: n_def d_def)
qed

theorem bitDepth_16_bit_zeroes_rgb_witness:
  "exact_small exact_env \<and>
   0 < length [\<lparr>img_width = 1, img_height = 1, img_data = [200, 100, 50, 255]\<rparr>] \<and>
   well_formed \<lparr>img_width = 1, img_height = 1, img_data = [200, 100, 50, 255]\<rparr> \<and>
   getp [''mode'' \<mapsto> Str ''Simulate 16-bit as 8-bit'', ''bits'' \<mapsto> N 5] ''mode''
     = Str ''Simulate 16-bit as 8-bit'' \<and>
   (\<exists>out s'.
      bitDepth_apply exact_env 0 [''mode'' \<mapsto> Str ''Simulate 16-bit as 8-bit'', ''bits'' \<mapsto> N 5]
        [\<lparr>img_width = 1, img_height = 1, img_data = [200, 100, 50, 255]\<rparr>] = (Returns out, s') \<and>
      img_data (s' ! out) ! 0 = 0 \<and> img_data (s' ! out) ! 1 = 0 \<and>
      img_data (s' ! out) ! 2 = 0 \<and> img_data (s' ! out) ! 3 = 255)"
proof -
  have "\<exists>out s'.
      bitDepth_apply exact_env 0 [''mode'' \<mapsto> Str ''Simulate 16-bit as 8-bit'', ''bits'' \<mapsto> N 5]
        [\<lparr>img_width = 1, img_height = 1, img_data = [200, 100, 50, 255]\<rparr>] = (Returns out, s') \<and>
      img_data (s' ! out) ! (0 * 4) = 0 \<and> img_data (s' ! out) ! (0 * 4 + 1) = 0 \<and>
      img_data (s' ! out) ! (0 * 4 + 2) = 0 \<and> img_data (s' ! out) ! (0 * 4 + 3) = 255"
    using bitDepth_16_bit_zeroes_rgb
      [of exact_env 0 "[\<lparr>img_width = 1, img_height = 1, img_data = [200, 100, 50, 255]\<rparr>]"
          "[''mode'' \<mapsto> Str ''Simulate 16-bit as 8-bit'', ''bits'' \<mapsto> N 5]"]
    by (simp add: well_formed_def getp_def) blast
  then show ?thesis by (simp add: well_formed_def getp_def numeral_2_eq_2)
qed

text \<open>
  C5. The scenario calls off-by-one on a 4x4 bitmap with \<open>xOffset = 1\<close>, \<open>yOffset = 0\<close> and
  \<open>wrapEdges = true\<close>, and expects output pixel \<open>(0, y)\<close> to be input pixel \<open>(1, y)\<close> and
  output pixel \<open>(3, y)\<close> to be input pixel \<open>(0, y)\<close>. The transform resolves the offset
  with \<open>(params.yOffset as number) || 1\<close>, and \<open>0\<close> is falsy: the explicit \<open>yOffset = 0\<close>
  becomes 1. On the bitmap whose pixel number \<open>p = 4 * y + x\<close> has the samples
  \<open>16 * p\<close>, \<open>16 * p + 5\<close>, \<open>16 * p + 10\<close>, \<open>16 * p + 15\<close>, output pixel \<open>(0, y)\<close> is input pixel
  \<open>(1, (y + 1) mod 4)\<close> and output pixel \<open>(3, y)\<close> is input pixel \<open>(0, (y + 1) mod 4)\<close>: every
  row is taken from the row below. Input pixel \<open>(1, 0)\<close> is \<open>[16, 21, 26, 31]\<close> and input
  pixel \<open>(0, 0)\<close> is \<open>[0, 5, 10, 15]\<close>.
\<close>

theorem offByOne_explicit_zero_yOffset:
  "\<exists>out s'.
     offByOne_apply exact_env 0 [''xOffset'' \<mapsto> N 1, ''yOffset'' \<mapsto> N 0, ''wrapEdges'' \<mapsto> Bool True]
       [\<lparr>img_width = 4, img_height = 4, img_data =
        [0, 5, 10, 15, 16, 21, 26, 31, 32, 37, 42, 47, 48, 53, 58, 63, 64, 69, 74, 79, 
         80, 85, 90, 95, 96, 101, 106, 111, 112, 117, 122, 127, 128, 133, 138, 143, 144, 
         149, 154, 159, 160, 165, 170, 175, 176, 181, 186, 191, 192, 197, 202, 207, 208, 
         213, 218, 223, 224, 229, 234, 239, 240, 245, 250, 255]\<rparr>] = (Returns out, s') \<and>
     pixel_at (s' ! out) 0 0 = [80, 85, 90, 95] \<and>
     pixel_at (s' ! out) 3 0 = [64, 69, 74, 79] \<and>
     pixel_at (s' ! out) 0 1 = [144, 149, 154, 159] \<and>
     pixel_at (s' ! out) 3 1 = [128, 133, 138, 143] \<and>
     pixel_at (s' ! out) 0 2 = [208, 213, 218, 223] \<and>
     pixel_at (s' ! out) 3 2 = [192, 197, 202, 207] \<and>
     pixel_at (s' ! out) 0 3 = [16, 21, 26, 31] \<and>
     pixel_at (s' ! out) 3 3 = [0, 5, 10, 15]"
proof -
  define img where "img = \<lparr>img_width = 4, img_height = 4, img_data =
        [0, 5, 10, 15, 16, 21, 26, 31, 32, 37, 42, 47, 48, 53, 58, 63, 64, 69, 74, 79, 
         80, 85, 90, 95, 96, 101, 106, 111, 112, 117, 122, 127, 128, 133, 138, 143, 144, 
         149, 154, 159, 160, 165, 170, 175, 176, 181, 186, 191, 192, 197, 202, 207, 208, 
         213, 218, 223, 224, 229, 234, 239, 240, 245, 250, 255]\<rparr>"
  define params :: GlitchParams where "params = [''xOffset'' \<mapsto> N 1, ''yOffset'' \<mapsto> N 0, ''wrapEdges'' \<mapsto> Bool True]"
  have src: "pixel_at img 0 0 = [0, 5, 10, 15]"
    "pixel_at img 1 0 = [16, 21, 26, 31]"
    "pixel_at img 0 1 = [64, 69, 74, 79]"
    "pixel_at img 1 1 = [80, 85, 90, 95]"
    "pixel_at img 0 2 = [128, 133, 138, 143]"
    "pixel_at img 1 2 = [144, 149, 154, 159]"
    "pixel_at img 0 3 = [192, 197, 202, 207]"
    "pixel_at img 1 3 = [208, 213, 218, 223]"
    by (simp_all add: img_def pixel_at_def)
  have "\<exists>out s'. offByOne_apply exact_env 0 params [img] = (Returns out, s') \<and>
           img_width (s' ! out) = img_width ([img] ! 0) \<and>
           img_height (s' ! out) = img_height ([img] ! 0) \<and>
           (\<forall>y < img_height ([img] ! 0). \<forall>x < img_width ([img] ! 0).
              pixel_at (s' ! out) x y =
              pixel_at ([img] ! 0) ((x + 1) mod img_width ([img] ! 0)) ((y + 1) mod img_height ([img] ! 0)))"
    by (rule offByOne_zero_yOffset_shift)
       (simp_all add: img_def params_def well_formed_def getp_def)
  then obtain out s' where r: "offByOne_apply exact_env 0 params [img] = (Returns out, s')"
    and sh: "\<And>y x. y < 4 \<Longrightarrow> x < 4 \<Longrightarrow>
               pixel_at (s' ! out) x y = pixel_at img ((x + 1) mod 4) ((y + 1) mod 4)"
    by (auto simp: img_def)
  have "pixel_at (s' ! out) 0 0 = [80, 85, 90, 95]"
    "pixel_at (s' ! out) 3 0 = [64, 69, 74, 79]"
    "pixel_at (s' ! out) 0 1 = [144, 149, 154, 159]"
    "pixel_at (s' ! out) 3 1 = [128, 133, 138, 143]"
    "pixel_at (s' ! out) 0 2 = [208, 213, 218, 223]"
    "pixel_at (s' ! out) 3 2 = [192, 197, 202, 207]"
    "pixel_at (s' ! out) 0 3 = [16, 21, 26, 31]"
    "pixel_at (s' ! out) 3 3 = [0, 5, 10, 15]"
    using sh[of 0 0] sh[of 1 0] sh[of 2 0] sh[of 3 0] sh[of 0 3] sh[of 1 3] sh[of 2 3] sh[of 3 3] src
    by (simp_all add: numeral_2_eq_2[symmetric])
  then show ?thesis using r unfolding img_def params_def by blast
qed

text \<open>
  C4. A missing key is to resolve to the declared schema default, and in particular
  channel-shift with an empty parameter map is to equal channel-shift with
  \<open>redShift = 5\<close>, \<open>greenShift = 0\<close>, \<open>blueShift = -5\<close>. The schema of channel-shift declares
  these defaults, but its \<open>apply\<close> falls back to \<open>0\<close> for all three shifts. On a 2x1 bitmap
  the empty map copies the input, while the map completed with the schema defaults takes
  the red sample of each pixel from the right neighbour and the blue sample from the left.
\<close>

theorem channelShift_empty_params_not_defaults:
  "with_defaults exact_env (glitch_params channelShift) Map.empty ''redShift'' = Some (N 5) \<and>
   with_defaults exact_env (glitch_params channelShift) Map.empty ''greenShift'' = Some (N 0) \<and>
   with_defaults exact_env (glitch_params channelShift) Map.empty ''blueShift'' = Some (N (- 5)) \<and>
   channelShift_apply exact_env 0 Map.empty
     [\<lparr>img_width = 2, img_height = 1, img_data = [10, 20, 30, 40, 50, 60, 70, 80]\<rparr>] =
   (Returns 1,
    [\<lparr>img_width = 2, img_height = 1, img_data = [10, 20, 30, 40, 50, 60, 70, 80]\<rparr>,
     \<lparr>img_width = 2, img_height = 1, img_data = [10, 20, 30, 40, 50, 60, 70, 80]\<rparr>]) \<and>
   channelShift_apply exact_env 0 (with_defaults exact_env (glitch_params channelShift) Map.empty)
     [\<lparr>img_width = 2, img_height = 1, img_data = [10, 20, 30, 40, 50, 60, 70, 80]\<rparr>] =
   (Returns 1,
    [\<lparr>img_width = 2, img_height = 1, img_data = [10, 20, 30, 40, 50, 60, 70, 80]\<rparr>,
     \<lparr>img_width = 2, img_height = 1, img_data = [50, 20, 30, 40, 50, 60, 30, 80]\<rparr>])"
  by code_simp

text \<open>
  C8. No two registered transforms share an id, and for each of the three categories the
  by-category listing contains exactly the transforms of the catalog whose category field
  is that category, in catalog-declaration order: it is a subsequence of the catalog with
  exactly those members. The three listings are given in full.
\<close>

theorem registry_unique_ids_and_categories:
  "distinct (map glitch_id glitches) \<and>
   (\<forall>c. subseq (glitchesByCategory c) glitches \<and>
        set (glitchesByCategory c) = {g. g \<in> set glitches \<and> glitch_category g = c}) \<and>
   map glitch_id (glitchesByCategory PixelFormat) =
     [''rgba-as-rgb'', ''rgb-as-rgba'', ''bgr-swap'', ''argb-order'', ''endianness'',
      ''channel-shift'', ''bit-depth'', ''gamma'', ''premultiplied-alpha'', ''signed-unsigned'',
      ''compression'', ''yuv'', ''float-precision''] \<and>
   map glitch_id (glitchesByCategory MemoryLayout) =
     [''wrong-stride'', ''wrong-pitch'', ''row-padding'', ''alignment'', ''swizzle''] \<and>
   map glitch_id (glitchesByCategory Coordinates) =
     [''off-by-one'', ''flipped-axis'', ''uv-wrapping'', ''aspect-ratio'', ''sampling'',
      ''half-pixel'', ''mipmap'']"
proof (intro conjI allI)
  show "distinct (map glitch_id glitches)"
    by (simp add: glitches_def glitch_defs)
next
  fix c
  show "subseq (glitchesByCategory c) glitches"
    by (simp add: glitchesByCategory_def)
  show "set (glitchesByCategory c) = {g. g \<in> set glitches \<and> glitch_category g = c}"
    by (auto simp: glitchesByCategory_def)
next
  show "map glitch_id (glitchesByCategory PixelFormat) =
     [''rgba-as-rgb'', ''rgb-as-rgba'', ''bgr-swap'', ''argb-order'', ''endianness'',
      ''channel-shift'', ''bit-depth'', ''gamma'', ''premultiplied-alpha'', ''signed-unsigned'',
      ''compression'', ''yuv'', ''float-precision'']"
    by (simp add: glitchesByCategory_def glitches_def glitch_defs)
  show "map glitch_id (glitchesByCategory MemoryLayout) =
     [''wrong-stride'', ''wrong-pitch'', ''row-padding'', ''alignment'', ''swizzle'']"
    by (simp add: glitchesByCategory_def glitches_def glitch_defs)
  show "map glitch_id (glitchesByCategory Coordinates) =
     [''off-by-one'', ''flipped-axis'', ''uv-wrapping'', ''aspect-ratio'', ''sampling'',
      ''half-pixel'', ''mipmap'']"
    by (simp add: glitchesByCategory_def glitches_def glitch_defs)
qed

text \<open>
  C7. For a well-formed 4x4 bitmap, the first downsampled level that mipmap builds (the
  second entry of \<open>mipLevels\<close>, 2x2) holds, at each of its four pixels and in each of the
  four channels, the average of the corresponding four source samples rounded to the
  nearest integer. This holds for every 4x4 bitmap; when the bitmap consists of four
  uniform 2x2 quadrants the level holds the four quadrant colours, as the witness shows.
  The sums and the division by 4 are computed exactly, as doubles do.
\<close>

theorem mipmap_first_level_box_filter:
  assumes env: "exact_small env" and i: "i < length s" and wf: "well_formed (s ! i)"
    and w: "img_width (s ! i) = 4" and h: "img_height (s ! i) = 4"
  shows "\<exists>levels s'.
           build_mips env [i] (img_width (s ! i)) (img_height (s ! i)) s = (levels, s') \<and>
           length levels = 3 \<and> levels ! 0 = i \<and> s' ! i = s ! i \<and>
           img_width (s' ! (levels ! 1)) = 2 \<and> img_height (s' ! (levels ! 1)) = 2 \<and>
           length (img_data (s' ! (levels ! 1))) = 2 * 2 * 4 \<and>
           (\<forall>y<2. \<forall>x<2. \<forall>k<4.
              img_data (s' ! (levels ! 1)) ! ((y * 2 + x) * 4 + k) =
              box_mean (img_data (s ! i) ! (((y * 2) * 4 + x * 2) * 4 + k))
                       (img_data (s ! i) ! (((y * 2) * 4 + (x * 2 + 1)) * 4 + k))
                       (img_data (s ! i) ! (((y * 2 + 1) * 4 + x * 2) * 4 + k))
                       (img_data (s ! i) ! (((y * 2 + 1) * 4 + (x * 2 + 1)) * 4 + k)))"
proof -
  define d where "d = img_data (s ! i)"
  define d1 where "d1 = fold_yx 2 2 (downsample_px env 4 4 2 d) (replicate (2 * 2 * 4) 0)"
  define m1 where "m1 = \<lparr>img_width = 2, img_height = 2, img_data = d1\<rparr>"
  define s1 where "s1 = s @ [m1]"
  define d2 where "d2 = fold_yx 1 1 (downsample_px env 2 2 1 d1) (replicate (1 * 1 * 4) 0)"
  define m2 where "m2 = \<lparr>img_width = 1, img_height = 1, img_data = d2\<rparr>"
  have len: "length d = 4 * 4 * 4" using wf w h by (simp add: well_formed_def d_def)
  have e: "max 1 (4 div 2) = (2::nat)" "max 1 (2 div 2) = (1::nat)" by simp_all
  have st1: "mip_step env i 4 4 s = (length s, 2, 2, s1)"
    using mip_step_eq[OF i, of env 4 4] by (simp only: e s1_def m1_def d1_def d_def)
  have i1: "length s < length s1" by (simp add: s1_def)
  have st2: "mip_step env (length s) 2 2 s1 = (length s1, 1, 1, s1 @ [m2])"
    using mip_step_eq[OF i1, of env 2 2]
    by (simp only: e m2_def d2_def) (simp add: s1_def m1_def)
  have b: "build_mips env [i] 4 4 s = ([i, length s, length s1], s1 @ [m2])"
    by (simp add: build_mips.simps[of env _ 4 4] build_mips.simps[of env _ 2 2]
        build_mips.simps[of env _ 1 1] st1 st2)
  have px: "length d1 = 4 div 2 * (4 div 2) * 4 \<and>
         (\<forall>y<4 div 2. \<forall>x<4 div 2. \<forall>k<4. d1 ! ((y * (4 div 2) + x) * 4 + k) =
            box_mean (d ! (((y * 2) * 4 + x * 2) * 4 + k))
                     (d ! (((y * 2) * 4 + (x * 2 + 1)) * 4 + k))
                     (d ! (((y * 2 + 1) * 4 + x * 2) * 4 + k))
                     (d ! (((y * 2 + 1) * 4 + (x * 2 + 1)) * 4 + k)))"
    using downsample_pixels[OF env, of 4 4 d] len by (simp add: d1_def)
  have at: "(s1 @ [m2]) ! length s = m1" "(s1 @ [m2]) ! i = s ! i"
    using i by (simp_all add: s1_def nth_append)
  show ?thesis
    unfolding w h b using px
    by (simp add: at m1_def d_def)
qed

theorem mipmap_first_level_box_filter_witness:
  "exact_small exact_env \<and>
   0 < length [\<lparr>img_width = 4, img_height = 4, img_data =
      [10, 20, 30, 255, 10, 20, 30, 255, 50, 60, 70, 255, 50, 60, 70, 255, 10, 20, 30, 255, 10, 20, 30, 255, 50, 60, 70, 255, 50, 60, 70, 255, 90, 100, 110, 255, 90, 100, 110, 255, 200, 210, 220, 250, 200, 210, 220, 250, 90, 100, 110, 255, 90, 100, 110, 255, 200, 210, 220, 250, 200, 210, 220, 250]\<rparr>] \<and>
   well_formed \<lparr>img_width = 4, img_height = 4, img_data =
      [10, 20, 30, 255, 10, 20, 30, 255, 50, 60, 70, 255, 50, 60, 70, 255, 10, 20, 30, 255, 10, 20, 30, 255, 50, 60, 70, 255, 50, 60, 70, 255, 90, 100, 110, 255, 90, 100, 110, 255, 200, 210, 220, 250, 200, 210, 220, 250, 90, 100, 110, 255, 90, 100, 110, 255, 200, 210, 220, 250, 200, 210, 220, 250]\<rparr> \<and>
   (\<exists>levels s'.
      build_mips exact_env [0] 4 4 [\<lparr>img_width = 4, img_height = 4, img_data =
      [10, 20, 30, 255, 10, 20, 30, 255, 50, 60, 70, 255, 50, 60, 70, 255, 10, 20, 30, 255, 10, 20, 30, 255, 50, 60, 70, 255, 50, 60, 70, 255, 90, 100, 110, 255, 90, 100, 110, 255, 200, 210, 220, 250, 200, 210, 220, 250, 90, 100, 110, 255, 90, 100, 110, 255, 200, 210, 220, 250, 200, 210, 220, 250]\<rparr>] = (levels, s') \<and>
      img_data (s' ! (levels ! 1)) ! 0 = 10 \<and>
      img_data (s' ! (levels ! 1)) ! 1 = 20 \<and>
      img_data (s' ! (levels ! 1)) ! 2 = 30 \<and>
      img_data (s' ! (levels ! 1)) ! 3 = 255 \<and>
      img_data (s' ! (levels ! 1)) ! 4 = 50 \<and>
      img_data (s' ! (levels ! 1)) ! 5 = 60 \<and>
      img_data (s' ! (levels ! 1)) ! 6 = 70 \<and>
      img_data (s' ! (levels ! 1)) ! 7 = 255 \<and>
      img_data (s' ! (levels ! 1)) ! 8 = 90 \<and>
      img_data (s' ! (levels ! 1)) ! 9 = 100 \<and>
      img_data (s' ! (levels ! 1)) ! 10 = 110 \<and>
      img_data (s' ! (levels ! 1)) ! 11 = 255 \<and>
      img_data (s' ! (levels ! 1)) ! 12 = 200 \<and>
      img_data (s' ! (levels ! 1)) ! 13 = 210 \<and>
      img_data (s' ! (levels ! 1)) ! 14 = 220 \<and>
      img_data (s' ! (levels ! 1)) ! 15 = 250)"
proof -
  define img where "img = \<lparr>img_width = 4, img_height = 4, img_data =
      [10, 20, 30, 255, 10, 20, 30, 255, 50, 60, 70, 255, 50, 60, 70, 255, 10, 20, 30, 255, 10, 20, 30, 255, 50, 60, 70, 255, 50, 60, 70, 255, 90, 100, 110, 255, 90, 100, 110, 255, 200, 210, 220, 250, 200, 210, 220, 250, 90, 100, 110, 255, 90, 100, 110, 255, 200, 210, 220, 250, 200, 210, 220, 250]\<rparr>"
  have d: "img_data img = [10, 20, 30, 255, 10, 20, 30, 255, 50, 60, 70, 255, 50, 60, 70, 255, 10, 20, 30, 255, 10, 20, 30, 255, 50, 60, 70, 255, 50, 60, 70, 255, 90, 100, 110, 255, 90, 100, 110, 255, 200, 210, 220, 250, 200, 210, 220, 250, 90, 100, 110, 255, 90, 100, 110, 255, 200, 210, 220, 250, 200, 210, 220, 250]" by (simp add: img_def)
  have "\<exists>levels s'.
           build_mips exact_env [0] (img_width ([img] ! 0)) (img_height ([img] ! 0)) [img] = (levels, s') \<and>
           length levels = 3 \<and> levels ! 0 = 0 \<and> s' ! 0 = [img] ! 0 \<and>
           img_width (s' ! (levels ! 1)) = 2 \<and> img_height (s' ! (levels ! 1)) = 2 \<and>
           length (img_data (s' ! (levels ! 1))) = 2 * 2 * 4 \<and>
           (\<forall>y<2. \<forall>x<2. \<forall>k<4.
              img_data (s' ! (levels ! 1)) ! ((y * 2 + x) * 4 + k) =
              box_mean (img_data ([img] ! 0) ! (((y * 2) * 4 + x * 2) * 4 + k))
                       (img_data ([img] ! 0) ! (((y * 2) * 4 + (x * 2 + 1)) * 4 + k))
                       (img_data ([img] ! 0) ! (((y * 2 + 1) * 4 + x * 2) * 4 + k))
                       (img_data ([img] ! 0) ! (((y * 2 + 1) * 4 + (x * 2 + 1)) * 4 + k)))"
    by (rule mipmap_first_level_box_filter) (simp_all add: img_def well_formed_def)
  then obtain levels s' where b: "build_mips exact_env [0] 4 4 [img] = (levels, s')"
    and sh: "\<And>y x k. y < 2 \<Longrightarrow> x < 2 \<Longrightarrow> k < 4 \<Longrightarrow>
              img_data (s' ! (levels ! 1)) ! ((y * 2 + x) * 4 + k) =
              box_mean (img_data img ! (((y * 2) * 4 + x * 2) * 4 + k))
                       (img_data img ! (((y * 2) * 4 + (x * 2 + 1)) * 4 + k))
                       (img_data img ! (((y * 2 + 1) * 4 + x * 2) * 4 + k))
                       (img_data img ! (((y * 2 + 1) * 4 + (x * 2 + 1)) * 4 + k))"
    by (auto simp: img_def)
  have "img_data (s' ! (levels ! 1)) ! 0 = 10 \<and>
      img_data (s' ! (levels ! 1)) ! 1 = 20 \<and>
      img_data (s' ! (levels ! 1)) ! 2 = 30 \<and>
      img_data (s' ! (levels ! 1)) ! 3 = 255 \<and>
      img_data (s' ! (levels ! 1)) ! 4 = 50 \<and>
      img_data (s' ! (levels ! 1)) ! 5 = 60 \<and>
      img_data (s' ! (levels ! 1)) ! 6 = 70 \<and>
      img_data (s' ! (levels ! 1)) ! 7 = 255 \<and>
      img_data (s' ! (levels ! 1)) ! 8 = 90 \<and>
      img_data (s' ! (levels ! 1)) ! 9 = 100 \<and>
      img_data (s' ! (levels ! 1)) ! 10 = 110 \<and>
      img_data (s' ! (levels ! 1)) ! 11 = 255 \<and>
      img_data (s' ! (levels ! 1)) ! 12 = 200 \<and>
      img_data (s' ! (levels ! 1)) ! 13 = 210 \<and>
      img_data (s' ! (levels ! 1)) ! 14 = 220 \<and>
      img_data (s' ! (levels ! 1)) ! 15 = 250"
    using sh[of 0 0 0] sh[of 0 0 1] sh[of 0 0 2] sh[of 0 0 3] sh[of 0 1 0] sh[of 0 1 1] sh[of 0 1 2] sh[of 0 1 3] sh[of 1 0 0] sh[of 1 0 1] sh[of 1 0 2] sh[of 1 0 3] sh[of 1 1 0] sh[of 1 1 1] sh[of 1 1 2] sh[of 1 1 3]
    unfolding d by (simp add: numeral_2_eq_2[symmetric])
  then show ?thesis using b unfolding img_def by (simp add: well_formed_def)
qed

text \<open>
  C1. For every transform of the registered catalog and every bitmap in the heap, with any
  parameter map: whenever \<open>apply\<close> returns, the bitmap it returns has the width and the
  height of the input and a buffer of \<open>width * height * 4\<close> samples. The output is
  allocated with the dimensions of the input, so the statement does not need the input
  to be well formed. The call does return, for every parameter map, for all transforms
  but three, and for these three under the conditions given: compression when
  \<open>blockSize\<close> resolves to a string, sampling outside the mode \<open>Bad bilinear (blurry)\<close> or
  when its \<open>scale\<close> resolves to an integer (the doubles being exact on integers), mipmap
  when \<open>lodBias\<close> resolves to a number that is not negative.
\<close>

theorem glitches_preserve_shape:
  assumes "t \<in> set glitches" and "i < length s"
  shows "(\<forall>out s'. glitch_apply t env i params s = (Returns out, s') \<longrightarrow>
            out < length s' \<and>
            img_width (s' ! out) = img_width (s ! i) \<and>
            img_height (s' ! out) = img_height (s ! i) \<and>
            length (img_data (s' ! out)) = img_width (s ! i) * img_height (s ! i) * 4) \<and>
         ((glitch_id t = ''compression'' \<longrightarrow>
             is_str (js_or (getp params ''blockSize'') (Str ''8x8 (JPEG)''))) \<and>
          (glitch_id t = ''sampling'' \<longrightarrow>
             js_or (getp params ''mode'') (Str ''Nearest (blocky)'') \<noteq> Str ''Bad bilinear (blurry)'' \<or>
             (exact_small env \<and> (\<exists>k \<le> 2 ^ 51. js_or (getp params ''scale'') (N 4) = N k))) \<and>
          (glitch_id t = ''mipmap'' \<longrightarrow>
             (\<exists>r\<ge>0. js_or (getp params ''lodBias'') (N 2) = Num (Fin r))) \<longrightarrow>
          (\<exists>out s'. glitch_apply t env i params s = (Returns out, s')))"
proof -
  obtain G where G: "allocates (\<lambda>i. glitch_apply t env i params) G"
    and tot: "(glitch_id t = ''compression'' \<longrightarrow>
             is_str (js_or (getp params ''blockSize'') (Str ''8x8 (JPEG)''))) \<and>
          (glitch_id t = ''sampling'' \<longrightarrow>
             js_or (getp params ''mode'') (Str ''Nearest (blocky)'') \<noteq> Str ''Bad bilinear (blurry)'' \<or>
             (exact_small env \<and> (\<exists>k \<le> 2 ^ 51. js_or (getp params ''scale'') (N 4) = N k))) \<and>
          (glitch_id t = ''mipmap'' \<longrightarrow>
             (\<exists>r\<ge>0. js_or (getp params ''lodBias'') (N 2) = Num (Fin r))) \<Longrightarrow>
          (\<forall>img. fst (G img) = None)"
    using glitches_allocate[OF assms(1), of env params] by blast
  have shape: "out < length s' \<and>
            img_width (s' ! out) = img_width (s ! i) \<and>
            img_height (s' ! out) = img_height (s ! i) \<and>
            length (img_data (s' ! out)) = img_width (s ! i) * img_height (s ! i) * 4"
    if "glitch_apply t env i params s = (Returns out, s')" for out s'
    using allocates_shape[OF G assms(2) that] by simp
  have ret: "\<exists>out s'. glitch_apply t env i params s = (Returns out, s')"
    if "\<forall>img. fst (G img) = None"
    using allocates_returns[OF G assms(2)] that by simp
  show ?thesis
  proof (intro conjI allI impI)
    fix out s' assume r: "glitch_apply t env i params s = (Returns out, s')"
    show "out < length s'" "img_width (s' ! out) = img_width (s ! i)"
      "img_height (s' ! out) = img_height (s ! i)"
      "length (img_data (s' ! out)) = img_width (s ! i) * img_height (s ! i) * 4"
      using shape[OF r] by simp_all
  next
    assume "(glitch_id t = ''compression'' \<longrightarrow>
             is_str (js_or (getp params ''blockSize'') (Str ''8x8 (JPEG)''))) \<and>
          (glitch_id t = ''sampling'' \<longrightarrow>
             js_or (getp params ''mode'') (Str ''Nearest (blocky)'') \<noteq> Str ''Bad bilinear (blurry)'' \<or>
             (exact_small env \<and> (\<exists>k \<le> 2 ^ 51. js_or (getp params ''scale'') (N 4) = N k))) \<and>
          (glitch_id t = ''mipmap'' \<longrightarrow>
             (\<exists>r\<ge>0. js_or (getp params ''lodBias'') (N 2) = Num (Fin r)))"
    then show "\<exists>out s'. glitch_apply t env i params s = (Returns out, s')"
      by (intro ret tot)
  qed
qed

theorem glitches_preserve_shape_witness:
  "sampling \<in> set glitches \<and>
   0 < length [\<lparr>img_width = 2, img_height = 1, img_data = [10, 20, 30, 40, 50, 60, 70, 80]\<rparr>] \<and>
   (\<exists>out s'.
      glitch_apply sampling exact_env 0
        [''mode'' \<mapsto> Str ''Bad bilinear (blurry)'', ''scale'' \<mapsto> N 2]
        [\<lparr>img_width = 2, img_height = 1, img_data = [10, 20, 30, 40, 50, 60, 70, 80]\<rparr>]
        = (Returns out, s') \<and>
      out < length s' \<and> img_width (s' ! out) = 2 \<and> img_height (s' ! out) = 1 \<and>
      length (img_data (s' ! out)) = 8)"
proof -
  let ?bm = "\<lparr>img_width = 2, img_height = 1, img_data = [10, 20, 30, 40, 50, 60, 70, 80 :: byte]\<rparr>"
  let ?ps = "[''mode'' \<mapsto> Str ''Bad bilinear (blurry)'', ''scale'' \<mapsto> N 2]"
  have m: "sampling \<in> set glitches" by (simp add: glitches_def)
  have i: "0 < length [?bm]" by simp
  note T = glitches_preserve_shape[OF m i, of exact_env ?ps]
  have sc: "js_or (getp ?ps ''scale'') (N 4) = N 2" by (simp add: getp_def js_or_def)
  have "\<exists>k \<le> 2 ^ 51. js_or (getp ?ps ''scale'') (N 4) = N k"
    unfolding sc by (rule exI[of _ 2]) simp
  then have c: "(glitch_id sampling = ''compression'' \<longrightarrow>
             is_str (js_or (getp ?ps ''blockSize'') (Str ''8x8 (JPEG)''))) \<and>
          (glitch_id sampling = ''sampling'' \<longrightarrow>
             js_or (getp ?ps ''mode'') (Str ''Nearest (blocky)'') \<noteq> Str ''Bad bilinear (blurry)'' \<or>
             (exact_small exact_env \<and> (\<exists>k \<le> 2 ^ 51. js_or (getp ?ps ''scale'') (N 4) = N k))) \<and>
          (glitch_id sampling = ''mipmap'' \<longrightarrow>
             (\<exists>r\<ge>0. js_or (getp ?ps ''lodBias'') (N 2) = Num (Fin r)))"
    by (simp add: sampling_def exact_small_exact_env)
  obtain out s' where r: "glitch_apply sampling exact_env 0 ?ps [?bm] = (Returns out, s')"
    using T c by blast
  have "out < length s' \<and> img_width (s' ! out) = 2 \<and> img_height (s' ! out) = 1 \<and>
        length (img_data (s' ! out)) = 8"
    using T r by simp
  then show ?thesis using m i r by blast
qed

text \<open>
  C2. For every transform of the registered catalog, every bitmap in the heap and every
  parameter map, calling \<open>apply\<close> leaves the input bitmap as it was, its buffer byte for
  byte, and so every other object that existed before the call; this holds however the
  call ends. The bitmap that the call returns is a new object: its address is not one
  of the heap before the call.
\<close>

theorem glitches_leave_input_unchanged:
  assumes "t \<in> set glitches" and "i < length s"
  shows "img_data (snd (glitch_apply t env i params s) ! i) = img_data (s ! i) \<and>
         length s \<le> length (snd (glitch_apply t env i params s)) \<and>
         (\<forall>j<length s. snd (glitch_apply t env i params s) ! j = s ! j) \<and>
         (\<forall>out. fst (glitch_apply t env i params s) = Returns out \<longrightarrow> length s \<le> out)"
proof -
  obtain G where G: "allocates (\<lambda>i. glitch_apply t env i params) G"
    using glitches_allocate[OF assms(1), of env params] by blast
  have frame: "length s \<le> length (snd (glitch_apply t env i params s))"
    "\<forall>j<length s. snd (glitch_apply t env i params s) ! j = s ! j"
    using allocates_frame[OF G assms(2)] by simp_all
  have fresh: "length s \<le> out" if "fst (glitch_apply t env i params s) = Returns out" for out
    using allocates_shape[OF G assms(2), of out "snd (glitch_apply t env i params s)"] that
    by (simp add: prod_eq_iff)
  show ?thesis using frame fresh assms(2) by simp
qed

theorem glitches_leave_input_unchanged_witness:
  "compression \<in> set glitches \<and>
   0 < length [\<lparr>img_width = 2, img_height = 1, img_data = [10, 20, 30, 40, 50, 60, 70, 80]\<rparr>] \<and>
   snd (glitch_apply compression exact_env 0 [''blockSize'' \<mapsto> N 8]
          [\<lparr>img_width = 2, img_height = 1, img_data = [10, 20, 30, 40, 50, 60, 70, 80]\<rparr>]) ! 0
     = \<lparr>img_width = 2, img_height = 1, img_data = [10, 20, 30, 40, 50, 60, 70, 80]\<rparr>"
proof -
  let ?bm = "\<lparr>img_width = 2, img_height = 1, img_data = [10, 20, 30, 40, 50, 60, 70, 80 :: byte]\<rparr>"
  have m: "compression \<in> set glitches" by (simp add: glitches_def)
  have i: "0 < length [?bm]" by simp
  show ?thesis
    using glitches_leave_input_unchanged[OF m i, of exact_env "[''blockSize'' \<mapsto> N 8]"] m
    by simp
qed

text \<open>
  C3. For every transform of the registered catalog and every parameter map, two calls of
  \<open>apply\<close> on the identical bitmap, wherever it lies and whatever else the two heaps hold,
  end the same way, and when they return, the two bitmaps returned are identical: same
  dimensions and byte-identical buffers. The second call may be made in the heap the
  first one left, where the input is still what it was. Nothing but the input bitmap and
  the parameters enters the result; this includes float-precision, whose corruption is
  keyed by the hash of the coordinates.
\<close>

theorem glitches_deterministic:
  assumes "t \<in> set glitches" and "i1 < length s1" and "i2 < length s2"
    and "s1 ! i1 = s2 ! i2"
  shows "(\<exists>o1 o2. fst (glitch_apply t env i1 params s1) = Returns o1 \<and>
                   fst (glitch_apply t env i2 params s2) = Returns o2 \<and>
                   snd (glitch_apply t env i1 params s1) ! o1 =
                   snd (glitch_apply t env i2 params s2) ! o2) \<or>
         (fst (glitch_apply t env i1 params s1) = fst (glitch_apply t env i2 params s2) \<and>
          (\<forall>out. fst (glitch_apply t env i1 params s1) \<noteq> Returns out))"
proof -
  obtain G where G: "allocates (\<lambda>i. glitch_apply t env i params) G"
    using glitches_allocate[OF assms(1), of env params] by blast
  show ?thesis using allocates_same[OF G assms(2,3,4)] by simp
qed

theorem glitches_deterministic_witness:
  "floatPrecision \<in> set glitches \<and>
   0 < length [\<lparr>img_width = 2, img_height = 1, img_data = [10, 20, 30, 40, 50, 60, 70, 80]\<rparr>] \<and>
   0 < length (snd (glitch_apply floatPrecision exact_env 0 Map.empty
                 [\<lparr>img_width = 2, img_height = 1, img_data = [10, 20, 30, 40, 50, 60, 70, 80]\<rparr>])) \<and>
   [\<lparr>img_width = 2, img_height = 1, img_data = [10, 20, 30, 40, 50, 60, 70, 80]\<rparr>] ! 0 =
     snd (glitch_apply floatPrecision exact_env 0 Map.empty
            [\<lparr>img_width = 2, img_height = 1, img_data = [10, 20, 30, 40, 50, 60, 70, 80]\<rparr>]) ! 0 \<and>
   (\<exists>o1 o2.
      fst (glitch_apply floatPrecision exact_env 0 Map.empty
             [\<lparr>img_width = 2, img_height = 1, img_data = [10, 20, 30, 40, 50, 60, 70, 80]\<rparr>])
        = Returns o1 \<and>
      fst (glitch_apply floatPrecision exact_env 0 Map.empty
             (snd (glitch_apply floatPrecision exact_env 0 Map.empty
                [\<lparr>img_width = 2, img_height = 1, img_data = [10, 20, 30, 40, 50, 60, 70, 80]\<rparr>])))
        = Returns o2 \<and>
      snd (glitch_apply floatPrecision exact_env 0 Map.empty
             [\<lparr>img_width = 2, img_height = 1, img_data = [10, 20, 30, 40, 50, 60, 70, 80]\<rparr>]) ! o1 =
      snd (glitch_apply floatPrecision exact_env 0 Map.empty
             (snd (glitch_apply floatPrecision exact_env 0 Map.empty
                [\<lparr>img_width = 2, img_height = 1, img_data = [10, 20, 30, 40, 50, 60, 70, 80]\<rparr>]))) ! o2)"
proof -
  let ?bm = "\<lparr>img_width = 2, img_height = 1, img_data = [10, 20, 30, 40, 50, 60, 70, 80 :: byte]\<rparr>"
  let ?A = "glitch_apply floatPrecision exact_env 0 Map.empty"
  have m: "floatPrecision \<in> set glitches" by (simp add: glitches_def)
  have i: "0 < length [?bm]" by simp
  obtain G where G: "allocates (\<lambda>i. glitch_apply floatPrecision exact_env i Map.empty) G"
    and tot: "\<forall>img. fst (G img) = None"
    using floatPrecision_allocates[of exact_env Map.empty] by (auto simp: floatPrecision_def)
  have fr: "length [?bm] \<le> length (snd (?A [?bm]))" "snd (?A [?bm]) ! 0 = [?bm] ! 0"
    using allocates_frame[OF G i] by simp_all
  have i2: "0 < length (snd (?A [?bm]))" using fr(1) by (simp add: Suc_le_eq)
  have same: "[?bm] ! 0 = snd (?A [?bm]) ! 0" using fr(2) by simp
  obtain o1 s1 where r1: "?A [?bm] = (Returns o1, s1)"
    using allocates_returns[OF G i] tot by auto
  note T = glitches_deterministic[OF m i i2 same, of exact_env Map.empty]
  have "\<exists>o1 o2. fst (?A [?bm]) = Returns o1 \<and> fst (?A (snd (?A [?bm]))) = Returns o2 \<and>
          snd (?A [?bm]) ! o1 = snd (?A (snd (?A [?bm]))) ! o2"
    using T r1 by auto
  then show ?thesis using m i i2 same by blast
qed

end
